theory Spec2Isabelle
  imports Complex_Main
begin

section \<open>Numbers\<close>

text \<open>
  The engine computes on JavaScript numbers.  They are modelled as real numbers: every
  statement below is about the arithmetic the source writes down, evaluated exactly,
  without the rounding of IEEE doubles.  No division of the source can meet a zero
  divisor on the paths modelled (each is guarded by a threshold test), so the total
  division of HOL is never consulted at 0.  A property lookup that yields
  \<^verbatim>\<open>undefined\<close> is modelled by \<open>None\<close>.
\<close>

text \<open>\<^verbatim>\<open>Math.atan2(y, x)\<close> on real arguments (no signed zeros).\<close>

definition atan2 :: "real \<Rightarrow> real \<Rightarrow> real" where
  "atan2 y x =
     (if 0 < x then arctan (y / x)
      else if x < 0 \<and> 0 \<le> y then arctan (y / x) + pi
      else if x < 0 then arctan (y / x) - pi
      else if 0 < y then pi / 2
      else if y < 0 then - (pi / 2)
      else 0)"

section \<open>Configuration: the constant object \<^verbatim>\<open>PHYSICS_CONFIG\<close>\<close>

text \<open>\<^verbatim>\<open>PHYSICS_CONFIG.world\<close>\<close>

definition gravity :: real where "gravity = 9.81"
definition table_friction_slide :: real where "table_friction_slide = 0.025"
definition table_friction_roll :: real where "table_friction_roll = 0.002"
definition nap_drift_factor :: real where "nap_drift_factor = 0.0002"
definition nap_direction :: "real \<times> real" where "nap_direction = (0, -1)"

text \<open>\<^verbatim>\<open>PHYSICS_CONFIG.ball\<close>\<close>

definition mass :: real where "mass = 0.142"
definition radius :: real where "radius = 0.02625"
definition restitution_ball_ball :: real where "restitution_ball_ball = 0.98"
definition restitution_ball_cushion :: real where "restitution_ball_cushion = 0.88"
definition friction_ball_ball :: real where "friction_ball_ball = 0.04"
definition friction_cushion :: real where "friction_cushion = 0.10"

text \<open>\<^verbatim>\<open>PHYSICS_CONFIG.cushion\<close>\<close>

definition height_ratio :: real where "height_ratio = 0.7"
definition compression_factor :: real where "compression_factor = 0.08"
definition restitution_perpendicular :: real where "restitution_perpendicular = 0.80"
definition restitution_glancing :: real where "restitution_glancing = 0.94"

text \<open>\<^verbatim>\<open>PHYSICS_CONFIG.thresholds\<close>\<close>

definition velocity_stop :: real where "velocity_stop = 0.002"
definition angular_stop :: real where "angular_stop = 0.03"
definition slip_threshold :: real where "slip_threshold = 0.008"

text \<open>\<^verbatim>\<open>PHYSICS_CONFIG.collision\<close>\<close>

definition contact_duration :: real where "contact_duration = 0.0002"
definition friction_accumulation :: real where "friction_accumulation = 1.2"

text \<open>Moment of inertia of a solid sphere, \<open>I = (2/5) m R\<^sup>2\<close>.\<close>

definition MOMENT_OF_INERTIA :: real where
  "MOMENT_OF_INERTIA = (2 / 5) * mass * radius * radius"

section \<open>Ball state: the class \<^verbatim>\<open>BallState\<close>\<close>

text \<open>An object \<^verbatim>\<open>{x, y, z}\<close>.\<close>

record vec3 =
  X :: real
  Y :: real
  Z :: real

text \<open>
  The own properties of a ball state, and \<open>hasGetters\<close>: whether the object is an
  instance of the class, so that the getters \<^verbatim>\<open>speed\<close>, \<^verbatim>\<open>angularSpeed\<close>,
  \<^verbatim>\<open>surfaceVelocity\<close>, \<^verbatim>\<open>slipVelocity\<close> and \<^verbatim>\<open>slipSpeed\<close> of the prototype
  are found.  On a plain object with the same own properties the lookup of any of them
  gives \<^verbatim>\<open>undefined\<close>.
\<close>

record BallState =
  position :: vec3
  velocity :: vec3
  angularVelocity :: vec3
  phase :: string
  phaseTime :: real
  hasGetters :: bool

text \<open>The constructor.\<close>

definition BallState_new :: BallState where
  "BallState_new =
     \<lparr>position = \<lparr>X = 0, Y = 0, Z = 0\<rparr>,
      velocity = \<lparr>X = 0, Y = 0, Z = 0\<rparr>,
      angularVelocity = \<lparr>X = 0, Y = 0, Z = 0\<rparr>,
      phase = ''stationary'',
      phaseTime = 0,
      hasGetters = True\<rparr>"

text \<open>The bodies of the getters.  Objects \<^verbatim>\<open>{x, z}\<close> are pairs.\<close>

definition speed :: "BallState \<Rightarrow> real" where
  "speed s = sqrt (X (velocity s) * X (velocity s) + Z (velocity s) * Z (velocity s))"

definition angularSpeed :: "BallState \<Rightarrow> real" where
  "angularSpeed s =
     sqrt (X (angularVelocity s) * X (angularVelocity s)
         + Y (angularVelocity s) * Y (angularVelocity s)
         + Z (angularVelocity s) * Z (angularVelocity s))"

definition surfaceVelocity :: "BallState \<Rightarrow> real \<times> real" where
  "surfaceVelocity s =
     (let R = radius in (Z (angularVelocity s) * R, - X (angularVelocity s) * R))"

definition slipVelocity :: "BallState \<Rightarrow> real \<times> real" where
  "slipVelocity s =
     (let surface = surfaceVelocity s
      in (X (velocity s) - fst surface, Z (velocity s) - snd surface))"

definition slipSpeed :: "BallState \<Rightarrow> real" where
  "slipSpeed s = (let slip = slipVelocity s in sqrt (fst slip * fst slip + snd slip * snd slip))"

definition isRolling :: "BallState \<Rightarrow> bool" where
  "isRolling s \<longleftrightarrow> slipSpeed s < slip_threshold"

text \<open>
  The property lookup \<^verbatim>\<open>state.speed\<close> is \<open>getProp speed state\<close>, and likewise for the
  other getters.  A comparison with \<^verbatim>\<open>undefined\<close> is false.
\<close>

definition getProp :: "(BallState \<Rightarrow> 'a) \<Rightarrow> BallState \<Rightarrow> 'a option" where
  "getProp getter s = (if hasGetters s then Some (getter s) else None)"

definition js_lt :: "real option \<Rightarrow> real \<Rightarrow> bool" where
  "js_lt a b = (case a of None \<Rightarrow> False | Some v \<Rightarrow> v < b)"

definition js_gt :: "real option \<Rightarrow> real \<Rightarrow> bool" where
  "js_gt a b = (case a of None \<Rightarrow> False | Some v \<Rightarrow> v > b)"

text \<open>
  \<^verbatim>\<open>JSON.parse(JSON.stringify(state))\<close>: a plain object with copies of the own
  properties.  The getters live on the prototype, are not serialised, and the copy does
  not have them.
\<close>

definition JSON_copy :: "BallState \<Rightarrow> BallState" where
  "JSON_copy s = s\<lparr>hasGetters := False\<rparr>"

text \<open>The energies reported by \<^verbatim>\<open>getBallDiagnostics\<close>.\<close>

definition kineticEnergy :: "BallState \<Rightarrow> real" where
  "kineticEnergy s = 0.5 * mass * speed s * speed s"

definition rotationalEnergy :: "BallState \<Rightarrow> real" where
  "rotationalEnergy s = 0.5 * MOMENT_OF_INERTIA * angularSpeed s * angularSpeed s"

section \<open>The phase integrator: \<^verbatim>\<open>updateBallPhysics\<close>\<close>

text \<open>
  The sliding branch (\<^verbatim>\<open>slipSpeed > slip_threshold\<close>).  \<open>slip\<close> and \<open>slipSpeed\<close>
  are the values read from the getters before the branch.  The target spin is computed
  from the velocity already reduced by friction.
\<close>

definition slidingBranch :: "BallState \<Rightarrow> real \<Rightarrow> real \<times> real \<Rightarrow> real \<Rightarrow> BallState" where
  "slidingBranch state dt slip slipSpeed' =
     (let g = gravity; R = radius; m = mass; I = MOMENT_OF_INERTIA;
          state1 = state\<lparr>phase := ''sliding''\<rparr>;
          mu_s = table_friction_slide;
          frictionAccel = mu_s * g;
          slipDirX = fst slip / slipSpeed';
          slipDirZ = snd slip / slipSpeed';
          decelLinear = frictionAccel * dt;
          state2 = state1\<lparr>velocity := (velocity state1)
                     \<lparr>X := X (velocity state1) - slipDirX * decelLinear * 0.15,
                      Z := Z (velocity state1) - slipDirZ * decelLinear * 0.15\<rparr>\<rparr>;
          angularAccel = (mu_s * m * g * R) / I;
          angularChange = angularAccel * dt * 3.0;
          targetAngX = - Z (velocity state2) / R;
          targetAngZ = X (velocity state2) / R;
          angDiffX = targetAngX - X (angularVelocity state2);
          angDiffZ = targetAngZ - Z (angularVelocity state2);
          angDiffMag = sqrt (angDiffX * angDiffX + angDiffZ * angDiffZ)
      in if angDiffMag > 0.01 then
           let changeX = (angDiffX / angDiffMag) * angularChange;
               changeZ = (angDiffZ / angDiffMag) * angularChange
           in state2\<lparr>angularVelocity := (angularVelocity state2)
                     \<lparr>X := X (angularVelocity state2) + changeX,
                      Z := Z (angularVelocity state2) + changeZ\<rparr>\<rparr>
         else state2)"

text \<open>
  The rolling branch.  With \<^verbatim>\<open>state.speed\<close> undefined the test
  \<^verbatim>\<open>speed > 0.001\<close> is false and only the phase is written.
\<close>

definition rollingBranch :: "BallState \<Rightarrow> real \<Rightarrow> BallState" where
  "rollingBranch state dt =
     (let g = gravity; R = radius;
          state1 = state\<lparr>phase := ''rolling''\<rparr>;
          mu_r = table_friction_roll;
          rollingDecel = mu_r * g
      in case getProp speed state1 of
           None \<Rightarrow> state1
         | Some speed' \<Rightarrow>
             if speed' > 0.001 then
               let deltaV = rollingDecel * dt;
                   newSpeed = max 0 (speed' - deltaV);
                   state2 =
                     (if speed' > 0.0001 then
                        let scaleFactor = newSpeed / speed'
                        in state1\<lparr>velocity := (velocity state1)
                             \<lparr>X := X (velocity state1) * scaleFactor,
                              Z := Z (velocity state1) * scaleFactor\<rparr>\<rparr>
                      else state1)
               in state2\<lparr>angularVelocity := (angularVelocity state2)
                     \<lparr>X := - Z (velocity state2) / R,
                      Z := X (velocity state2) / R\<rparr>\<rparr>
             else state1)"

text \<open>Decay of the side spin \<open>\<omega>\<^sub>y\<close>; \<^verbatim>\<open>Math.pow\<close> on a positive base is \<open>powr\<close>.\<close>

definition sideSpinStep :: "BallState \<Rightarrow> real \<Rightarrow> BallState" where
  "sideSpinStep state dt =
     (let sideSpinDecayRate = 0.995;
          sideSpinDecay = sideSpinDecayRate powr (dt * 60)
      in state\<lparr>angularVelocity := (angularVelocity state)
           \<lparr>Y := Y (angularVelocity state) * sideSpinDecay\<rparr>\<rparr>)"

text \<open>The swerve effect.\<close>

definition swerveStep :: "BallState \<Rightarrow> real \<Rightarrow> BallState" where
  "swerveStep state dt =
     (if \<bar>Y (angularVelocity state)\<bar> > 0.5 \<and> js_gt (getProp speed state) 0.02 then
        let speed' = speed state;
            optimalSpeed = 1.5;
            speedRatio = speed' / optimalSpeed;
            sigma = 1.2;
            bellCurve = exp (- ((speedRatio - 1) ^ 2) / (sigma * sigma));
            lowSpeedFactor = min 1 (speed' / 0.3);
            baseSwerveCoeff = 0.00035;
            effectiveSwerveCoeff = baseSwerveCoeff * bellCurve * lowSpeedFactor;
            swerveForce = Y (angularVelocity state) * effectiveSwerveCoeff * dt;
            perpX = - Z (velocity state) / speed';
            perpZ = X (velocity state) / speed';
            speedDamping = 1 / (1 + speed' * 0.3)
        in state\<lparr>velocity := (velocity state)
             \<lparr>X := X (velocity state) + perpX * swerveForce * speed' * speedDamping,
              Z := Z (velocity state) + perpZ * swerveForce * speed' * speedDamping\<rparr>\<rparr>
      else state)"

text \<open>
  The nap effect.  With \<^verbatim>\<open>state.speed\<close> undefined neither comparison of the guard
  holds, the direction and \<^verbatim>\<open>napDot\<close> are NaN, the test \<^verbatim>\<open>napDot < -0.3\<close> is
  false, and nothing is written.
\<close>

definition applyNapEffect :: "BallState \<Rightarrow> real \<Rightarrow> BallState" where
  "applyNapEffect state dt =
     (let napFactor = nap_drift_factor;
          napDir = nap_direction
      in case getProp speed state of
           None \<Rightarrow> state
         | Some speed' \<Rightarrow>
             if speed' < 0.05 \<or> speed' > 0.5 then state
             else
               let velDirX = X (velocity state) / speed';
                   velDirZ = Z (velocity state) / speed';
                   napDot = velDirX * fst napDir + velDirZ * snd napDir
               in if napDot < - 0.3 then
                    let extraDecel = napFactor * \<bar>napDot\<bar> * gravity * dt
                    in state\<lparr>velocity := (velocity state)
                         \<lparr>X := X (velocity state) - velDirX * extraDecel,
                          Z := Z (velocity state) - velDirZ * extraDecel\<rparr>\<rparr>
                  else state)"

definition updateBallPhysics :: "BallState \<Rightarrow> real \<Rightarrow> BallState" where
  "updateBallPhysics state dt =
     (if js_lt (getProp speed state) velocity_stop
         \<and> js_lt (getProp angularSpeed state) angular_stop then
        state\<lparr>velocity := \<lparr>X = 0, Y = 0, Z = 0\<rparr>,
              angularVelocity := \<lparr>X = 0, Y = 0, Z = 0\<rparr>,
              phase := ''stationary''\<rparr>
      else
        let state1 =
              (case (getProp slipVelocity state, getProp slipSpeed state) of
                 (Some slip, Some slipSpeed') \<Rightarrow>
                   if slipSpeed' > slip_threshold then slidingBranch state dt slip slipSpeed'
                   else rollingBranch state dt
               | _ \<Rightarrow> rollingBranch state dt);
            state2 = sideSpinStep state1 dt;
            state3 = swerveStep state2 dt;
            state4 = applyNapEffect state3 dt;
            state5 = state4\<lparr>position := (position state4)
                       \<lparr>X := X (position state4) + X (velocity state4) * dt,
                        Z := Z (position state4) + Z (velocity state4) * dt\<rparr>\<rparr>
        in state5\<lparr>phaseTime := phaseTime state5 + dt\<rparr>)"

text \<open>The test of the stop branch of \<^verbatim>\<open>updateBallPhysics\<close>.\<close>

definition stopCondition :: "BallState \<Rightarrow> bool" where
  "stopCondition state \<longleftrightarrow>
     js_lt (getProp speed state) velocity_stop \<and> js_lt (getProp angularSpeed state) angular_stop"

section \<open>Trajectory prediction: \<^verbatim>\<open>predictTrajectory\<close>\<close>

text \<open>A recorded sample \<^verbatim>\<open>{x, z, phase}\<close>.\<close>

record TrajectoryPoint =
  point_x :: real
  point_z :: real
  point_phase :: string

text \<open>
  The \<^verbatim>\<open>for\<close> loop, by the number of iterations left: a sample is pushed, the copy is
  advanced, and the loop breaks when \<^verbatim>\<open>state.speed < velocity_stop\<close>.
\<close>

fun predictLoop :: "nat \<Rightarrow> BallState \<Rightarrow> real \<Rightarrow> TrajectoryPoint list" where
  "predictLoop 0 state dt = []"
| "predictLoop (Suc n) state dt =
     \<lparr>point_x = X (position state), point_z = Z (position state), point_phase = phase state\<rparr>
       # (let state' = updateBallPhysics state dt
          in if js_lt (getProp speed state') velocity_stop then []
             else predictLoop n state' dt)"

definition predictTrajectory :: "BallState \<Rightarrow> real \<Rightarrow> real \<Rightarrow> TrajectoryPoint list" where
  "predictTrajectory initialState duration dt =
     (let state = JSON_copy initialState;
          steps = \<lceil>duration / dt\<rceil>
      in predictLoop (nat steps) state dt)"

section \<open>Ball-ball collisions: \<^verbatim>\<open>calculateBallCollision\<close>\<close>

text \<open>
  The returned object \<^verbatim>\<open>{ballA, ballB, throwAngle, contactDuration}\<close>; the two early
  returns give \<^verbatim>\<open>{ballA, ballB}\<close> alone.
\<close>

record CollisionResult =
  res_ballA :: BallState
  res_ballB :: BallState
  res_throwAngle :: "real option"
  res_contactDuration :: "real option"

text \<open>
  The penetration correction.  \<open>nx\<close>, \<open>nz\<close> and \<open>dist\<close> are the contact normal and the
  centre distance computed before it.  The source also computes \<^verbatim>\<open>halfPen\<close> and, after
  the correction, \<^verbatim>\<open>dx\<close>, \<^verbatim>\<open>dz\<close> and \<^verbatim>\<open>dist\<close> again; none of them is read
  afterwards.
\<close>

definition penetrationCorrection ::
    "BallState \<Rightarrow> BallState \<Rightarrow> real \<Rightarrow> real \<Rightarrow> real \<Rightarrow> BallState \<times> BallState" where
  "penetrationCorrection ballA ballB nx nz dist' =
     (let R = radius;
          minDist = R * 2
      in if dist' < minDist then
           let penetration = minDist - dist';
               halfPen = penetration / 2 + 0.0005;
               speedA = sqrt (X (velocity ballA) * X (velocity ballA)
                            + Z (velocity ballA) * Z (velocity ballA));
               speedB = sqrt (X (velocity ballB) * X (velocity ballB)
                            + Z (velocity ballB) * Z (velocity ballB));
               totalSpeed = speedA + speedB + 0.001;
               ratioA = speedB / totalSpeed;
               ratioB = speedA / totalSpeed
           in (ballA\<lparr>position := (position ballA)
                 \<lparr>X := X (position ballA) - nx * penetration * ratioA,
                  Z := Z (position ballA) - nz * penetration * ratioA\<rparr>\<rparr>,
               ballB\<lparr>position := (position ballB)
                 \<lparr>X := X (position ballB) + nx * penetration * ratioB,
                  Z := Z (position ballB) + nz * penetration * ratioB\<rparr>\<rparr>)
         else (ballA, ballB))"

text \<open>The friction (throw) impulse; \<^verbatim>\<open>Math.sign\<close> is \<open>sgn\<close>.\<close>

definition frictionImpulseOf :: "real \<Rightarrow> real \<Rightarrow> real \<Rightarrow> real" where
  "frictionImpulseOf totalTangentVel maxFrictionImpulse dvn =
     (let m = mass
      in if \<bar>totalTangentVel\<bar> > 0.01 then
           let desiredImpulse = m * totalTangentVel * 0.5;
               frictionImpulse = sgn totalTangentVel * min maxFrictionImpulse \<bar>desiredImpulse\<bar>;
               speedFactor = min 1.0 (2.0 / (dvn + 0.5))
           in frictionImpulse * (1.0 + (speedFactor - 1.0) * 0.3)
         else 0)"

text \<open>
  The application of the impulses: the new linear velocities, the transfer of spin, the
  spin and phase of the struck ball, the damping of the striking ball's rolling spin,
  and the reset of both phase times.
\<close>

definition applyImpulses ::
    "BallState \<Rightarrow> BallState \<Rightarrow> real \<Rightarrow> real \<Rightarrow> real \<Rightarrow> real \<Rightarrow> real \<Rightarrow> real
       \<Rightarrow> BallState \<times> BallState" where
  "applyImpulses ballA1 ballB1 nx nz tx tz normalImpulse frictionImpulse =
     (let m = mass; R = radius; I = MOMENT_OF_INERTIA;
          ballA2 = ballA1\<lparr>velocity := (velocity ballA1)
            \<lparr>X := X (velocity ballA1) - (normalImpulse * nx + frictionImpulse * tx) / m,
             Z := Z (velocity ballA1) - (normalImpulse * nz + frictionImpulse * tz) / m\<rparr>\<rparr>;
          ballB2 = ballB1\<lparr>velocity := (velocity ballB1)
            \<lparr>X := X (velocity ballB1) + (normalImpulse * nx + frictionImpulse * tx) / m,
             Z := Z (velocity ballB1) + (normalImpulse * nz + frictionImpulse * tz) / m\<rparr>\<rparr>;
          angularChange = frictionImpulse * R / I;
          ballA3 = ballA2\<lparr>angularVelocity := (angularVelocity ballA2)
            \<lparr>Y := Y (angularVelocity ballA2) * 0.90 - angularChange * 0.20\<rparr>\<rparr>;
          ballB3 = ballB2\<lparr>angularVelocity := (angularVelocity ballB2)
            \<lparr>Y := Y (angularVelocity ballB2) + angularChange * 0.15\<rparr>\<rparr>;
          speedB = sqrt (X (velocity ballB3) * X (velocity ballB3)
                       + Z (velocity ballB3) * Z (velocity ballB3));
          ballB4 =
            (if speedB > 0.01 then
               ballB3\<lparr>angularVelocity := (angularVelocity ballB3)
                        \<lparr>X := - Z (velocity ballB3) / R * 0.92,
                         Z := X (velocity ballB3) / R * 0.92\<rparr>,
                      phase := ''sliding''\<rparr>
             else ballB3);
          ballA4 = ballA3\<lparr>angularVelocity := (angularVelocity ballA3)
                            \<lparr>X := X (angularVelocity ballA3) * 0.95,
                             Z := Z (angularVelocity ballA3) * 0.95\<rparr>,
                          phase := ''sliding''\<rparr>;
          ballA5 = ballA4\<lparr>phaseTime := 0\<rparr>;
          ballB5 = ballB4\<lparr>phaseTime := 0\<rparr>
      in (ballA5, ballB5))"

definition calculateBallCollision :: "BallState \<Rightarrow> BallState \<Rightarrow> CollisionResult" where
  "calculateBallCollision ballA ballB =
     (let m = mass; R = radius; e = restitution_ball_ball; mu = friction_ball_ball;
          contactDuration = contact_duration;
          frictionAccum = friction_accumulation;
          dx = X (position ballB) - X (position ballA);
          dz = Z (position ballB) - Z (position ballA);
          dist' = sqrt (dx * dx + dz * dz)
      in if dist' < 0.0001 \<or> dist' > R * 2.5 then
           \<lparr>res_ballA = ballA, res_ballB = ballB,
            res_throwAngle = None, res_contactDuration = None\<rparr>
         else
           let nx = dx / dist';
               nz = dz / dist';
               (ballA1, ballB1) = penetrationCorrection ballA ballB nx nz dist';
               tx = - nz;
               tz = nx;
               dvx = X (velocity ballA1) - X (velocity ballB1);
               dvz = Z (velocity ballA1) - Z (velocity ballB1);
               dvn = dvx * nx + dvz * nz
           in if dvn \<le> 0 then
                \<lparr>res_ballA = ballA1, res_ballB = ballB1,
                 res_throwAngle = None, res_contactDuration = None\<rparr>
              else
                let dvt = dvx * tx + dvz * tz;
                    normalImpulse = (1 + e) * m * dvn / 2;
                    surfaceVelFromSpin = Y (angularVelocity ballA1) * R;
                    totalTangentVel = dvt + surfaceVelFromSpin;
                    maxFrictionImpulse = mu * normalImpulse * frictionAccum;
                    frictionImpulse = frictionImpulseOf totalTangentVel maxFrictionImpulse dvn;
                    (ballA5, ballB5) =
                      applyImpulses ballA1 ballB1 nx nz tx tz normalImpulse frictionImpulse;
                    throwAngle = atan2 \<bar>frictionImpulse\<bar> normalImpulse * 180 / pi
                in \<lparr>res_ballA = ballA5, res_ballB = ballB5,
                    res_throwAngle = Some throwAngle,
                    res_contactDuration = Some contactDuration\<rparr>)"

text \<open>
  The quantities the gates of \<^verbatim>\<open>calculateBallCollision\<close> test, as functions of the two
  input states: the centre distance, the contact normal, and the closing velocity along
  it.
\<close>

definition centerDistance :: "BallState \<Rightarrow> BallState \<Rightarrow> real" where
  "centerDistance ballA ballB =
     (let dx = X (position ballB) - X (position ballA);
          dz = Z (position ballB) - Z (position ballA)
      in sqrt (dx * dx + dz * dz))"

definition contactNormal :: "BallState \<Rightarrow> BallState \<Rightarrow> real \<times> real" where
  "contactNormal ballA ballB =
     (let dx = X (position ballB) - X (position ballA);
          dz = Z (position ballB) - Z (position ballA)
      in (dx / centerDistance ballA ballB, dz / centerDistance ballA ballB))"

definition closingVelocity :: "BallState \<Rightarrow> BallState \<Rightarrow> real" where
  "closingVelocity ballA ballB =
     (let dvx = X (velocity ballA) - X (velocity ballB);
          dvz = Z (velocity ballA) - Z (velocity ballB)
      in dvx * fst (contactNormal ballA ballB) + dvz * snd (contactNormal ballA ballB))"

definition inGatingRange :: "BallState \<Rightarrow> BallState \<Rightarrow> bool" where
  "inGatingRange ballA ballB \<longleftrightarrow>
     \<not> (centerDistance ballA ballB < 0.0001 \<or> centerDistance ballA ballB > radius * 2.5)"

definition impulseExchanged :: "BallState \<Rightarrow> BallState \<Rightarrow> bool" where
  "impulseExchanged ballA ballB \<longleftrightarrow>
     inGatingRange ballA ballB \<and> closingVelocity ballA ballB > 0"

text \<open>
  The impulse \<^verbatim>\<open>calculateBallCollision\<close> applies, as functions of the two input states:
  the tangential relative velocity, the normal impulse, the friction impulse and the two
  plane components of their sum.
\<close>

definition tangentialVelocity :: "BallState \<Rightarrow> BallState \<Rightarrow> real" where
  "tangentialVelocity ballA ballB =
     (let dvx = X (velocity ballA) - X (velocity ballB);
          dvz = Z (velocity ballA) - Z (velocity ballB)
      in dvx * (- snd (contactNormal ballA ballB)) + dvz * fst (contactNormal ballA ballB))"

definition normalImpulseOf :: "BallState \<Rightarrow> BallState \<Rightarrow> real" where
  "normalImpulseOf ballA ballB =
     (1 + restitution_ball_ball) * mass * closingVelocity ballA ballB / 2"

definition throwImpulseOf :: "BallState \<Rightarrow> BallState \<Rightarrow> real" where
  "throwImpulseOf ballA ballB =
     frictionImpulseOf (tangentialVelocity ballA ballB + Y (angularVelocity ballA) * radius)
       (friction_ball_ball * normalImpulseOf ballA ballB * friction_accumulation)
       (closingVelocity ballA ballB)"

definition impulseX :: "BallState \<Rightarrow> BallState \<Rightarrow> real" where
  "impulseX ballA ballB =
     normalImpulseOf ballA ballB * fst (contactNormal ballA ballB)
       + throwImpulseOf ballA ballB * (- snd (contactNormal ballA ballB))"

definition impulseZ :: "BallState \<Rightarrow> BallState \<Rightarrow> real" where
  "impulseZ ballA ballB =
     normalImpulseOf ballA ballB * snd (contactNormal ballA ballB)
       + throwImpulseOf ballA ballB * fst (contactNormal ballA ballB)"

section \<open>Cushion rebounds: \<^verbatim>\<open>calculateCushionRebound\<close>\<close>

text \<open>
  The \<^verbatim>\<open>switch\<close> on the cushion name: the rail normal \<open>(normalX, normalZ)\<close>, pointing
  into the table; any other name leaves it at \<open>(0, 0)\<close>.
\<close>

definition cushionNormal :: "string \<Rightarrow> real \<times> real" where
  "cushionNormal cushion =
     (if cushion = ''left'' then (1, 0)
      else if cushion = ''right'' then (- 1, 0)
      else if cushion = ''top'' then (0, 1)
      else if cushion = ''bottom'' then (0, - 1)
      else (0, 0))"

text \<open>
  The effective coefficient of restitution, from the incidence angle in degrees and the
  impact speed: the four segments, the compression loss, the clamp.
\<close>

definition effectiveCoR :: "real \<Rightarrow> real \<Rightarrow> real" where
  "effectiveCoR angleDeg impactSpeed =
     (let compression = compression_factor;
          corPerpendicular = restitution_perpendicular;
          corGlancing = restitution_glancing;
          effectiveCor0 =
            (if angleDeg < 8 then
               let shallowFactor = angleDeg / 8;
                   smoothFactor = 0.5 - 0.5 * cos (shallowFactor * pi)
               in 0.60 + smoothFactor * (corPerpendicular - 0.60)
             else if angleDeg < 30 then
               let midFactor = (angleDeg - 8) / 22
               in corPerpendicular + midFactor * (0.88 - corPerpendicular)
             else if angleDeg < 60 then
               let wideFactor = (angleDeg - 30) / 30
               in 0.88 + wideFactor * (corGlancing - 0.88)
             else corGlancing);
          speedFactor = min 1 (impactSpeed / 6);
          compressionLoss = compression * speedFactor * 0.3;
          effectiveCor1 = effectiveCor0 * (1 - compressionLoss)
      in max 0.65 (min 0.96 effectiveCor1))"

definition tangentRetentionOf :: "real \<Rightarrow> real" where
  "tangentRetentionOf angleDeg =
     (if angleDeg < 8 then 0.88 + (angleDeg / 8) * 0.08 else 0.97)"

text \<open>The incidence angle in degrees, from the normal and tangential velocity components.\<close>

definition incidenceAngleDeg :: "real \<Rightarrow> real \<Rightarrow> real" where
  "incidenceAngleDeg velTangent velNormal =
     (let incidenceAngle = atan2 \<bar>velTangent\<bar> \<bar>velNormal\<bar>
      in incidenceAngle * 180 / pi)"

definition calculateCushionRebound :: "BallState \<Rightarrow> string \<Rightarrow> real \<Rightarrow> BallState" where
  "calculateCushionRebound ball cushion impactSpeed =
     (let R = radius;
          heightRatio = height_ratio;
          (normalX, normalZ) = cushionNormal cushion;
          tangentX = - normalZ;
          tangentZ = normalX;
          velNormal = X (velocity ball) * normalX + Z (velocity ball) * normalZ;
          velTangent = X (velocity ball) * tangentX + Z (velocity ball) * tangentZ;
          angleDeg = incidenceAngleDeg velTangent velNormal;
          effectiveCor = effectiveCoR angleDeg impactSpeed;
          sideSpin = Y (angularVelocity ball);
          spinInfluence = sideSpin * R * 0.15;
          topBackSpin = X (angularVelocity ball) * tangentZ - Z (angularVelocity ball) * tangentX;
          gripFactor = 1 + topBackSpin * R * heightRatio * 0.012;
          newVelNormal = - velNormal * effectiveCor;
          tangentRetention = tangentRetentionOf angleDeg;
          newVelTangent = velTangent * tangentRetention * gripFactor + spinInfluence
      in ball\<lparr>velocity := (velocity ball)
                \<lparr>X := newVelNormal * normalX + newVelTangent * tangentX,
                 Z := newVelNormal * normalZ + newVelTangent * tangentZ\<rparr>,
              angularVelocity := (angularVelocity ball)
                \<lparr>X := X (angularVelocity ball) * 0.95,
                 Y := Y (angularVelocity ball) * 0.80,
                 Z := Z (angularVelocity ball) * 0.95\<rparr>,
              phase := ''sliding'',
              phaseTime := 0\<rparr>)"

section \<open>Cue strike: \<^verbatim>\<open>applyShot\<close>\<close>

definition applyShot :: "BallState \<Rightarrow> real \<Rightarrow> real \<Rightarrow> real \<Rightarrow> real \<Rightarrow> real \<Rightarrow> BallState" where
  "applyShot ball power' angle spinX spinY maxSpeed =
     (let R = radius;
          m = mass;
          speed' = power' * maxSpeed;
          dirX = sin angle;
          dirZ = cos angle;
          ball1 = ball\<lparr>velocity := (velocity ball)\<lparr>X := dirX * speed', Z := dirZ * speed'\<rparr>\<rparr>;
          naturalAngVelX = - Z (velocity ball1) / R;
          naturalAngVelZ = X (velocity ball1) / R;
          naturalOmega = speed' / R;
          rotAxisX = - dirZ;
          rotAxisZ = dirX;
          spinMagnitude = spinY * naturalOmega * 2.5;
          centerBallBoost = (if spinY = 0 then naturalOmega * 0.4 else 0)
      in ball1\<lparr>angularVelocity :=
                 \<lparr>X = rotAxisX * (spinMagnitude + centerBallBoost),
                  Y = spinX * speed' * 8,
                  Z = rotAxisZ * (spinMagnitude + centerBallBoost)\<rparr>,
               phase := ''sliding'',
               phaseTime := 0\<rparr>)"

text \<open>The default \<^verbatim>\<open>maxSpeed = 8\<close>.\<close>

definition applyShot_default :: "BallState \<Rightarrow> real \<Rightarrow> real \<Rightarrow> real \<Rightarrow> real \<Rightarrow> BallState" where
  "applyShot_default ball power' angle spinX spinY = applyShot ball power' angle spinX spinY 8"

section \<open>Example states\<close>

text \<open>
  The head-on pair: ball A at the origin moving at 2 m/s along \<open>z\<close>, ball B at rest at
  distance \<open>2R\<close> on the same axis.
\<close>

definition headOnA :: BallState where
  "headOnA = BallState_new\<lparr>velocity := \<lparr>X = 0, Y = 0, Z = 2\<rparr>\<rparr>"

definition headOnB :: BallState where
  "headOnB = BallState_new\<lparr>position := \<lparr>X = 0, Y = 0, Z = 2 * radius\<rparr>\<rparr>"

text \<open>
  Ball A at the origin moving at 1 m/s along \<open>z\<close>, away from (\<open>retreatingA\<close>) or
  towards (\<open>advancingA\<close>) a ball B at rest on the positive \<open>z\<close> axis; B at distance
  0.05 (less than \<open>2R = 0.0525\<close>: the balls overlap) or at distance 1 (out of range).
\<close>

definition retreatingA :: BallState where
  "retreatingA = BallState_new\<lparr>velocity := \<lparr>X = 0, Y = 0, Z = - 1\<rparr>\<rparr>"

definition advancingA :: BallState where
  "advancingA = BallState_new\<lparr>velocity := \<lparr>X = 0, Y = 0, Z = 1\<rparr>\<rparr>"

definition overlapB :: BallState where
  "overlapB = BallState_new\<lparr>position := \<lparr>X = 0, Y = 0, Z = 0.05\<rparr>\<rparr>"

definition farB :: BallState where
  "farB = BallState_new\<lparr>position := \<lparr>X = 0, Y = 0, Z = 1\<rparr>\<rparr>"

text \<open>
  A ball carrying a vertical velocity component, at rest in the plane (\<open>liftedBall\<close>) or
  moving along \<open>z\<close> (\<open>liftedMovingBall\<close>), and a slow ball A for the head-on pair.
\<close>

definition liftedBall :: BallState where
  "liftedBall = BallState_new\<lparr>velocity := \<lparr>X = 0, Y = 1, Z = 0\<rparr>\<rparr>"

definition liftedMovingBall :: BallState where
  "liftedMovingBall = BallState_new\<lparr>velocity := \<lparr>X = 0, Y = 1, Z = 2\<rparr>\<rparr>"

definition slowA :: BallState where
  "slowA = BallState_new\<lparr>velocity := \<lparr>X = 0, Y = 0, Z = 0.005\<rparr>\<rparr>"

section \<open>Pure rolling\<close>

text \<open>
  The no-slip condition \<open>(\<omega>\<^sub>x, \<omega>\<^sub>z) = (- v\<^sub>z / R, v\<^sub>x / R)\<close>; the test of the nap effect,
  \<^verbatim>\<open>napDot < -0.3\<close> for the nap direction \<open>(0, -1)\<close>, written without the division;
  the speed a rolling step takes off; and the host loop that calls the integrator \<open>n\<close>
  times with the same time step.
\<close>

definition pureRolling :: "BallState \<Rightarrow> bool" where
  "pureRolling s \<longleftrightarrow>
     X (angularVelocity s) = - Z (velocity s) / radius
   \<and> Z (angularVelocity s) = X (velocity s) / radius"

definition againstNap :: "BallState \<Rightarrow> bool" where
  "againstNap s \<longleftrightarrow> Z (velocity s) > 0.3 * speed s"

definition rollingLoss :: "real \<Rightarrow> real" where
  "rollingLoss dt = table_friction_roll * gravity * dt"

primrec advance :: "nat \<Rightarrow> real \<Rightarrow> BallState \<Rightarrow> BallState" where
  "advance 0 dt s = s"
| "advance (Suc n) dt s = updateBallPhysics (advance n dt s) dt"

text \<open>
  A ball that is an instance of the class, rolls without slipping, has no side spin, and
  is out of reach of the nap drag for good: it does not run against the nap, or it is
  already slower than the lower end of the nap band.
\<close>

definition quietRolling :: "BallState \<Rightarrow> bool" where
  "quietRolling s \<longleftrightarrow>
     hasGetters s \<and> pureRolling s \<and> Y (angularVelocity s) = 0
   \<and> (\<not> againstNap s \<or> speed s < 0.05)"

text \<open>
  Two rolling balls without side spin: one running with the nap at 1 m/s, one running
  against it at 0.3 m/s; and the latter after the rolling branch of one step of 1/120 s.
\<close>

definition withNapBall :: BallState where
  "withNapBall = BallState_new\<lparr>velocity := \<lparr>X = 0, Y = 0, Z = - 1\<rparr>,
                               angularVelocity := \<lparr>X = 1 / radius, Y = 0, Z = 0\<rparr>\<rparr>"

definition napBall :: BallState where
  "napBall = BallState_new\<lparr>velocity := \<lparr>X = 0, Y = 0, Z = 0.3\<rparr>,
                           angularVelocity := \<lparr>X = - 0.3 / radius, Y = 0, Z = 0\<rparr>\<rparr>"

definition napBallRolled :: BallState where
  "napBallRolled =
     napBall\<lparr>phase := ''rolling'',
             velocity := \<lparr>X = 0, Y = 0, Z = 0.2998365\<rparr>,
             angularVelocity := \<lparr>X = - 0.2998365 / radius, Y = 0, Z = 0\<rparr>\<rparr>"

section \<open>Energy\<close>

text \<open>Kinetic plus rotational energy of one ball.\<close>

definition totalEnergy :: "BallState \<Rightarrow> real" where
  "totalEnergy s = kineticEnergy s + rotationalEnergy s"

text \<open>
  The grip factor of \<^verbatim>\<open>calculateCushionRebound\<close>, as a function of the ball and the
  cushion name.
\<close>

definition gripFactorOf :: "BallState \<Rightarrow> string \<Rightarrow> real" where
  "gripFactorOf ball cushion =
     (let R = radius;
          heightRatio = height_ratio;
          (normalX, normalZ) = cushionNormal cushion;
          tangentX = - normalZ;
          tangentZ = normalX;
          topBackSpin = X (angularVelocity ball) * tangentZ - Z (angularVelocity ball) * tangentX
      in 1 + topBackSpin * R * heightRatio * 0.012)"

text \<open>
  A ball of speed 1 m/s with side spin 40 rad/s that meets the left cushion at a glancing
  angle (normal component 5/13, tangential component 12/13).
\<close>

definition glancingBall :: BallState where
  "glancingBall = BallState_new\<lparr>velocity := \<lparr>X = - 5 / 13, Y = 0, Z = 12 / 13\<rparr>,
                                angularVelocity := \<lparr>X = 0, Y = 40, Z = 0\<rparr>\<rparr>"

text \<open>
  The energy balance is stated for any restitution values.  \<open>calculateBallCollisionWith e\<close>
  is the body of \<^verbatim>\<open>calculateBallCollision\<close> with the constant \<^verbatim>\<open>e\<close>, which the source
  reads from \<^verbatim>\<open>PHYSICS_CONFIG.ball.restitution_ball_ball\<close>, as a parameter.
  \<open>effectiveCoRWith\<close> and \<open>calculateCushionReboundWith\<close> are \<open>effectiveCoR\<close> and the body
  of \<^verbatim>\<open>calculateCushionRebound\<close> with the constants \<^verbatim>\<open>corPerpendicular\<close> and
  \<^verbatim>\<open>corGlancing\<close>, which the source reads from \<^verbatim>\<open>PHYSICS_CONFIG.cushion\<close>, as parameters.
  Nothing else differs; at the shipped values they are the functions above.
\<close>

definition calculateBallCollisionWith ::
    "real \<Rightarrow> BallState \<Rightarrow> BallState \<Rightarrow> CollisionResult" where
  "calculateBallCollisionWith e ballA ballB =
     (let m = mass; R = radius; mu = friction_ball_ball;
          contactDuration = contact_duration;
          frictionAccum = friction_accumulation;
          dx = X (position ballB) - X (position ballA);
          dz = Z (position ballB) - Z (position ballA);
          dist' = sqrt (dx * dx + dz * dz)
      in if dist' < 0.0001 \<or> dist' > R * 2.5 then
           \<lparr>res_ballA = ballA, res_ballB = ballB,
            res_throwAngle = None, res_contactDuration = None\<rparr>
         else
           let nx = dx / dist';
               nz = dz / dist';
               (ballA1, ballB1) = penetrationCorrection ballA ballB nx nz dist';
               tx = - nz;
               tz = nx;
               dvx = X (velocity ballA1) - X (velocity ballB1);
               dvz = Z (velocity ballA1) - Z (velocity ballB1);
               dvn = dvx * nx + dvz * nz
           in if dvn \<le> 0 then
                \<lparr>res_ballA = ballA1, res_ballB = ballB1,
                 res_throwAngle = None, res_contactDuration = None\<rparr>
              else
                let dvt = dvx * tx + dvz * tz;
                    normalImpulse = (1 + e) * m * dvn / 2;
                    surfaceVelFromSpin = Y (angularVelocity ballA1) * R;
                    totalTangentVel = dvt + surfaceVelFromSpin;
                    maxFrictionImpulse = mu * normalImpulse * frictionAccum;
                    frictionImpulse = frictionImpulseOf totalTangentVel maxFrictionImpulse dvn;
                    (ballA5, ballB5) =
                      applyImpulses ballA1 ballB1 nx nz tx tz normalImpulse frictionImpulse;
                    throwAngle = atan2 \<bar>frictionImpulse\<bar> normalImpulse * 180 / pi
                in \<lparr>res_ballA = ballA5, res_ballB = ballB5,
                    res_throwAngle = Some throwAngle,
                    res_contactDuration = Some contactDuration\<rparr>)"

text \<open>
  The normal impulse, the total tangential velocity at the contact point
  (\<^verbatim>\<open>totalTangentVel = dvt + surfaceVelFromSpin\<close>) and the friction impulse of
  \<open>calculateBallCollisionWith e\<close>, as functions of the two input states.
\<close>

definition normalImpulseWith :: "real \<Rightarrow> BallState \<Rightarrow> BallState \<Rightarrow> real" where
  "normalImpulseWith e ballA ballB = (1 + e) * mass * closingVelocity ballA ballB / 2"

definition totalTangentVelocity :: "BallState \<Rightarrow> BallState \<Rightarrow> real" where
  "totalTangentVelocity ballA ballB =
     tangentialVelocity ballA ballB + Y (angularVelocity ballA) * radius"

definition throwImpulseWith :: "real \<Rightarrow> BallState \<Rightarrow> BallState \<Rightarrow> real" where
  "throwImpulseWith e ballA ballB =
     frictionImpulseOf (totalTangentVelocity ballA ballB)
       (friction_ball_ball * normalImpulseWith e ballA ballB * friction_accumulation)
       (closingVelocity ballA ballB)"

definition effectiveCoRWith :: "real \<Rightarrow> real \<Rightarrow> real \<Rightarrow> real \<Rightarrow> real" where
  "effectiveCoRWith corPerpendicular corGlancing angleDeg impactSpeed =
     (let compression = compression_factor;
          effectiveCor0 =
            (if angleDeg < 8 then
               let shallowFactor = angleDeg / 8;
                   smoothFactor = 0.5 - 0.5 * cos (shallowFactor * pi)
               in 0.60 + smoothFactor * (corPerpendicular - 0.60)
             else if angleDeg < 30 then
               let midFactor = (angleDeg - 8) / 22
               in corPerpendicular + midFactor * (0.88 - corPerpendicular)
             else if angleDeg < 60 then
               let wideFactor = (angleDeg - 30) / 30
               in 0.88 + wideFactor * (corGlancing - 0.88)
             else corGlancing);
          speedFactor = min 1 (impactSpeed / 6);
          compressionLoss = compression * speedFactor * 0.3;
          effectiveCor1 = effectiveCor0 * (1 - compressionLoss)
      in max 0.65 (min 0.96 effectiveCor1))"

definition calculateCushionReboundWith ::
    "real \<Rightarrow> real \<Rightarrow> BallState \<Rightarrow> string \<Rightarrow> real \<Rightarrow> BallState" where
  "calculateCushionReboundWith corPerpendicular corGlancing ball cushion impactSpeed =
     (let R = radius;
          heightRatio = height_ratio;
          (normalX, normalZ) = cushionNormal cushion;
          tangentX = - normalZ;
          tangentZ = normalX;
          velNormal = X (velocity ball) * normalX + Z (velocity ball) * normalZ;
          velTangent = X (velocity ball) * tangentX + Z (velocity ball) * tangentZ;
          angleDeg = incidenceAngleDeg velTangent velNormal;
          effectiveCor = effectiveCoRWith corPerpendicular corGlancing angleDeg impactSpeed;
          sideSpin = Y (angularVelocity ball);
          spinInfluence = sideSpin * R * 0.15;
          topBackSpin = X (angularVelocity ball) * tangentZ - Z (angularVelocity ball) * tangentX;
          gripFactor = 1 + topBackSpin * R * heightRatio * 0.012;
          newVelNormal = - velNormal * effectiveCor;
          tangentRetention = tangentRetentionOf angleDeg;
          newVelTangent = velTangent * tangentRetention * gripFactor + spinInfluence
      in ball\<lparr>velocity := (velocity ball)
                \<lparr>X := newVelNormal * normalX + newVelTangent * tangentX,
                 Z := newVelNormal * normalZ + newVelTangent * tangentZ\<rparr>,
              angularVelocity := (angularVelocity ball)
                \<lparr>X := X (angularVelocity ball) * 0.95,
                 Y := Y (angularVelocity ball) * 0.80,
                 Z := Z (angularVelocity ball) * 0.95\<rparr>,
              phase := ''sliding'',
              phaseTime := 0\<rparr>)"

text \<open>
  The velocity components of \<^verbatim>\<open>calculateCushionRebound\<close> along the rail normal and along
  the rail before the rebound (\<^verbatim>\<open>velNormal\<close>, \<^verbatim>\<open>velTangent\<close>), and the component along the
  rail after it (\<^verbatim>\<open>newVelTangent\<close>), as functions of the ball and the cushion name.
\<close>

definition velNormalOf :: "BallState \<Rightarrow> string \<Rightarrow> real" where
  "velNormalOf ball cushion =
     (let (normalX, normalZ) = cushionNormal cushion
      in X (velocity ball) * normalX + Z (velocity ball) * normalZ)"

definition velTangentOf :: "BallState \<Rightarrow> string \<Rightarrow> real" where
  "velTangentOf ball cushion =
     (let (normalX, normalZ) = cushionNormal cushion;
          tangentX = - normalZ;
          tangentZ = normalX
      in X (velocity ball) * tangentX + Z (velocity ball) * tangentZ)"

definition newVelTangentOf :: "BallState \<Rightarrow> string \<Rightarrow> real" where
  "newVelTangentOf ball cushion =
     (let R = radius;
          velNormal = velNormalOf ball cushion;
          velTangent = velTangentOf ball cushion;
          angleDeg = incidenceAngleDeg velTangent velNormal;
          sideSpin = Y (angularVelocity ball);
          spinInfluence = sideSpin * R * 0.15;
          gripFactor = gripFactorOf ball cushion;
          tangentRetention = tangentRetentionOf angleDeg
      in velTangent * tangentRetention * gripFactor + spinInfluence)"

text \<open>
  Two more striking balls for the head-on pair, both at the origin: one that moves at an
  angle (velocity \<open>(0.5, 0, 1)\<close>) with side spin 40 rad/s, so that the surface speed of the
  spin, \<open>40 R = 1.05\<close> m/s, opposes and exceeds the tangential relative velocity; and one
  that moves at 2 m/s along \<open>z\<close> with the same side spin.  And a ball in pure rolling that
  meets the left cushion at 45 degrees.
\<close>

definition cutShotA :: BallState where
  "cutShotA = BallState_new\<lparr>velocity := \<lparr>X = 0.5, Y = 0, Z = 1\<rparr>,
                            angularVelocity := \<lparr>X = 0, Y = 40, Z = 0\<rparr>\<rparr>"

definition spinningHeadOnA :: BallState where
  "spinningHeadOnA = BallState_new\<lparr>velocity := \<lparr>X = 0, Y = 0, Z = 2\<rparr>,
                                   angularVelocity := \<lparr>X = 0, Y = 40, Z = 0\<rparr>\<rparr>"

definition rollerBall :: BallState where
  "rollerBall = BallState_new\<lparr>velocity := \<lparr>X = - 1, Y = 0, Z = - 1\<rparr>,
                              angularVelocity := \<lparr>X = 1 / radius, Y = 0, Z = - 1 / radius\<rparr>\<rparr>"

section \<open>Basic facts\<close>

lemmas gate_defs = impulseExchanged_def inGatingRange_def closingVelocity_def contactNormal_def
  centerDistance_def

lemmas impulse_defs = impulseX_def impulseZ_def normalImpulseOf_def throwImpulseOf_def
  tangentialVelocity_def

lemma penetrationCorrection_velocity [simp]:
  "velocity (fst (penetrationCorrection a b nx nz d)) = velocity a"
  "velocity (snd (penetrationCorrection a b nx nz d)) = velocity b"
  by (simp_all add: penetrationCorrection_def Let_def)

lemma penetrationCorrection_other [simp]:
  "angularVelocity (fst (penetrationCorrection a b nx nz d)) = angularVelocity a"
  "angularVelocity (snd (penetrationCorrection a b nx nz d)) = angularVelocity b"
  "phase (fst (penetrationCorrection a b nx nz d)) = phase a"
  "phase (snd (penetrationCorrection a b nx nz d)) = phase b"
  "phaseTime (fst (penetrationCorrection a b nx nz d)) = phaseTime a"
  "phaseTime (snd (penetrationCorrection a b nx nz d)) = phaseTime b"
  "hasGetters (fst (penetrationCorrection a b nx nz d)) = hasGetters a"
  "hasGetters (snd (penetrationCorrection a b nx nz d)) = hasGetters b"
  by (simp_all add: penetrationCorrection_def Let_def)

lemma centerDistance_axis:
  "X (position b) = X (position a) \<Longrightarrow> centerDistance a b = \<bar>Z (position b) - Z (position a)\<bar>"
  by (simp add: centerDistance_def)

lemma speed_axis: "X (velocity s) = 0 \<Longrightarrow> speed s = \<bar>Z (velocity s)\<bar>"
  by (simp add: speed_def)

lemmas example_defs = headOnA_def headOnB_def retreatingA_def advancingA_def overlapB_def
  farB_def liftedBall_def liftedMovingBall_def slowA_def BallState_new_def

lemma contactNormal_axis:
  "X (position b) = X (position a) \<Longrightarrow> Z (position a) < Z (position b)
     \<Longrightarrow> contactNormal a b = (0, 1)"
  by (simp add: contactNormal_def centerDistance_axis)

lemma closingVelocity_axis:
  "X (position b) = X (position a) \<Longrightarrow> Z (position a) < Z (position b)
     \<Longrightarrow> closingVelocity a b = Z (velocity a) - Z (velocity b)"
  by (simp add: closingVelocity_def contactNormal_axis)

lemma tangential_axis:
  "X (position b) = X (position a) \<Longrightarrow> Z (position a) < Z (position b)
     \<Longrightarrow> tangentialVelocity a b = - (X (velocity a) - X (velocity b))"
  by (simp add: tangentialVelocity_def contactNormal_axis)

subsection \<open>The results of the three return sites\<close>

lemma result_position:
  assumes "inGatingRange ballA ballB"
  shows "position (res_ballA (calculateBallCollision ballA ballB)) =
           position (fst (penetrationCorrection ballA ballB
              (fst (contactNormal ballA ballB)) (snd (contactNormal ballA ballB))
              (centerDistance ballA ballB)))"
    and "position (res_ballB (calculateBallCollision ballA ballB)) =
           position (snd (penetrationCorrection ballA ballB
              (fst (contactNormal ballA ballB)) (snd (contactNormal ballA ballB))
              (centerDistance ballA ballB)))"
  using assms
  by (simp_all add: calculateBallCollision_def inGatingRange_def contactNormal_def
        centerDistance_def applyImpulses_def Let_def split_beta)

lemma out_of_range_unchanged:
  assumes "\<not> inGatingRange ballA ballB"
  shows "calculateBallCollision ballA ballB =
           \<lparr>res_ballA = ballA, res_ballB = ballB, res_throwAngle = None, res_contactDuration = None\<rparr>"
  using assms
  by (auto simp add: calculateBallCollision_def inGatingRange_def centerDistance_def Let_def)

lemma separating_result:
  assumes "inGatingRange ballA ballB" and "closingVelocity ballA ballB \<le> 0"
  shows "calculateBallCollision ballA ballB =
           \<lparr>res_ballA = fst (penetrationCorrection ballA ballB
              (fst (contactNormal ballA ballB)) (snd (contactNormal ballA ballB))
              (centerDistance ballA ballB)),
            res_ballB = snd (penetrationCorrection ballA ballB
              (fst (contactNormal ballA ballB)) (snd (contactNormal ballA ballB))
              (centerDistance ballA ballB)),
            res_throwAngle = None, res_contactDuration = None\<rparr>"
  using assms
  by (simp add: calculateBallCollision_def gate_defs Let_def split_beta)

lemma penetrationCorrection_apart:
  "radius * 2 \<le> d \<Longrightarrow> penetrationCorrection a b nx nz d = (a, b)"
  by (simp add: penetrationCorrection_def Let_def)

subsection \<open>The result of an impulse exchange\<close>

lemma exchange_result:
  assumes "impulseExchanged ballA ballB"
  shows "res_ballA (calculateBallCollision ballA ballB) =
           fst (applyImpulses
             (fst (penetrationCorrection ballA ballB
                (fst (contactNormal ballA ballB)) (snd (contactNormal ballA ballB))
                (centerDistance ballA ballB)))
             (snd (penetrationCorrection ballA ballB
                (fst (contactNormal ballA ballB)) (snd (contactNormal ballA ballB))
                (centerDistance ballA ballB)))
             (fst (contactNormal ballA ballB)) (snd (contactNormal ballA ballB))
             (- snd (contactNormal ballA ballB)) (fst (contactNormal ballA ballB))
             (normalImpulseOf ballA ballB) (throwImpulseOf ballA ballB))"
    and "res_ballB (calculateBallCollision ballA ballB) =
           snd (applyImpulses
             (fst (penetrationCorrection ballA ballB
                (fst (contactNormal ballA ballB)) (snd (contactNormal ballA ballB))
                (centerDistance ballA ballB)))
             (snd (penetrationCorrection ballA ballB
                (fst (contactNormal ballA ballB)) (snd (contactNormal ballA ballB))
                (centerDistance ballA ballB)))
             (fst (contactNormal ballA ballB)) (snd (contactNormal ballA ballB))
             (- snd (contactNormal ballA ballB)) (fst (contactNormal ballA ballB))
             (normalImpulseOf ballA ballB) (throwImpulseOf ballA ballB))"
  using assms
  by (simp_all add: calculateBallCollision_def gate_defs impulse_defs Let_def split_beta not_le)

lemma applyImpulses_velocity:
  "velocity (fst (applyImpulses a b nx nz tx tz Jn Jt)) =
     (velocity a)\<lparr>X := X (velocity a) - (Jn * nx + Jt * tx) / mass,
                   Z := Z (velocity a) - (Jn * nz + Jt * tz) / mass\<rparr>"
  "velocity (snd (applyImpulses a b nx nz tx tz Jn Jt)) =
     (velocity b)\<lparr>X := X (velocity b) + (Jn * nx + Jt * tx) / mass,
                   Z := Z (velocity b) + (Jn * nz + Jt * tz) / mass\<rparr>"
  by (simp_all add: applyImpulses_def Let_def)

lemma applyImpulses_phaseA:
  "phase (fst (applyImpulses a b nx nz tx tz Jn Jt)) = ''sliding''"
  "phaseTime (fst (applyImpulses a b nx nz tx tz Jn Jt)) = 0"
  "phaseTime (snd (applyImpulses a b nx nz tx tz Jn Jt)) = 0"
  by (simp_all add: applyImpulses_def Let_def)

lemma applyImpulses_fast:
  assumes "speed (snd (applyImpulses a b nx nz tx tz Jn Jt)) > 0.01"
  shows "phase (snd (applyImpulses a b nx nz tx tz Jn Jt)) = ''sliding''"
    and "X (angularVelocity (snd (applyImpulses a b nx nz tx tz Jn Jt)))
           = - Z (velocity (snd (applyImpulses a b nx nz tx tz Jn Jt))) / radius * 0.92"
    and "Z (angularVelocity (snd (applyImpulses a b nx nz tx tz Jn Jt)))
           = X (velocity (snd (applyImpulses a b nx nz tx tz Jn Jt))) / radius * 0.92"
  using assms unfolding speed_def applyImpulses_velocity
  by (simp_all add: applyImpulses_def Let_def)

lemma applyImpulses_slow:
  assumes "speed (snd (applyImpulses a b nx nz tx tz Jn Jt)) \<le> 0.01"
  shows "phase (snd (applyImpulses a b nx nz tx tz Jn Jt)) = phase b"
    and "X (angularVelocity (snd (applyImpulses a b nx nz tx tz Jn Jt))) = X (angularVelocity b)"
    and "Z (angularVelocity (snd (applyImpulses a b nx nz tx tz Jn Jt))) = Z (angularVelocity b)"
  using assms unfolding speed_def applyImpulses_velocity
  by (simp_all add: applyImpulses_def Let_def)

lemma exchange_velocityA:
  assumes "impulseExchanged ballA ballB"
  shows "velocity (res_ballA (calculateBallCollision ballA ballB)) =
           (velocity ballA)\<lparr>X := X (velocity ballA) - impulseX ballA ballB / mass,
                             Z := Z (velocity ballA) - impulseZ ballA ballB / mass\<rparr>"
  by (simp add: exchange_result [OF assms] applyImpulses_velocity impulseX_def impulseZ_def)

lemma exchange_velocityB:
  assumes "impulseExchanged ballA ballB"
  shows "velocity (res_ballB (calculateBallCollision ballA ballB)) =
           (velocity ballB)\<lparr>X := X (velocity ballB) + impulseX ballA ballB / mass,
                             Z := Z (velocity ballB) + impulseZ ballA ballB / mass\<rparr>"
  by (simp add: exchange_result [OF assms] applyImpulses_velocity impulseX_def impulseZ_def)

subsection \<open>The head-on pair\<close>

lemma headOn_distance: "centerDistance headOnA headOnB = 2 * radius"
  by (simp add: centerDistance_axis headOnA_def headOnB_def BallState_new_def radius_def)

lemma headOn_normal: "contactNormal headOnA headOnB = (0, 1)"
  by (simp add: contactNormal_def headOn_distance)
     (simp add: headOnA_def headOnB_def BallState_new_def radius_def)

lemma headOn_closing: "closingVelocity headOnA headOnB = 2"
  by (simp add: closingVelocity_def headOn_normal)
     (simp add: headOnA_def headOnB_def BallState_new_def)

lemma headOn_exchanged: "impulseExchanged headOnA headOnB"
  by (simp add: impulseExchanged_def inGatingRange_def headOn_distance headOn_closing radius_def)

section \<open>Momentum in a ball-ball collision\<close>

text \<open>
  Claim C1.  For every pair of ball states on which \<^verbatim>\<open>calculateBallCollision\<close> performs
  an impulse exchange (centre distance within the gating range, closing velocity
  positive), the total linear momentum in the table plane is conserved:
  \<open>m v\<^sub>A' + m v\<^sub>B' = m v\<^sub>A + m v\<^sub>B\<close> in both plane components, the impulse being subtracted
  from one ball and added to the other.
\<close>

theorem collision_conserves_momentum:
  assumes "impulseExchanged ballA ballB"
  shows "mass * X (velocity (res_ballA (calculateBallCollision ballA ballB)))
           + mass * X (velocity (res_ballB (calculateBallCollision ballA ballB)))
         = mass * X (velocity ballA) + mass * X (velocity ballB)
       \<and> mass * Z (velocity (res_ballA (calculateBallCollision ballA ballB)))
           + mass * Z (velocity (res_ballB (calculateBallCollision ballA ballB)))
         = mass * Z (velocity ballA) + mass * Z (velocity ballB)"
  by (simp add: exchange_velocityA [OF assms] exchange_velocityB [OF assms] algebra_simps)

theorem collision_conserves_momentum_witness:
  "impulseExchanged headOnA headOnB
   \<and> mass * Z (velocity (res_ballA (calculateBallCollision headOnA headOnB)))
       + mass * Z (velocity (res_ballB (calculateBallCollision headOnA headOnB)))
     = mass * 2"
  using collision_conserves_momentum [of headOnA headOnB] headOn_exchanged
  by (simp add: headOnA_def headOnB_def BallState_new_def)

section \<open>Pairs that exchange no impulse\<close>

lemma retreating_headOn_gates:
  "inGatingRange retreatingA headOnB" "closingVelocity retreatingA headOnB = - 1"
  "centerDistance retreatingA headOnB = radius * 2"
  by (simp_all add: inGatingRange_def centerDistance_axis closingVelocity_axis example_defs radius_def)

lemma advancing_far_gates: "\<not> inGatingRange advancingA farB"
  by (simp add: inGatingRange_def centerDistance_axis example_defs radius_def)

lemma retreating_overlap_gates:
  "inGatingRange retreatingA overlapB" "closingVelocity retreatingA overlapB = - 1"
  "centerDistance retreatingA overlapB = 0.05" "contactNormal retreatingA overlapB = (0, 1)"
  by (simp_all add: inGatingRange_def centerDistance_axis closingVelocity_axis contactNormal_axis
        example_defs radius_def)

text \<open>
  Claim C3, as stated, fails: a pair that overlaps (centre distance below \<open>2R\<close>) and
  separates (closing velocity \<open>\<le> 0\<close>) is not returned unchanged.  The penetration
  correction runs before the closing velocity is tested, and here it moves the centre of
  ball B from \<open>z = 0.05\<close> to \<open>z = 0.05 + 0.0025 / 1.001\<close>.
\<close>

theorem separating_overlap_moves_centre:
  "closingVelocity retreatingA overlapB \<le> 0
   \<and> Z (position overlapB) = 0.05
   \<and> Z (position (res_ballB (calculateBallCollision retreatingA overlapB))) = 0.05 + 0.0025 / 1.001
   \<and> res_ballB (calculateBallCollision retreatingA overlapB) \<noteq> overlapB"
proof -
  have z: "Z (position (res_ballB (calculateBallCollision retreatingA overlapB)))
             = 0.05 + 0.0025 / 1.001"
    by (simp add: separating_result retreating_overlap_gates penetrationCorrection_def Let_def)
       (simp add: example_defs radius_def)
  have z0: "Z (position overlapB) = 0.05"
    by (simp add: example_defs)
  have "res_ballB (calculateBallCollision retreatingA overlapB) \<noteq> overlapB"
  proof
    assume "res_ballB (calculateBallCollision retreatingA overlapB) = overlapB"
    with z z0 show False by simp
  qed
  with z z0 show ?thesis by (simp add: retreating_overlap_gates)
qed

text \<open>
  Claim C3, amended.  For every pair whose centre distance is below 0.0001 or above
  \<open>2.5R\<close>, or whose closing velocity is \<open>\<le> 0\<close>, \<^verbatim>\<open>calculateBallCollision\<close> returns both
  balls with velocity, angular velocity, phase and phaseTime unchanged; when the distance
  is out of the gating range or at least \<open>2R\<close>, the positions are unchanged too, and the
  two balls are returned as they were.  (For an overlapping pair in range the penetration
  correction may still move the centres.)
\<close>

theorem no_exchange_keeps_motion:
  assumes "\<not> inGatingRange ballA ballB \<or> closingVelocity ballA ballB \<le> 0"
  shows "velocity (res_ballA (calculateBallCollision ballA ballB)) = velocity ballA
       \<and> velocity (res_ballB (calculateBallCollision ballA ballB)) = velocity ballB
       \<and> angularVelocity (res_ballA (calculateBallCollision ballA ballB)) = angularVelocity ballA
       \<and> angularVelocity (res_ballB (calculateBallCollision ballA ballB)) = angularVelocity ballB
       \<and> phase (res_ballA (calculateBallCollision ballA ballB)) = phase ballA
       \<and> phase (res_ballB (calculateBallCollision ballA ballB)) = phase ballB
       \<and> phaseTime (res_ballA (calculateBallCollision ballA ballB)) = phaseTime ballA
       \<and> phaseTime (res_ballB (calculateBallCollision ballA ballB)) = phaseTime ballB
       \<and> (\<not> inGatingRange ballA ballB \<or> radius * 2 \<le> centerDistance ballA ballB
            \<longrightarrow> res_ballA (calculateBallCollision ballA ballB) = ballA
              \<and> res_ballB (calculateBallCollision ballA ballB) = ballB)"
proof (cases "inGatingRange ballA ballB")
  case False
  then show ?thesis by (simp add: out_of_range_unchanged)
next
  case True
  with assms have "closingVelocity ballA ballB \<le> 0" by simp
  with True show ?thesis
    by (simp add: separating_result penetrationCorrection_apart)
qed

theorem no_exchange_keeps_motion_witness:
  "closingVelocity retreatingA headOnB \<le> 0
   \<and> radius * 2 \<le> centerDistance retreatingA headOnB
   \<and> velocity (res_ballA (calculateBallCollision retreatingA headOnB)) = velocity retreatingA
   \<and> res_ballA (calculateBallCollision retreatingA headOnB) = retreatingA
   \<and> res_ballB (calculateBallCollision retreatingA headOnB) = headOnB
   \<and> \<not> inGatingRange advancingA farB
   \<and> res_ballA (calculateBallCollision advancingA farB) = advancingA
   \<and> res_ballB (calculateBallCollision advancingA farB) = farB"
  using no_exchange_keeps_motion [of retreatingA headOnB]
        no_exchange_keeps_motion [of advancingA farB]
  by (simp add: retreating_headOn_gates advancing_far_gates)

section \<open>The penetration correction\<close>

lemma advancing_overlap_gates:
  "inGatingRange advancingA overlapB" "closingVelocity advancingA overlapB = 1"
  "centerDistance advancingA overlapB = 0.05" "contactNormal advancingA overlapB = (0, 1)"
  by (simp_all add: inGatingRange_def centerDistance_axis closingVelocity_axis contactNormal_axis
        example_defs radius_def)

lemma advancing_overlap_exchanged: "impulseExchanged advancingA overlapB"
  by (simp add: impulseExchanged_def advancing_overlap_gates)

text \<open>
  After the correction the centres are at distance
  \<open>d + (2R - d) (s\<^sub>A + s\<^sub>B) / (s\<^sub>A + s\<^sub>B + 0.001)\<close>, where \<open>d\<close> is the distance before and
  \<open>s\<^sub>A\<close>, \<open>s\<^sub>B\<close> are the speeds: strictly less than \<open>2R\<close>.
\<close>

lemma norm_scaled_unit:
  assumes "nx * nx + nz * nz = 1"
  shows "sqrt ((k * nx) * (k * nx) + (k * nz) * (k * nz)) = \<bar>k\<bar>"
proof -
  have "(k * nx) * (k * nx) + (k * nz) * (k * nz) = k\<^sup>2 * (nx * nx + nz * nz)"
    by (simp add: power2_eq_square algebra_simps)
  then show ?thesis using assms by simp
qed

lemma contactNormal_unit:
  assumes "0 < centerDistance a b"
  shows "fst (contactNormal a b) * fst (contactNormal a b)
       + snd (contactNormal a b) * snd (contactNormal a b) = 1"
proof -
  let ?dx = "X (position b) - X (position a)"
  let ?dz = "Z (position b) - Z (position a)"
  let ?d = "centerDistance a b"
  have d2: "?d * ?d = ?dx * ?dx + ?dz * ?dz"
    by (simp add: centerDistance_def Let_def)
  have "fst (contactNormal a b) * fst (contactNormal a b)
       + snd (contactNormal a b) * snd (contactNormal a b)
       = (?dx * ?dx + ?dz * ?dz) / (?d * ?d)"
    by (simp add: contactNormal_def Let_def add_divide_distrib)
  also have "\<dots> = (?d * ?d) / (?d * ?d)" by (simp only: d2)
  also have "\<dots> = 1" using assms by simp
  finally show ?thesis .
qed

lemma contactNormal_scaled:
  assumes "0 < centerDistance a b"
  shows "X (position b) - X (position a) = centerDistance a b * fst (contactNormal a b)"
    and "Z (position b) - Z (position a) = centerDistance a b * snd (contactNormal a b)"
  using assms by (simp_all add: contactNormal_def Let_def)

lemma corrected_distance:
  assumes "inGatingRange ballA ballB" and "centerDistance ballA ballB < radius * 2"
  shows "centerDistance (res_ballA (calculateBallCollision ballA ballB))
                        (res_ballB (calculateBallCollision ballA ballB))
         = centerDistance ballA ballB
           + (radius * 2 - centerDistance ballA ballB)
             * ((speed ballA + speed ballB) / (speed ballA + speed ballB + 0.001))"
    (is "?lhs = ?d + ?pen * ?rho")
proof -
  let ?nx = "fst (contactNormal ballA ballB)" and ?nz = "snd (contactNormal ballA ballB)"
  have dpos: "0 < ?d" using assms(1) by (simp add: inGatingRange_def)
  have unit: "?nx * ?nx + ?nz * ?nz = 1" by (rule contactNormal_unit [OF dpos])
  have s0: "0 \<le> speed ballA" "0 \<le> speed ballB" by (simp_all add: speed_def)
  have rho0: "0 \<le> ?rho" using s0 by simp
  let ?k = "?d + ?pen * ?rho"
  have "0 \<le> ?pen * ?rho" using assms(2) rho0 by (intro mult_nonneg_nonneg) simp_all
  with dpos have k0: "0 \<le> ?k" by simp
  have ratio: "speed ballB / (speed ballA + speed ballB + 0.001)
             + speed ballA / (speed ballA + speed ballB + 0.001) = ?rho"
    by (simp add: add_divide_distrib)
  have x: "X (position (res_ballB (calculateBallCollision ballA ballB)))
         - X (position (res_ballA (calculateBallCollision ballA ballB))) = ?k * ?nx"
    using assms(2) contactNormal_scaled(1) [OF dpos] ratio [symmetric]
    by (simp add: result_position [OF assms(1)] penetrationCorrection_def Let_def speed_def
          algebra_simps)
  have z: "Z (position (res_ballB (calculateBallCollision ballA ballB)))
         - Z (position (res_ballA (calculateBallCollision ballA ballB))) = ?k * ?nz"
    using assms(2) contactNormal_scaled(2) [OF dpos] ratio [symmetric]
    by (simp add: result_position [OF assms(1)] penetrationCorrection_def Let_def speed_def
          algebra_simps)
  have "?lhs = sqrt ((?k * ?nx) * (?k * ?nx) + (?k * ?nz) * (?k * ?nz))"
    unfolding centerDistance_def Let_def x z ..
  also have "\<dots> = \<bar>?k\<bar>" by (rule norm_scaled_unit [OF unit])
  finally show ?thesis using k0 by simp
qed

lemma corrected_distance_short:
  assumes "inGatingRange ballA ballB" and "centerDistance ballA ballB < radius * 2"
  shows "centerDistance (res_ballA (calculateBallCollision ballA ballB))
                        (res_ballB (calculateBallCollision ballA ballB)) < radius * 2"
proof -
  have s0: "0 \<le> speed ballA" "0 \<le> speed ballB" by (simp_all add: speed_def)
  then have "(speed ballA + speed ballB) / (speed ballA + speed ballB + 0.001) < 1"
    by simp
  with assms(2) have "(radius * 2 - centerDistance ballA ballB)
             * ((speed ballA + speed ballB) / (speed ballA + speed ballB + 0.001))
        < (radius * 2 - centerDistance ballA ballB) * 1"
    by (intro mult_strict_left_mono) simp_all
  then show ?thesis by (simp add: corrected_distance [OF assms])
qed

text \<open>
  Claim C4: for every colliding pair whose centre distance is strictly below \<open>2R\<close>, the
  penetration correction moves the centres apart along the contact normal so that the
  resulting distance is exactly \<open>2R\<close> plus a small safety margin.  The code does not do
  so.  For ball A at the origin moving at 1 m/s towards ball B at rest at distance 0.05,
  the distance after the call is \<open>0.05 + 0.0025 / 1.001\<close>, less than \<open>2R = 0.0525\<close>: the
  two displacement ratios add up to \<open>(s\<^sub>A + s\<^sub>B) / (s\<^sub>A + s\<^sub>B + 0.001) < 1\<close>, and the margin
  \<^verbatim>\<open>halfPen\<close> is computed and never used.
\<close>

theorem penetration_correction_falls_short:
  "centerDistance advancingA overlapB < 2 * radius
   \<and> impulseExchanged advancingA overlapB
   \<and> centerDistance (res_ballA (calculateBallCollision advancingA overlapB))
                     (res_ballB (calculateBallCollision advancingA overlapB))
       = 0.05 + 0.0025 / 1.001
   \<and> centerDistance (res_ballA (calculateBallCollision advancingA overlapB))
                     (res_ballB (calculateBallCollision advancingA overlapB))
       < 2 * radius"
proof -
  have pa: "position (res_ballA (calculateBallCollision advancingA overlapB))
              = \<lparr>X = 0, Y = 0, Z = 0\<rparr>"
    by (simp add: result_position advancing_overlap_gates penetrationCorrection_def Let_def)
       (simp add: example_defs radius_def)
  have pb: "position (res_ballB (calculateBallCollision advancingA overlapB))
              = \<lparr>X = 0, Y = 0, Z = 0.05 + 0.0025 / 1.001\<rparr>"
    by (simp add: result_position advancing_overlap_gates penetrationCorrection_def Let_def)
       (simp add: example_defs radius_def)
  have d: "centerDistance (res_ballA (calculateBallCollision advancingA overlapB))
                     (res_ballB (calculateBallCollision advancingA overlapB))
       = 0.05 + 0.0025 / 1.001"
    by (simp add: centerDistance_axis pa pb)
  show ?thesis
    unfolding d by (simp add: advancing_overlap_gates advancing_overlap_exchanged radius_def)
qed

section \<open>The vertical velocity component\<close>

lemma slidingBranch_vy [simp]: "Y (velocity (slidingBranch s dt sl ss)) = Y (velocity s)"
  by (simp add: slidingBranch_def Let_def)

lemma rollingBranch_vy [simp]: "Y (velocity (rollingBranch s dt)) = Y (velocity s)"
  by (simp add: rollingBranch_def Let_def split: option.split)

lemma sideSpinStep_velocity [simp]: "velocity (sideSpinStep s dt) = velocity s"
  by (simp add: sideSpinStep_def Let_def)

lemma swerveStep_vy [simp]: "Y (velocity (swerveStep s dt)) = Y (velocity s)"
  by (simp add: swerveStep_def Let_def)

lemma applyNapEffect_vy [simp]: "Y (velocity (applyNapEffect s dt)) = Y (velocity s)"
  by (simp add: applyNapEffect_def Let_def split: option.split)

lemma updateBallPhysics_vy:
  "Y (velocity (updateBallPhysics state dt)) = (if stopCondition state then 0 else Y (velocity state))"
  by (simp add: updateBallPhysics_def stopCondition_def Let_def split: option.split prod.split)

lemma collision_vy:
  "Y (velocity (res_ballA (calculateBallCollision ballA ballB))) = Y (velocity ballA)"
  "Y (velocity (res_ballB (calculateBallCollision ballA ballB))) = Y (velocity ballB)"
proof -
  consider "\<not> inGatingRange ballA ballB"
    | "inGatingRange ballA ballB" "closingVelocity ballA ballB \<le> 0"
    | "impulseExchanged ballA ballB"
    using impulseExchanged_def not_le by blast
  then have "Y (velocity (res_ballA (calculateBallCollision ballA ballB))) = Y (velocity ballA)
           \<and> Y (velocity (res_ballB (calculateBallCollision ballA ballB))) = Y (velocity ballB)"
  proof cases
    case 1
    then show ?thesis by (simp add: out_of_range_unchanged)
  next
    case 2
    then show ?thesis by (simp add: separating_result)
  next
    case 3
    then show ?thesis by (simp add: exchange_velocityA exchange_velocityB)
  qed
  then show "Y (velocity (res_ballA (calculateBallCollision ballA ballB))) = Y (velocity ballA)"
    and "Y (velocity (res_ballB (calculateBallCollision ballA ballB))) = Y (velocity ballB)"
    by simp_all
qed

lemma cushion_vy:
  "Y (velocity (calculateCushionRebound ball cushion impactSpeed)) = Y (velocity ball)"
  by (simp add: calculateCushionRebound_def Let_def split_beta)

lemma applyShot_vy:
  "Y (velocity (applyShot ball power' angle spinX spinY maxSpeed)) = Y (velocity ball)"
  by (simp add: applyShot_def Let_def)

lemma liftedMoving_not_stopped: "\<not> stopCondition liftedMovingBall"
  by (simp add: stopCondition_def getProp_def js_lt_def speed_axis liftedMovingBall_def
        BallState_new_def velocity_stop_def)

lemma lifted_stopped: "stopCondition liftedBall"
  by (simp add: stopCondition_def getProp_def js_lt_def speed_def angularSpeed_def liftedBall_def
        BallState_new_def velocity_stop_def angular_stop_def)

text \<open>
  Claim C5, as stated, fails for \<^verbatim>\<open>updateBallPhysics\<close>: its stop branch replaces the
  whole velocity by \<open>(0, 0, 0)\<close>.  A ball at rest in the plane with \<open>v\<^sub>y = 1\<close> leaves the
  call with \<open>v\<^sub>y = 0\<close>.
\<close>

theorem stop_branch_resets_vy:
  "Y (velocity liftedBall) = 1 \<and> Y (velocity (updateBallPhysics liftedBall (1 / 120))) = 0"
  by (simp add: updateBallPhysics_vy stopCondition_def getProp_def js_lt_def speed_def
        angularSpeed_def liftedBall_def BallState_new_def velocity_stop_def angular_stop_def)

text \<open>
  Claim C5, amended.  \<^verbatim>\<open>calculateBallCollision\<close>, \<^verbatim>\<open>calculateCushionRebound\<close> and
  \<^verbatim>\<open>applyShot\<close> leave \<^verbatim>\<open>velocity.y\<close> as it was, for every ball state and every
  argument.  \<^verbatim>\<open>updateBallPhysics\<close> leaves it as it was unless it takes the stop branch
  (speed below \<^verbatim>\<open>velocity_stop\<close> and angular speed below \<^verbatim>\<open>angular_stop\<close>); there
  it sets the whole velocity, \<open>v\<^sub>y\<close> included, to zero.
\<close>

theorem vy_carried:
  "Y (velocity (res_ballA (calculateBallCollision ballA ballB))) = Y (velocity ballA)
   \<and> Y (velocity (res_ballB (calculateBallCollision ballA ballB))) = Y (velocity ballB)
   \<and> Y (velocity (calculateCushionRebound ball cushion impactSpeed)) = Y (velocity ball)
   \<and> Y (velocity (applyShot ball power' angle spinX spinY maxSpeed)) = Y (velocity ball)
   \<and> (\<not> stopCondition state \<longrightarrow>
         Y (velocity (updateBallPhysics state dt)) = Y (velocity state))
   \<and> (stopCondition state \<longrightarrow> Y (velocity (updateBallPhysics state dt)) = 0)"
  by (simp add: collision_vy cushion_vy applyShot_vy updateBallPhysics_vy)

theorem vy_carried_witness:
  "\<not> stopCondition liftedMovingBall
   \<and> Y (velocity (updateBallPhysics liftedMovingBall (1 / 120))) = 1
   \<and> stopCondition liftedBall
   \<and> Y (velocity (updateBallPhysics liftedBall (1 / 120))) = 0"
  using vy_carried [of _ _ _ _ _ _ _ _ _ _ liftedMovingBall "1 / 120"]
        vy_carried [of _ _ _ _ _ _ _ _ _ _ liftedBall "1 / 120"]
        liftedMoving_not_stopped lifted_stopped
  by (simp add: liftedMovingBall_def)

section \<open>Phase and spin after an impulse exchange\<close>

lemma exchange_struck_ball:
  assumes "impulseExchanged ballA ballB"
  shows "speed (res_ballB (calculateBallCollision ballA ballB)) > 0.01 \<Longrightarrow>
            phase (res_ballB (calculateBallCollision ballA ballB)) = ''sliding''
          \<and> X (angularVelocity (res_ballB (calculateBallCollision ballA ballB)))
              = - Z (velocity (res_ballB (calculateBallCollision ballA ballB))) / radius * 0.92
          \<and> Z (angularVelocity (res_ballB (calculateBallCollision ballA ballB)))
              = X (velocity (res_ballB (calculateBallCollision ballA ballB))) / radius * 0.92"
    and "speed (res_ballB (calculateBallCollision ballA ballB)) \<le> 0.01 \<Longrightarrow>
            phase (res_ballB (calculateBallCollision ballA ballB)) = phase ballB
          \<and> X (angularVelocity (res_ballB (calculateBallCollision ballA ballB)))
              = X (angularVelocity ballB)
          \<and> Z (angularVelocity (res_ballB (calculateBallCollision ballA ballB)))
              = Z (angularVelocity ballB)"
  by (simp_all add: exchange_result [OF assms] applyImpulses_fast applyImpulses_slow)

lemma slow_gates:
  "inGatingRange slowA headOnB" "closingVelocity slowA headOnB = 0.005"
  "contactNormal slowA headOnB = (0, 1)" "tangentialVelocity slowA headOnB = 0"
  by (simp_all add: inGatingRange_def centerDistance_axis closingVelocity_axis contactNormal_axis
        tangential_axis slowA_def example_defs radius_def)

lemma slow_exchanged: "impulseExchanged slowA headOnB"
  by (simp add: impulseExchanged_def slow_gates)

lemma slow_velocityB:
  "velocity (res_ballB (calculateBallCollision slowA headOnB)) = \<lparr>X = 0, Y = 0, Z = 0.00495\<rparr>"
  by (simp add: exchange_velocityB [OF slow_exchanged] impulseX_def impulseZ_def
        throwImpulseOf_def normalImpulseOf_def frictionImpulseOf_def slow_gates)
     (simp add: slowA_def example_defs mass_def restitution_ball_ball_def)

lemma slow_speedB: "speed (res_ballB (calculateBallCollision slowA headOnB)) = 0.00495"
  by (simp add: speed_axis slow_velocityB)

lemma headOn_tangential: "tangentialVelocity headOnA headOnB = 0"
  by (simp add: tangential_axis example_defs radius_def)

lemma headOn_velocityB:
  "velocity (res_ballB (calculateBallCollision headOnA headOnB)) = \<lparr>X = 0, Y = 0, Z = 1.98\<rparr>"
  by (simp add: exchange_velocityB [OF headOn_exchanged] impulseX_def impulseZ_def
        throwImpulseOf_def normalImpulseOf_def frictionImpulseOf_def headOn_normal headOn_closing
        headOn_tangential)
     (simp add: example_defs mass_def restitution_ball_ball_def)

lemma headOn_speedB: "speed (res_ballB (calculateBallCollision headOnA headOnB)) = 1.98"
  by (simp add: speed_axis headOn_velocityB)

text \<open>
  Claim C6, as stated, fails: the struck ball is set to sliding, and its rolling-plane
  spin to 92% of natural roll, only when its speed after the exchange exceeds 0.01 m/s.
  Ball A at 0.005 m/s hits ball B at rest head on; B leaves at 0.00495 m/s with the phase
  it had, \<^verbatim>\<open>'stationary'\<close>.
\<close>

theorem slow_struck_ball_stays_stationary:
  "impulseExchanged slowA headOnB
   \<and> phase (res_ballB (calculateBallCollision slowA headOnB)) = ''stationary''
   \<and> phase (res_ballB (calculateBallCollision slowA headOnB)) \<noteq> ''sliding''"
  using exchange_struck_ball(2) [OF slow_exchanged]
  by (simp add: slow_exchanged slow_speedB) (simp add: example_defs)

text \<open>
  Claim C6, amended.  After every call of \<^verbatim>\<open>calculateBallCollision\<close> that performs an
  impulse exchange, the striking ball has phase \<^verbatim>\<open>'sliding'\<close> and both balls have
  \<^verbatim>\<open>phaseTime = 0\<close>.  When the struck ball's speed after the exchange exceeds 0.01 m/s,
  it has phase \<^verbatim>\<open>'sliding'\<close> and its rolling-plane spin is
  \<open>(\<omega>\<^sub>x, \<omega>\<^sub>z) = ((- v\<^sub>z / R) 0.92, (v\<^sub>x / R) 0.92)\<close> for its new velocity; otherwise its
  phase and rolling-plane spin are what they were before the call.
\<close>

theorem collision_sets_sliding:
  assumes "impulseExchanged ballA ballB"
  shows "phase (res_ballA (calculateBallCollision ballA ballB)) = ''sliding''
       \<and> phaseTime (res_ballA (calculateBallCollision ballA ballB)) = 0
       \<and> phaseTime (res_ballB (calculateBallCollision ballA ballB)) = 0
       \<and> (speed (res_ballB (calculateBallCollision ballA ballB)) > 0.01 \<longrightarrow>
            phase (res_ballB (calculateBallCollision ballA ballB)) = ''sliding''
          \<and> X (angularVelocity (res_ballB (calculateBallCollision ballA ballB)))
              = - Z (velocity (res_ballB (calculateBallCollision ballA ballB))) / radius * 0.92
          \<and> Z (angularVelocity (res_ballB (calculateBallCollision ballA ballB)))
              = X (velocity (res_ballB (calculateBallCollision ballA ballB))) / radius * 0.92)
       \<and> (speed (res_ballB (calculateBallCollision ballA ballB)) \<le> 0.01 \<longrightarrow>
            phase (res_ballB (calculateBallCollision ballA ballB)) = phase ballB
          \<and> X (angularVelocity (res_ballB (calculateBallCollision ballA ballB)))
              = X (angularVelocity ballB)
          \<and> Z (angularVelocity (res_ballB (calculateBallCollision ballA ballB)))
              = Z (angularVelocity ballB))"
  using exchange_struck_ball [OF assms]
  by (simp add: exchange_result [OF assms] applyImpulses_phaseA)

theorem collision_sets_sliding_witness:
  "impulseExchanged headOnA headOnB
   \<and> speed (res_ballB (calculateBallCollision headOnA headOnB)) > 0.01
   \<and> phase (res_ballB (calculateBallCollision headOnA headOnB)) = ''sliding''
   \<and> X (angularVelocity (res_ballB (calculateBallCollision headOnA headOnB)))
       = - 1.98 / radius * 0.92
   \<and> impulseExchanged slowA headOnB
   \<and> speed (res_ballB (calculateBallCollision slowA headOnB)) \<le> 0.01
   \<and> phase (res_ballB (calculateBallCollision slowA headOnB)) = phase headOnB"
  using collision_sets_sliding [OF headOn_exchanged] collision_sets_sliding [OF slow_exchanged]
  by (simp add: headOn_exchanged slow_exchanged headOn_speedB slow_speedB headOn_velocityB)

section \<open>The effective coefficient of restitution\<close>

text \<open>How \<open>effectiveCoR\<close> enters the rebound, at the left cushion.\<close>

lemma rebound_normal_left:
  "X (velocity (calculateCushionRebound ball ''left'' impactSpeed)) =
     - X (velocity ball)
       * effectiveCoR (incidenceAngleDeg (Z (velocity ball)) (X (velocity ball))) impactSpeed"
  by (simp add: calculateCushionRebound_def cushionNormal_def Let_def)

text \<open>
  Claim C8.  For every fixed impact speed and the shipped cushion configuration, the
  effective coefficient of restitution computed by \<^verbatim>\<open>calculateCushionRebound\<close> is a
  non-decreasing function of the incidence angle (in degrees) on \<open>[8, 90)\<close>.
\<close>

theorem effectiveCoR_monotone:
  assumes "8 \<le> a1" and "a1 \<le> a2" and "a2 < 90"
  shows "effectiveCoR a1 impactSpeed \<le> effectiveCoR a2 impactSpeed"
proof -
  define segment :: "real \<Rightarrow> real" where
    "segment = (\<lambda>a. if a < 30 then 0.80 + (a - 8) / 22 * 0.08
                    else if a < 60 then 0.88 + (a - 30) / 30 * 0.06
                    else 0.94)"
  define keep :: real where "keep = 1 - 0.08 * min 1 (impactSpeed / 6) * 0.3"
  have eff: "effectiveCoR a impactSpeed = max 0.65 (min 0.96 (segment a * keep))"
    if "8 \<le> a" for a
    using that
    by (simp add: effectiveCoR_def segment_def keep_def Let_def compression_factor_def
          restitution_perpendicular_def restitution_glancing_def)
  have pos: "0 \<le> keep"
    by (simp add: keep_def min_def)
  have "segment a1 \<le> segment a2"
    using assms(2) unfolding segment_def by (auto simp add: field_simps)
  then have "segment a1 * keep \<le> segment a2 * keep"
    by (rule mult_right_mono [OF _ pos])
  then have "max 0.65 (min 0.96 (segment a1 * keep)) \<le> max 0.65 (min 0.96 (segment a2 * keep))"
    by (simp add: min_def max_def)
  then show ?thesis
    using assms by (simp add: eff)
qed

theorem effectiveCoR_monotone_witness:
  "(8::real) \<le> 10 \<and> (10::real) \<le> 45 \<and> (45::real) < 90
   \<and> effectiveCoR 10 1 \<le> effectiveCoR 45 1"
  using effectiveCoR_monotone [of 10 45 1] by simp

section \<open>The length of a predicted trajectory\<close>

lemma plain_getProp [simp]: "\<not> hasGetters s \<Longrightarrow> getProp g s = None"
  by (simp add: getProp_def)

lemma instance_getProp [simp]: "hasGetters s \<Longrightarrow> getProp g s = Some (g s)"
  by (simp add: getProp_def)

lemma slidingBranch_hasGetters [simp]:
  "hasGetters (slidingBranch s dt sl ss) = hasGetters s"
  by (simp add: slidingBranch_def Let_def)

lemma rollingBranch_hasGetters [simp]: "hasGetters (rollingBranch s dt) = hasGetters s"
  by (simp add: rollingBranch_def Let_def getProp_def)

lemma sideSpinStep_hasGetters [simp]: "hasGetters (sideSpinStep s dt) = hasGetters s"
  by (simp add: sideSpinStep_def Let_def)

lemma swerveStep_hasGetters [simp]: "hasGetters (swerveStep s dt) = hasGetters s"
  by (simp add: swerveStep_def Let_def)

lemma applyNapEffect_hasGetters [simp]: "hasGetters (applyNapEffect s dt) = hasGetters s"
  by (simp add: applyNapEffect_def Let_def getProp_def)

lemma updateBallPhysics_hasGetters [simp]: "hasGetters (updateBallPhysics s dt) = hasGetters s"
  by (simp add: updateBallPhysics_def Let_def getProp_def)

text \<open>
  On a plain object the test of the \<^verbatim>\<open>break\<close> compares \<^verbatim>\<open>undefined\<close> with the
  threshold and is false: the loop runs all its iterations.
\<close>

lemma predictLoop_plain_length:
  "\<not> hasGetters s \<Longrightarrow> length (predictLoop n s dt) = n"
  by (induction n arbitrary: s) (simp_all add: Let_def js_lt_def)

lemma predictTrajectory_length:
  "length (predictTrajectory initialState duration dt) = nat \<lceil>duration / dt\<rceil>"
  by (simp add: predictTrajectory_def JSON_copy_def Let_def predictLoop_plain_length)

text \<open>
  On an instance of the class the loop does stop: a ball below both stop thresholds is
  zeroed by the first step and the loop breaks after one sample.
\<close>

lemma predictLoop_instance_stopped:
  assumes "hasGetters s" and "speed s < velocity_stop" and "angularSpeed s < angular_stop"
  shows "length (predictLoop (Suc n) s dt) = 1"
  using assms
  by (simp add: Let_def js_lt_def updateBallPhysics_def speed_def velocity_stop_def)

text \<open>
  Claim C9: for every initial state whose planar speed is below \<^verbatim>\<open>velocity_stop\<close>,
  \<^verbatim>\<open>predictTrajectory\<close> returns a trajectory of length at most 1.  The code does not:
  the loop runs on the JSON copy of the state, a plain object on which
  \<^verbatim>\<open>state.speed\<close> is \<^verbatim>\<open>undefined\<close>, so the \<^verbatim>\<open>break\<close> is never taken and the
  trajectory always has \<open>\<lceil>duration / dt\<rceil>\<close> samples.  For a freshly constructed ball (at
  rest) and the default arguments it has 200.
\<close>

theorem predictTrajectory_never_stops_early:
  "speed BallState_new < velocity_stop
   \<and> length (predictTrajectory BallState_new 2 0.01) = 200"
  by (simp add: predictTrajectory_length speed_def BallState_new_def velocity_stop_def)

section \<open>The rolling spin of a cue strike\<close>

text \<open>
  The rolling spin is the axis \<open>(- cos angle, sin angle)\<close> times a scalar; the scalar is
  recovered from the two components.
\<close>

lemma rolling_scalar:
  "sin angle * Z (angularVelocity (applyShot ball power' angle spinX spinY maxSpeed))
     - cos angle * X (angularVelocity (applyShot ball power' angle spinX spinY maxSpeed))
   = spinY * (power' * maxSpeed / radius) * 2.5
       + (if spinY = 0 then (power' * maxSpeed / radius) * 0.4 else 0)"
proof -
  have sc: "sin angle * sin angle + cos angle * cos angle = 1"
    using sin_cos_squared_add [of angle] by (simp add: power2_eq_square)
  have "sin angle * (sin angle * k) - cos angle * (- cos angle * k) = k" for k :: real
  proof -
    have "sin angle * (sin angle * k) - cos angle * (- cos angle * k)
            = (sin angle * sin angle + cos angle * cos angle) * k"
      by algebra
    also have "\<dots> = k" by (simp only: sc mult_1)
    finally show ?thesis .
  qed
  then show ?thesis
    by (simp add: applyShot_def Let_def)
qed

lemma rolling_scalar_discontinuous:
  assumes "power' * maxSpeed \<noteq> 0"
  shows "\<not> isCont (\<lambda>spinY.
            sin angle * Z (angularVelocity (applyShot ball power' angle spinX spinY maxSpeed))
          - cos angle * X (angularVelocity (applyShot ball power' angle spinX spinY maxSpeed))) 0"
proof
  define c where "c = power' * maxSpeed / radius"
  have c0: "c \<noteq> 0" using assms by (simp add: c_def radius_def)
  let ?f = "\<lambda>spinY::real. spinY * c * 2.5 + (if spinY = 0 then c * 0.4 else 0)"
  let ?g = "\<lambda>spinY::real. spinY * c * 2.5"
  assume "isCont (\<lambda>spinY.
            sin angle * Z (angularVelocity (applyShot ball power' angle spinX spinY maxSpeed))
          - cos angle * X (angularVelocity (applyShot ball power' angle spinX spinY maxSpeed))) 0"
  moreover have "(\<lambda>spinY.
            sin angle * Z (angularVelocity (applyShot ball power' angle spinX spinY maxSpeed))
          - cos angle * X (angularVelocity (applyShot ball power' angle spinX spinY maxSpeed)))
        = ?f"
    by (rule ext) (simp only: rolling_scalar c_def)
  ultimately have "isCont ?f 0" by simp
  then have "?f \<midarrow>0\<rightarrow> ?f 0" by (simp add: isCont_def)
  then have f: "?f \<midarrow>0\<rightarrow> c * 0.4" by simp
  have "(?f \<midarrow>0\<rightarrow> c * 0.4) = (?g \<midarrow>0\<rightarrow> c * 0.4)"
    by (rule LIM_equal) simp
  with f have g1: "?g \<midarrow>0\<rightarrow> c * 0.4" by simp
  have "isCont ?g 0" by (intro continuous_intros)
  then have "?g \<midarrow>0\<rightarrow> ?g 0" by (simp add: isCont_def)
  then have g2: "?g \<midarrow>0\<rightarrow> 0" by simp
  from LIM_unique [OF g1 g2] c0 show False by simp
qed

lemma rolling_scalar_continuous:
  assumes "power' * maxSpeed = 0"
  shows "isCont (\<lambda>spinY.
            sin angle * Z (angularVelocity (applyShot ball power' angle spinX spinY maxSpeed))
          - cos angle * X (angularVelocity (applyShot ball power' angle spinX spinY maxSpeed))) 0"
proof -
  have "(\<lambda>spinY.
            sin angle * Z (angularVelocity (applyShot ball power' angle spinX spinY maxSpeed))
          - cos angle * X (angularVelocity (applyShot ball power' angle spinX spinY maxSpeed)))
        = (\<lambda>spinY. 0)"
    by (rule ext) (simp add: rolling_scalar assms)
  then show ?thesis by simp
qed

text \<open>
  Claim C10, as stated, fails for a shot of zero speed, which \<open>power = 0\<close> gives: the
  bias \<open>0.4 (power maxSpeed / R)\<close> is then 0, the rolling spin is 0 for every \<open>spinY\<close>,
  and the mapping from \<open>spinY\<close> to the rolling spin is continuous at 0, in both components
  and in the scalar along the axis.
\<close>

theorem zero_power_spin_is_continuous:
  "X (angularVelocity (applyShot BallState_new 0 0 0 0 8)) = 0
   \<and> Z (angularVelocity (applyShot BallState_new 0 0 0 0 8)) = 0
   \<and> isCont (\<lambda>spinY. X (angularVelocity (applyShot BallState_new 0 0 0 spinY 8))) 0
   \<and> isCont (\<lambda>spinY. Z (angularVelocity (applyShot BallState_new 0 0 0 spinY 8))) 0
   \<and> isCont (\<lambda>spinY.
            sin 0 * Z (angularVelocity (applyShot BallState_new 0 0 0 spinY 8))
          - cos 0 * X (angularVelocity (applyShot BallState_new 0 0 0 spinY 8))) 0"
proof -
  have x: "(\<lambda>spinY. X (angularVelocity (applyShot BallState_new 0 0 0 spinY 8))) = (\<lambda>spinY. 0)"
    by (rule ext) (simp add: applyShot_def Let_def)
  have z: "(\<lambda>spinY. Z (angularVelocity (applyShot BallState_new 0 0 0 spinY 8))) = (\<lambda>spinY. 0)"
    by (rule ext) (simp add: applyShot_def Let_def)
  have "isCont (\<lambda>spinY. X (angularVelocity (applyShot BallState_new 0 0 0 spinY 8))) 0"
    and "isCont (\<lambda>spinY. Z (angularVelocity (applyShot BallState_new 0 0 0 spinY 8))) 0"
    unfolding x z by simp_all
  moreover have "isCont (\<lambda>spinY.
            sin 0 * Z (angularVelocity (applyShot BallState_new 0 0 0 spinY 8))
          - cos 0 * X (angularVelocity (applyShot BallState_new 0 0 0 spinY 8))) 0"
    by (rule rolling_scalar_continuous) simp
  ultimately show ?thesis
    by (simp add: applyShot_def Let_def)
qed

text \<open>
  Claim C10, amended.  For every call of \<^verbatim>\<open>applyShot\<close> the rolling-axis angular
  velocity is set about the axis perpendicular to the shot direction, with magnitude
  \<open>spinY (power maxSpeed / R) 2.5\<close>, plus a forward-roll bias of
  \<open>0.4 (power maxSpeed / R)\<close> added exactly when \<open>spinY = 0\<close>.  The scalar along the
  axis is discontinuous in \<open>spinY\<close> at 0 exactly when the shot has non-zero speed,
  \<open>power maxSpeed \<noteq> 0\<close>; for a shot of zero speed the rolling spin is 0 whatever
  \<open>spinY\<close>.
\<close>

theorem applyShot_rolling_spin:
  "X (angularVelocity (applyShot ball power' angle spinX spinY maxSpeed))
     = - cos angle * (spinY * (power' * maxSpeed / radius) * 2.5
                      + (if spinY = 0 then (power' * maxSpeed / radius) * 0.4 else 0))
   \<and> Z (angularVelocity (applyShot ball power' angle spinX spinY maxSpeed))
     = sin angle * (spinY * (power' * maxSpeed / radius) * 2.5
                    + (if spinY = 0 then (power' * maxSpeed / radius) * 0.4 else 0))
   \<and> X (angularVelocity (applyShot ball power' angle spinX spinY maxSpeed))
       * X (velocity (applyShot ball power' angle spinX spinY maxSpeed))
     + Z (angularVelocity (applyShot ball power' angle spinX spinY maxSpeed))
       * Z (velocity (applyShot ball power' angle spinX spinY maxSpeed)) = 0
   \<and> (\<not> isCont (\<lambda>spinY.
            sin angle * Z (angularVelocity (applyShot ball power' angle spinX spinY maxSpeed))
          - cos angle * X (angularVelocity (applyShot ball power' angle spinX spinY maxSpeed))) 0)
     = (power' * maxSpeed \<noteq> 0)"
proof -
  have "(\<not> isCont (\<lambda>spinY.
            sin angle * Z (angularVelocity (applyShot ball power' angle spinX spinY maxSpeed))
          - cos angle * X (angularVelocity (applyShot ball power' angle spinX spinY maxSpeed))) 0)
     = (power' * maxSpeed \<noteq> 0)"
    using rolling_scalar_discontinuous [of power' maxSpeed angle ball spinX]
      rolling_scalar_continuous [of power' maxSpeed angle ball spinX]
    by blast
  then show ?thesis
    by (simp add: applyShot_def Let_def)
qed

theorem applyShot_rolling_spin_witness:
  "Z (angularVelocity (applyShot BallState_new 1 0 0 0 8)) = 0
   \<and> X (angularVelocity (applyShot BallState_new 1 0 0 0 8)) = - (8 / radius * 0.4)
   \<and> X (angularVelocity (applyShot BallState_new 1 0 0 1 8)) = - (8 / radius * 2.5)
   \<and> \<not> isCont (\<lambda>spinY.
            sin 0 * Z (angularVelocity (applyShot BallState_new 1 0 0 spinY 8))
          - cos 0 * X (angularVelocity (applyShot BallState_new 1 0 0 spinY 8))) 0
   \<and> isCont (\<lambda>spinY.
            sin 0 * Z (angularVelocity (applyShot BallState_new 0 0 0 spinY 8))
          - cos 0 * X (angularVelocity (applyShot BallState_new 0 0 0 spinY 8))) 0"
  using applyShot_rolling_spin [of BallState_new 1 0 0 0 8]
        applyShot_rolling_spin [of BallState_new 1 0 0 1 8]
        applyShot_rolling_spin [of BallState_new 0 0 0 0 8]
  by simp

section \<open>Decay of a rolling ball\<close>

lemma pureRolling_slipSpeed: "pureRolling s \<Longrightarrow> slipSpeed s = 0"
  by (simp add: pureRolling_def slipSpeed_def slipVelocity_def surfaceVelocity_def Let_def radius_def)

lemma speed_nonneg [simp]: "0 \<le> speed s"
  by (simp add: speed_def)

lemma speed_scaled:
  assumes "0 \<le> k"
  shows "speed (s\<lparr>velocity := (velocity s)\<lparr>X := X (velocity s) * k, Z := Z (velocity s) * k\<rparr>\<rparr>)
           = speed s * k"
proof -
  have "X (velocity s) * k * (X (velocity s) * k) + Z (velocity s) * k * (Z (velocity s) * k)
          = (X (velocity s) * X (velocity s) + Z (velocity s) * Z (velocity s)) * k\<^sup>2"
    by (simp add: power2_eq_square algebra_simps)
  then show ?thesis
    using assms by (simp add: speed_def real_sqrt_mult)
qed

text \<open>The rolling branch on an instance faster than 0.001 m/s.\<close>

lemma rollingBranch_instance:
  assumes "hasGetters s" and "0.001 < speed s"
  shows "rollingBranch s dt =
           s\<lparr>phase := ''rolling'',
             velocity := (velocity s)
               \<lparr>X := X (velocity s) * (max 0 (speed s - rollingLoss dt) / speed s),
                Z := Z (velocity s) * (max 0 (speed s - rollingLoss dt) / speed s)\<rparr>,
             angularVelocity := (angularVelocity s)
               \<lparr>X := - (Z (velocity s) * (max 0 (speed s - rollingLoss dt) / speed s)) / radius,
                Z := X (velocity s) * (max 0 (speed s - rollingLoss dt) / speed s) / radius\<rparr>\<rparr>"
proof -
  have sp: "speed (s\<lparr>phase := ''rolling''\<rparr>) = speed s"
    by (simp add: speed_def)
  show ?thesis
    using assms
    by (simp add: rollingBranch_def Let_def getProp_def sp rollingLoss_def)
qed

lemma applyNapEffect_quiet:
  assumes "hasGetters r" and "speed r < 0.05 \<or> speed r > 0.5 \<or> \<not> againstNap r"
  shows "applyNapEffect r dt = r"
proof (cases "speed r < 0.05 \<or> speed r > 0.5")
  case True
  with assms(1) show ?thesis
    by (simp add: applyNapEffect_def Let_def getProp_def)
next
  case False
  then have band: "0.05 \<le> speed r" "speed r \<le> 0.5" by simp_all
  with assms(2) have "Z (velocity r) \<le> 0.3 * speed r"
    by (simp add: againstNap_def)
  with band have "Z (velocity r) / speed r \<le> 0.3"
    by (simp add: pos_divide_le_eq)
  with assms(1) False show ?thesis
    by (simp add: applyNapEffect_def Let_def getProp_def nap_direction_def)
qed

lemma rollingBranch_facts:
  assumes "hasGetters s" and "0.001 < speed s"
  shows "speed (rollingBranch s dt) = max 0 (speed s - rollingLoss dt)"
    and "pureRolling (rollingBranch s dt)"
    and "Y (angularVelocity (rollingBranch s dt)) = Y (angularVelocity s)"
    and "phase (rollingBranch s dt) = ''rolling''"
    and "position (rollingBranch s dt) = position s"
    and "phaseTime (rollingBranch s dt) = phaseTime s"
    and "X (velocity (rollingBranch s dt)) * speed s
           = X (velocity s) * max 0 (speed s - rollingLoss dt)"
    and "Z (velocity (rollingBranch s dt)) * speed s
           = Z (velocity s) * max 0 (speed s - rollingLoss dt)"
    and "Y (velocity (rollingBranch s dt)) = Y (velocity s)"
proof -
  let ?k = "max 0 (speed s - rollingLoss dt) / speed s"
  have k0: "0 \<le> ?k" using assms(2) by simp
  have "speed (rollingBranch s dt) = speed s * ?k"
    unfolding rollingBranch_instance [OF assms]
    using speed_scaled [OF k0, of s] by (simp add: speed_def)
  then show "speed (rollingBranch s dt) = max 0 (speed s - rollingLoss dt)"
    using assms(2) by simp
  show "pureRolling (rollingBranch s dt)"
    by (simp add: rollingBranch_instance [OF assms] pureRolling_def)
  show "Y (angularVelocity (rollingBranch s dt)) = Y (angularVelocity s)"
    "phase (rollingBranch s dt) = ''rolling''"
    "position (rollingBranch s dt) = position s"
    "phaseTime (rollingBranch s dt) = phaseTime s"
    "Y (velocity (rollingBranch s dt)) = Y (velocity s)"
    by (simp_all add: rollingBranch_instance [OF assms])
  show "X (velocity (rollingBranch s dt)) * speed s
           = X (velocity s) * max 0 (speed s - rollingLoss dt)"
    "Z (velocity (rollingBranch s dt)) * speed s
           = Z (velocity s) * max 0 (speed s - rollingLoss dt)"
    using assms(2) by (simp_all add: rollingBranch_instance [OF assms])
qed

lemma againstNap_rollingBranch:
  assumes "hasGetters s" and "0.001 < speed s" and "\<not> againstNap s"
  shows "\<not> againstNap (rollingBranch s dt)"
proof -
  let ?ns = "max 0 (speed s - rollingLoss dt)"
  have z: "Z (velocity (rollingBranch s dt)) * speed s = Z (velocity s) * ?ns"
    by (rule rollingBranch_facts(8) [OF assms(1,2)])
  have "Z (velocity s) \<le> 0.3 * speed s"
    using assms(3) by (simp add: againstNap_def)
  then have "Z (velocity s) * ?ns \<le> 0.3 * speed s * ?ns"
    by (rule mult_right_mono) simp
  with z have "Z (velocity (rollingBranch s dt)) * speed s \<le> (0.3 * ?ns) * speed s"
    by (simp add: mult_ac)
  then have "Z (velocity (rollingBranch s dt)) \<le> 0.3 * ?ns"
    using assms(2) by (simp only: mult_le_cancel_right) simp
  then show ?thesis
    by (simp add: againstNap_def rollingBranch_facts(1) [OF assms(1,2)])
qed

lemma rolling_step_state:
  assumes inst: "hasGetters s" and roll: "pureRolling s" and noside: "Y (angularVelocity s) = 0"
    and above: "velocity_stop \<le> speed s" and dt: "0 \<le> dt"
    and quiet: "\<not> againstNap s \<or> speed s < 0.05"
  shows "updateBallPhysics s dt =
           (rollingBranch s dt)
             \<lparr>angularVelocity := (angularVelocity (rollingBranch s dt))\<lparr>Y := 0\<rparr>,
              position := (position s)
                \<lparr>X := X (position s) + X (velocity (rollingBranch s dt)) * dt,
                 Z := Z (position s) + Z (velocity (rollingBranch s dt)) * dt\<rparr>,
              phaseTime := phaseTime s + dt\<rparr>"
proof -
  let ?r = "rollingBranch s dt"
  let ?r2 = "?r\<lparr>angularVelocity := (angularVelocity ?r)\<lparr>Y := 0\<rparr>\<rparr>"
  have sp: "0.001 < speed s" using above by (simp add: velocity_stop_def)
  note rf = rollingBranch_facts [OF inst sp, of dt]
  have nostop: "\<not> js_lt (getProp speed s) velocity_stop"
    using inst above by (simp add: getProp_def js_lt_def)
  have branch: "(case (getProp slipVelocity s, getProp slipSpeed s) of
                   (Some slip, Some slipSpeed') \<Rightarrow>
                     if slipSpeed' > slip_threshold then slidingBranch s dt slip slipSpeed'
                     else rollingBranch s dt
                 | _ \<Rightarrow> rollingBranch s dt) = ?r"
    using inst by (simp add: getProp_def pureRolling_slipSpeed [OF roll] slip_threshold_def)
  have side: "sideSpinStep ?r dt = ?r2"
    by (simp add: sideSpinStep_def Let_def rf(3) noside)
  have swerve: "swerveStep ?r2 dt = ?r2"
    by (simp add: swerveStep_def)
  have sp2: "speed ?r2 = max 0 (speed s - rollingLoss dt)"
    using rf(1) by (simp add: speed_def)
  have loss: "0 \<le> rollingLoss dt"
    using dt by (simp add: rollingLoss_def table_friction_roll_def gravity_def)
  have "speed ?r2 < 0.05 \<or> speed ?r2 > 0.5 \<or> \<not> againstNap ?r2"
  proof (cases "speed s < 0.05")
    case True
    with loss have "max 0 (speed s - rollingLoss dt) < 0.05" by (simp add: max_def)
    then show ?thesis by (simp only: sp2) simp
  next
    case False
    with quiet have "\<not> againstNap s" by simp
    then have "\<not> againstNap ?r" by (rule againstNap_rollingBranch [OF inst sp])
    then show ?thesis by (simp add: againstNap_def speed_def)
  qed
  moreover have "hasGetters ?r2" using inst by (simp add: rollingBranch_instance [OF inst sp])
  ultimately have nap: "applyNapEffect ?r2 dt = ?r2"
    by (intro applyNapEffect_quiet)
  show ?thesis
    unfolding updateBallPhysics_def Let_def branch side swerve nap
    using nostop by (simp add: rf)
qed

lemma rolling_step:
  assumes q: "quietRolling s" and above: "velocity_stop \<le> speed s" and dt: "0 \<le> dt"
  shows "quietRolling (updateBallPhysics s dt)"
    and "speed (updateBallPhysics s dt) = max 0 (speed s - rollingLoss dt)"
    and "X (velocity (updateBallPhysics s dt)) * speed s
           = X (velocity s) * speed (updateBallPhysics s dt)"
    and "Z (velocity (updateBallPhysics s dt)) * speed s
           = Z (velocity s) * speed (updateBallPhysics s dt)"
    and "phase (updateBallPhysics s dt) = ''rolling''"
proof -
  from q have inst: "hasGetters s" and roll: "pureRolling s"
    and noside: "Y (angularVelocity s) = 0"
    and quiet: "\<not> againstNap s \<or> speed s < 0.05"
    by (simp_all add: quietRolling_def)
  have sp: "0.001 < speed s" using above by (simp add: velocity_stop_def)
  note rf = rollingBranch_facts [OF inst sp, of dt]
  note st = rolling_step_state [OF inst roll noside above dt quiet]
  let ?r = "rollingBranch s dt"
  have v: "velocity (updateBallPhysics s dt) = velocity ?r"
    by (simp add: st)
  then have s': "speed (updateBallPhysics s dt) = speed ?r"
    by (simp add: speed_def)
  show speed: "speed (updateBallPhysics s dt) = max 0 (speed s - rollingLoss dt)"
    by (simp add: s' rf(1))
  show "X (velocity (updateBallPhysics s dt)) * speed s
           = X (velocity s) * speed (updateBallPhysics s dt)"
    "Z (velocity (updateBallPhysics s dt)) * speed s
           = Z (velocity s) * speed (updateBallPhysics s dt)"
    by (simp_all only: v speed rf(7,8))
  show "phase (updateBallPhysics s dt) = ''rolling''"
    by (simp add: st rf(4))
  have loss: "0 \<le> rollingLoss dt"
    using dt by (simp add: rollingLoss_def table_friction_roll_def gravity_def)
  have pr: "pureRolling (updateBallPhysics s dt)"
    using rf(2) by (simp add: pureRolling_def st)
  have "\<not> againstNap (updateBallPhysics s dt) \<or> speed (updateBallPhysics s dt) < 0.05"
  proof (cases "speed s < 0.05")
    case True
    with loss have "max 0 (speed s - rollingLoss dt) < 0.05" by (simp add: max_def)
    then show ?thesis by (simp only: speed) simp
  next
    case False
    with quiet have "\<not> againstNap s" by simp
    then have "\<not> againstNap ?r" by (rule againstNap_rollingBranch [OF inst sp])
    then show ?thesis by (simp add: againstNap_def v s')
  qed
  with pr show "quietRolling (updateBallPhysics s dt)"
    using inst by (simp add: quietRolling_def st rollingBranch_instance [OF inst sp])
qed

lemma rollingLoss_120: "rollingLoss (1 / 120) = 0.0001635"
  by (simp add: rollingLoss_def table_friction_roll_def gravity_def)

lemma update_rolling_form:
  assumes "hasGetters s" and "velocity_stop \<le> speed s" and "slipSpeed s \<le> slip_threshold"
  shows "updateBallPhysics s dt =
           (let state4 = applyNapEffect (swerveStep (sideSpinStep (rollingBranch s dt) dt) dt) dt;
                state5 = state4\<lparr>position := (position state4)
                           \<lparr>X := X (position state4) + X (velocity state4) * dt,
                            Z := Z (position state4) + Z (velocity state4) * dt\<rparr>\<rparr>
            in state5\<lparr>phaseTime := phaseTime state5 + dt\<rparr>)"
  using assms by (simp add: updateBallPhysics_def getProp_def js_lt_def)

subsection \<open>A ball running against the nap\<close>

lemma napBall_facts:
  "hasGetters napBall" "speed napBall = 0.3" "pureRolling napBall"
  "Y (angularVelocity napBall) = 0"
  by (simp_all add: speed_axis pureRolling_def napBall_def BallState_new_def)

lemma napBall_rolling:
  "rollingBranch napBall (1 / 120) =
     napBall\<lparr>phase := ''rolling'',
             velocity := \<lparr>X = 0, Y = 0, Z = 0.2998365\<rparr>,
             angularVelocity := \<lparr>X = - 0.2998365 / radius, Y = 0, Z = 0\<rparr>\<rparr>"
  by (simp add: rollingBranch_instance napBall_facts rollingLoss_120)
     (simp add: napBall_def BallState_new_def)

lemma napBall_stages:
  "rollingBranch napBall (1 / 120) = napBallRolled"
  "sideSpinStep napBallRolled (1 / 120) = napBallRolled"
  "swerveStep napBallRolled (1 / 120) = napBallRolled"
  "applyNapEffect napBallRolled (1 / 120)
     = napBallRolled\<lparr>velocity := \<lparr>X = 0, Y = 0, Z = 0.29982015\<rparr>\<rparr>"
proof -
  show "rollingBranch napBall (1 / 120) = napBallRolled"
    unfolding napBallRolled_def napBall_rolling ..
  show "sideSpinStep napBallRolled (1 / 120) = napBallRolled"
    by (simp add: sideSpinStep_def napBallRolled_def)
  show "swerveStep napBallRolled (1 / 120) = napBallRolled"
    by (simp add: swerveStep_def napBallRolled_def)
  have sp: "speed napBallRolled = 0.2998365"
    by (simp add: speed_axis napBallRolled_def)
  have inst: "hasGetters napBallRolled"
    by (simp add: napBallRolled_def napBall_facts)
  show "applyNapEffect napBallRolled (1 / 120)
     = napBallRolled\<lparr>velocity := \<lparr>X = 0, Y = 0, Z = 0.29982015\<rparr>\<rparr>"
    by (simp add: applyNapEffect_def Let_def getProp_def inst sp nap_direction_def
          nap_drift_factor_def gravity_def)
       (simp add: napBallRolled_def)
qed

lemma napBall_step:
  "velocity (updateBallPhysics napBall (1 / 120)) = \<lparr>X = 0, Y = 0, Z = 0.29982015\<rparr>"
  "angularVelocity (updateBallPhysics napBall (1 / 120))
     = \<lparr>X = - 0.2998365 / radius, Y = 0, Z = 0\<rparr>"
proof -
  have form: "updateBallPhysics napBall (1 / 120) =
           (let state4 = napBallRolled\<lparr>velocity := \<lparr>X = 0, Y = 0, Z = 0.29982015\<rparr>\<rparr>;
                state5 = state4\<lparr>position := (position state4)
                           \<lparr>X := X (position state4) + X (velocity state4) * (1 / 120),
                            Z := Z (position state4) + Z (velocity state4) * (1 / 120)\<rparr>\<rparr>
            in state5\<lparr>phaseTime := phaseTime state5 + 1 / 120\<rparr>)"
    by (subst update_rolling_form)
       (simp_all only: napBall_facts napBall_stages pureRolling_slipSpeed,
        simp_all add: velocity_stop_def slip_threshold_def)
  show "velocity (updateBallPhysics napBall (1 / 120)) = \<lparr>X = 0, Y = 0, Z = 0.29982015\<rparr>"
    by (simp add: form Let_def)
  show "angularVelocity (updateBallPhysics napBall (1 / 120))
     = \<lparr>X = - 0.2998365 / radius, Y = 0, Z = 0\<rparr>"
    by (simp add: form Let_def napBallRolled_def)
qed

text \<open>
  Claim C7, as stated, fails.  A ball in pure rolling without side spin, running against
  the nap at 0.3 m/s, is slowed by one step of 1/120 s to 0.29982015 m/s, not to
  \<open>0.3 - \<mu>\<^sub>r g dt = 0.2998365\<close>: the nap effect takes off a further
  \<open>0.0002 \<cdot> 9.81 / 120\<close>.  The spin was synchronised before the nap drag, so after the
  step \<open>\<omega> = v / R\<close> no longer holds.
\<close>

theorem nap_drag_breaks_rolling_decay:
  "pureRolling napBall \<and> Y (angularVelocity napBall) = 0 \<and> hasGetters napBall
   \<and> velocity_stop \<le> speed napBall
   \<and> speed napBall - table_friction_roll * gravity * (1 / 120) = 0.2998365
   \<and> speed (updateBallPhysics napBall (1 / 120)) = 0.29982015
   \<and> \<not> pureRolling (updateBallPhysics napBall (1 / 120))"
proof -
  have sp: "speed (updateBallPhysics napBall (1 / 120)) = 0.29982015"
    by (simp add: speed_axis napBall_step)
  have "\<not> pureRolling (updateBallPhysics napBall (1 / 120))"
    by (simp add: pureRolling_def napBall_step radius_def)
  with sp show ?thesis
    by (simp add: napBall_facts velocity_stop_def table_friction_roll_def gravity_def)
qed

subsection \<open>A ball out of reach of the nap drag\<close>

lemma withNapBall_quiet: "quietRolling withNapBall" "speed withNapBall = 1"
  by (simp_all add: quietRolling_def pureRolling_def againstNap_def speed_axis withNapBall_def
        BallState_new_def)

text \<open>
  Claim C7, amended.  For every ball (an instance of the class) in pure rolling with no
  side spin that does not run against the nap (\<open>v\<^sub>z \<le> 0.3 \<cdot> speed\<close>) or is slower than
  0.05 m/s, advanced repeatedly by \<^verbatim>\<open>updateBallPhysics\<close> with \<open>dt = 1/120\<close>: as long as
  the speed before a step is at least \<^verbatim>\<open>velocity_stop\<close>, each step reduces the speed by
  exactly \<open>\<mu>\<^sub>r g dt\<close>, the direction of the velocity is preserved, and \<open>\<omega> = v / R\<close> holds
  after the step.  Stated for the state after \<open>n + 1\<close> steps, the speed after \<open>n\<close> steps
  being still at least \<^verbatim>\<open>velocity_stop\<close>.
\<close>

theorem pure_rolling_decay:
  assumes q: "quietRolling s"
    and above: "velocity_stop \<le> speed s - real n * rollingLoss (1 / 120)"
  shows "quietRolling (advance (Suc n) (1 / 120) s)
       \<and> speed (advance (Suc n) (1 / 120) s) = speed s - real (Suc n) * rollingLoss (1 / 120)
       \<and> X (velocity (advance (Suc n) (1 / 120) s)) * speed s
           = X (velocity s) * speed (advance (Suc n) (1 / 120) s)
       \<and> Z (velocity (advance (Suc n) (1 / 120) s)) * speed s
           = Z (velocity s) * speed (advance (Suc n) (1 / 120) s)"
  using above
proof (induction n)
  case 0
  then have ab: "velocity_stop \<le> speed s" by simp
  have "rollingLoss (1 / 120) \<le> speed s"
    using ab by (simp add: rollingLoss_120 velocity_stop_def)
  then show ?case
    using rolling_step [OF q ab, of "1 / 120"] by (simp add: max_def)
next
  case (Suc n)
  note advance.simps(2) [simp del]
  let ?d = "rollingLoss (1 / 120)"
  let ?a = "advance (Suc n) (1 / 120) s"
  from Suc.prems have prem: "velocity_stop \<le> speed s - real n * ?d - ?d"
    by (simp add: algebra_simps)
  then have "velocity_stop \<le> speed s - real n * ?d"
    by (simp add: rollingLoss_120)
  from Suc.IH [OF this]
  have qa: "quietRolling ?a"
    and sa: "speed ?a = speed s - real (Suc n) * ?d"
    and xa: "X (velocity ?a) * speed s = X (velocity s) * speed ?a"
    and za: "Z (velocity ?a) * speed s = Z (velocity s) * speed ?a"
    by simp_all
  have ab: "velocity_stop \<le> speed ?a"
    using prem by (simp add: sa algebra_simps)
  then have pos: "0 < speed ?a" and big: "?d \<le> speed ?a"
    by (simp_all add: rollingLoss_120 velocity_stop_def)
  note step = rolling_step [OF qa ab, of "1 / 120"]
  let ?b = "updateBallPhysics ?a (1 / 120)"
  have sb: "speed ?b = speed ?a - ?d"
    using step(2) big by (simp add: max_def)
  have "X (velocity ?b) * speed s * speed ?a = X (velocity s) * speed ?b * speed ?a"
  proof -
    have "X (velocity ?b) * speed s * speed ?a = (X (velocity ?b) * speed ?a) * speed s"
      by (simp add: mult_ac)
    also have "\<dots> = (X (velocity ?a) * speed ?b) * speed s"
      by (simp only: step(3))
    also have "\<dots> = (X (velocity ?a) * speed s) * speed ?b"
      by (simp add: mult_ac)
    also have "\<dots> = X (velocity s) * speed ?b * speed ?a"
      by (simp only: xa) (simp add: mult_ac)
    finally show ?thesis .
  qed
  then have xb: "X (velocity ?b) * speed s = X (velocity s) * speed ?b"
    using pos by simp
  have "Z (velocity ?b) * speed s * speed ?a = Z (velocity s) * speed ?b * speed ?a"
  proof -
    have "Z (velocity ?b) * speed s * speed ?a = (Z (velocity ?b) * speed ?a) * speed s"
      by (simp add: mult_ac)
    also have "\<dots> = (Z (velocity ?a) * speed ?b) * speed s"
      by (simp only: step(4))
    also have "\<dots> = (Z (velocity ?a) * speed s) * speed ?b"
      by (simp add: mult_ac)
    also have "\<dots> = Z (velocity s) * speed ?b * speed ?a"
      by (simp only: za) (simp add: mult_ac)
    finally show ?thesis .
  qed
  then have zb: "Z (velocity ?b) * speed s = Z (velocity s) * speed ?b"
    using pos by simp
  have "speed ?b = speed s - real (Suc (Suc n)) * ?d"
    by (simp add: sb sa algebra_simps)
  moreover have "advance (Suc (Suc n)) (1 / 120) s = ?b"
    by (simp add: advance.simps(2))
  ultimately show ?case
    using step(1) xb zb by simp
qed

theorem pure_rolling_decay_witness:
  "quietRolling withNapBall
   \<and> velocity_stop \<le> speed withNapBall - real 2 * rollingLoss (1 / 120)
   \<and> speed (advance (Suc 2) (1 / 120) withNapBall) = 1 - 3 * 0.0001635
   \<and> quietRolling (advance (Suc 2) (1 / 120) withNapBall)
   \<and> X (velocity (advance (Suc 2) (1 / 120) withNapBall)) = 0"
  using pure_rolling_decay [of withNapBall 2] withNapBall_quiet
  by (simp add: rollingLoss_120 velocity_stop_def withNapBall_def BallState_new_def)

section \<open>Energy in collisions and rebounds\<close>

lemma kineticEnergy_eq:
  "kineticEnergy s = 0.5 * mass * (X (velocity s) * X (velocity s) + Z (velocity s) * Z (velocity s))"
proof -
  have "speed s * speed s = X (velocity s) * X (velocity s) + Z (velocity s) * Z (velocity s)"
    by (simp add: speed_def)
  then show ?thesis by (simp add: kineticEnergy_def mult.assoc)
qed

lemma rotationalEnergy_eq:
  "rotationalEnergy s = 0.5 * MOMENT_OF_INERTIA
     * (X (angularVelocity s) * X (angularVelocity s)
      + Y (angularVelocity s) * Y (angularVelocity s)
      + Z (angularVelocity s) * Z (angularVelocity s))"
proof -
  have "0 \<le> X (angularVelocity s) * X (angularVelocity s)
      + Y (angularVelocity s) * Y (angularVelocity s)
      + Z (angularVelocity s) * Z (angularVelocity s)"
    by (intro add_nonneg_nonneg) simp_all
  then have "angularSpeed s * angularSpeed s =
        X (angularVelocity s) * X (angularVelocity s)
      + Y (angularVelocity s) * Y (angularVelocity s)
      + Z (angularVelocity s) * Z (angularVelocity s)"
    by (simp add: angularSpeed_def)
  then show ?thesis by (simp add: rotationalEnergy_def mult.assoc)
qed

lemma applyImpulses_spin:
  "angularVelocity (fst (applyImpulses a b nx nz tx tz Jn Jt)) =
     \<lparr>X = X (angularVelocity a) * 0.95,
      Y = Y (angularVelocity a) * 0.90 - Jt * radius / MOMENT_OF_INERTIA * 0.20,
      Z = Z (angularVelocity a) * 0.95\<rparr>"
  "Y (angularVelocity (snd (applyImpulses a b nx nz tx tz Jn Jt))) =
     Y (angularVelocity b) + Jt * radius / MOMENT_OF_INERTIA * 0.15"
  by (simp_all add: applyImpulses_def Let_def)

subsection \<open>Any restitution value\<close>

lemma calculateBallCollision_With:
  "calculateBallCollision ballA ballB
     = calculateBallCollisionWith restitution_ball_ball ballA ballB"
  by (simp add: calculateBallCollision_def calculateBallCollisionWith_def Let_def)

lemma effectiveCoR_With:
  "effectiveCoR a s = effectiveCoRWith restitution_perpendicular restitution_glancing a s"
  by (simp add: effectiveCoR_def effectiveCoRWith_def Let_def)

lemma calculateCushionRebound_With:
  "calculateCushionRebound ball cushion impactSpeed
     = calculateCushionReboundWith restitution_perpendicular restitution_glancing
         ball cushion impactSpeed"
  by (simp add: calculateCushionRebound_def calculateCushionReboundWith_def effectiveCoR_With
        Let_def)

lemma exchange_result_With:
  assumes "impulseExchanged ballA ballB"
  shows "res_ballA (calculateBallCollisionWith e ballA ballB) =
           fst (applyImpulses
             (fst (penetrationCorrection ballA ballB
                (fst (contactNormal ballA ballB)) (snd (contactNormal ballA ballB))
                (centerDistance ballA ballB)))
             (snd (penetrationCorrection ballA ballB
                (fst (contactNormal ballA ballB)) (snd (contactNormal ballA ballB))
                (centerDistance ballA ballB)))
             (fst (contactNormal ballA ballB)) (snd (contactNormal ballA ballB))
             (- snd (contactNormal ballA ballB)) (fst (contactNormal ballA ballB))
             (normalImpulseWith e ballA ballB) (throwImpulseWith e ballA ballB))"
    and "res_ballB (calculateBallCollisionWith e ballA ballB) =
           snd (applyImpulses
             (fst (penetrationCorrection ballA ballB
                (fst (contactNormal ballA ballB)) (snd (contactNormal ballA ballB))
                (centerDistance ballA ballB)))
             (snd (penetrationCorrection ballA ballB
                (fst (contactNormal ballA ballB)) (snd (contactNormal ballA ballB))
                (centerDistance ballA ballB)))
             (fst (contactNormal ballA ballB)) (snd (contactNormal ballA ballB))
             (- snd (contactNormal ballA ballB)) (fst (contactNormal ballA ballB))
             (normalImpulseWith e ballA ballB) (throwImpulseWith e ballA ballB))"
  using assms
  by (simp_all add: calculateBallCollisionWith_def gate_defs normalImpulseWith_def
        throwImpulseWith_def totalTangentVelocity_def tangentialVelocity_def
        Let_def split_beta not_le)

lemma exchange_velocity_With:
  assumes "impulseExchanged ballA ballB"
  shows "velocity (res_ballA (calculateBallCollisionWith e ballA ballB)) =
           (velocity ballA)
             \<lparr>X := X (velocity ballA)
                  - (normalImpulseWith e ballA ballB * fst (contactNormal ballA ballB)
                     + throwImpulseWith e ballA ballB * (- snd (contactNormal ballA ballB))) / mass,
              Z := Z (velocity ballA)
                  - (normalImpulseWith e ballA ballB * snd (contactNormal ballA ballB)
                     + throwImpulseWith e ballA ballB * fst (contactNormal ballA ballB)) / mass\<rparr>"
    and "velocity (res_ballB (calculateBallCollisionWith e ballA ballB)) =
           (velocity ballB)
             \<lparr>X := X (velocity ballB)
                  + (normalImpulseWith e ballA ballB * fst (contactNormal ballA ballB)
                     + throwImpulseWith e ballA ballB * (- snd (contactNormal ballA ballB))) / mass,
              Z := Z (velocity ballB)
                  + (normalImpulseWith e ballA ballB * snd (contactNormal ballA ballB)
                     + throwImpulseWith e ballA ballB * fst (contactNormal ballA ballB)) / mass\<rparr>"
  by (simp_all add: exchange_result_With [OF assms] applyImpulses_velocity)

lemma no_exchange_velocity_With:
  assumes "\<not> impulseExchanged ballA ballB"
  shows "velocity (res_ballA (calculateBallCollisionWith e ballA ballB)) = velocity ballA"
    and "velocity (res_ballB (calculateBallCollisionWith e ballA ballB)) = velocity ballB"
  using assms
  by (auto simp add: calculateBallCollisionWith_def gate_defs Let_def split_beta not_less)

subsection \<open>The energy balance of an impulse exchange\<close>

lemma pair_energy_identity:
  fixes ax az bx bz px pz :: real
  shows "(ax - px) * (ax - px) + (az - pz) * (az - pz)
       + ((bx + px) * (bx + px) + (bz + pz) * (bz + pz))
       = (ax * ax + az * az) + (bx * bx + bz * bz)
         + 2 * (px * px + pz * pz - (px * (ax - bx) + pz * (az - bz)))"
  by algebra

lemma normal_impulse_loss:
  fixes e d :: real
  shows "(1 + e) / 2 * d * ((1 + e) / 2 * d - d) = - ((1 - e * e) / 4) * (d * d)"
  by (simp add: field_simps)

lemma impulse_work_identity:
  fixes jn jt nx nz dvx dvz :: real
  assumes "nx * nx + nz * nz = 1"
  shows "(jn * nx + jt * (- nz)) * (jn * nx + jt * (- nz))
       + (jn * nz + jt * nx) * (jn * nz + jt * nx)
       - ((jn * nx + jt * (- nz)) * dvx + (jn * nz + jt * nx) * dvz)
       = jn * (jn - (dvx * nx + dvz * nz)) + jt * (jt - (dvx * (- nz) + dvz * nx))"
proof -
  have "(jn * nx + jt * (- nz)) * (jn * nx + jt * (- nz))
       + (jn * nz + jt * nx) * (jn * nz + jt * nx)
       = (jn * jn + jt * jt) * (nx * nx + nz * nz)"
    by algebra
  then have "(jn * nx + jt * (- nz)) * (jn * nx + jt * (- nz))
       + (jn * nz + jt * nx) * (jn * nz + jt * nx) = jn * jn + jt * jt"
    by (simp only: assms mult_1_right)
  moreover have "jn * jn + jt * jt
       - ((jn * nx + jt * (- nz)) * dvx + (jn * nz + jt * nx) * dvz)
       = jn * (jn - (dvx * nx + dvz * nz)) + jt * (jt - (dvx * (- nz) + dvz * nx))"
    by algebra
  ultimately show ?thesis by simp
qed

text \<open>
  The kinetic energy of the pair changes by the loss of the normal impulse,
  \<open>m (1 - e\<^sup>2) dvn\<^sup>2 / 4\<close>, and by the work of the friction impulse,
  \<open>J\<^sub>t (J\<^sub>t / m - dvt)\<close>.
\<close>

lemma collision_energy_balance:
  assumes ex: "impulseExchanged ballA ballB"
  shows "kineticEnergy (res_ballA (calculateBallCollisionWith e ballA ballB))
       + kineticEnergy (res_ballB (calculateBallCollisionWith e ballA ballB))
       = kineticEnergy ballA + kineticEnergy ballB
         - mass * ((1 - e * e) / 4) * (closingVelocity ballA ballB * closingVelocity ballA ballB)
         + throwImpulseWith e ballA ballB
             * (throwImpulseWith e ballA ballB / mass - tangentialVelocity ballA ballB)"
proof -
  let ?nx = "fst (contactNormal ballA ballB)" and ?nz = "snd (contactNormal ballA ballB)"
  let ?dvx = "X (velocity ballA) - X (velocity ballB)"
  let ?dvz = "Z (velocity ballA) - Z (velocity ballB)"
  let ?dvn = "closingVelocity ballA ballB" and ?dvt = "tangentialVelocity ballA ballB"
  let ?Jn = "normalImpulseWith e ballA ballB" and ?Jt = "throwImpulseWith e ballA ballB"
  let ?jn = "?Jn / mass" and ?jt = "?Jt / mass"
  let ?px = "?jn * ?nx + ?jt * (- ?nz)" and ?pz = "?jn * ?nz + ?jt * ?nx"
  from ex have "0 < centerDistance ballA ballB"
    by (simp add: impulseExchanged_def inGatingRange_def)
  then have unit: "?nx * ?nx + ?nz * ?nz = 1"
    by (intro contactNormal_unit)
  have m: "0 < mass" by (simp add: mass_def)
  have dvn_eq: "?dvn = ?dvx * ?nx + ?dvz * ?nz"
    by (simp add: closingVelocity_def Let_def)
  have dvt_eq: "?dvt = ?dvx * (- ?nz) + ?dvz * ?nx"
    by (simp add: tangentialVelocity_def Let_def)
  have px: "(?Jn * ?nx + ?Jt * (- ?nz)) / mass = ?px"
    by (simp add: add_divide_distrib diff_divide_distrib)
  have pz: "(?Jn * ?nz + ?Jt * ?nx) / mass = ?pz"
    by (simp add: add_divide_distrib diff_divide_distrib)
  have jn: "?jn = (1 + e) / 2 * ?dvn"
    using m by (simp add: normalImpulseWith_def)
  have normal: "?jn * (?jn - ?dvn) = - ((1 - e * e) / 4) * (?dvn * ?dvn)"
    unfolding jn by (rule normal_impulse_loss)
  have work: "?px * ?px + ?pz * ?pz - (?px * ?dvx + ?pz * ?dvz)
                = ?jn * (?jn - ?dvn) + ?jt * (?jt - ?dvt)"
    unfolding dvn_eq dvt_eq by (rule impulse_work_identity [OF unit])
  have friction: "mass * (?jt * (?jt - ?dvt)) = ?Jt * (?Jt / mass - ?dvt)"
    using m by simp
  have "kineticEnergy (res_ballA (calculateBallCollisionWith e ballA ballB))
       + kineticEnergy (res_ballB (calculateBallCollisionWith e ballA ballB))
       = 0.5 * mass *
           ((X (velocity ballA) - ?px) * (X (velocity ballA) - ?px)
          + (Z (velocity ballA) - ?pz) * (Z (velocity ballA) - ?pz)
          + ((X (velocity ballB) + ?px) * (X (velocity ballB) + ?px)
          + (Z (velocity ballB) + ?pz) * (Z (velocity ballB) + ?pz)))"
    unfolding kineticEnergy_eq exchange_velocity_With [OF ex] px pz
    by (simp add: algebra_simps)
  also have "\<dots> = 0.5 * mass *
           ((X (velocity ballA) * X (velocity ballA) + Z (velocity ballA) * Z (velocity ballA))
          + (X (velocity ballB) * X (velocity ballB) + Z (velocity ballB) * Z (velocity ballB))
          + 2 * (?px * ?px + ?pz * ?pz - (?px * ?dvx + ?pz * ?dvz)))"
    by (simp only: pair_energy_identity)
  also have "\<dots> = kineticEnergy ballA + kineticEnergy ballB
          + mass * (?px * ?px + ?pz * ?pz - (?px * ?dvx + ?pz * ?dvz))"
    unfolding kineticEnergy_eq by (simp add: algebra_simps)
  also have "\<dots> = kineticEnergy ballA + kineticEnergy ballB
          + mass * (?jn * (?jn - ?dvn) + ?jt * (?jt - ?dvt))"
    by (simp only: work)
  also have "\<dots> = kineticEnergy ballA + kineticEnergy ballB
          + (mass * (?jn * (?jn - ?dvn)) + mass * (?jt * (?jt - ?dvt)))"
    by (simp only: distrib_left)
  also have "\<dots> = kineticEnergy ballA + kineticEnergy ballB
          - mass * ((1 - e * e) / 4) * (?dvn * ?dvn) + ?Jt * (?Jt / mass - ?dvt)"
    by (simp only: normal friction)
  finally show ?thesis .
qed

subsection \<open>The head-on pair gains energy\<close>

lemma headOn_throw: "throwImpulseOf headOnA headOnB = 0"
  by (simp add: throwImpulseOf_def frictionImpulseOf_def headOn_tangential)
     (simp add: example_defs)

lemma headOn_velocityA:
  "velocity (res_ballA (calculateBallCollision headOnA headOnB)) = \<lparr>X = 0, Y = 0, Z = 0.02\<rparr>"
  by (simp add: exchange_velocityA [OF headOn_exchanged] impulseX_def impulseZ_def
        headOn_throw normalImpulseOf_def headOn_normal headOn_closing)
     (simp add: example_defs mass_def restitution_ball_ball_def)

lemma headOn_spinA:
  "angularVelocity (res_ballA (calculateBallCollision headOnA headOnB)) = \<lparr>X = 0, Y = 0, Z = 0\<rparr>"
  by (simp add: exchange_result [OF headOn_exchanged] applyImpulses_spin headOn_throw)
     (simp add: example_defs)

lemma headOn_spinB:
  "X (angularVelocity (res_ballB (calculateBallCollision headOnA headOnB))) = - 1.98 / radius * 0.92"
  "Y (angularVelocity (res_ballB (calculateBallCollision headOnA headOnB))) = 0"
  "Z (angularVelocity (res_ballB (calculateBallCollision headOnA headOnB))) = 0"
proof -
  have fast: "speed (res_ballB (calculateBallCollision headOnA headOnB)) > 0.01"
    by (simp add: headOn_speedB)
  show "X (angularVelocity (res_ballB (calculateBallCollision headOnA headOnB))) = - 1.98 / radius * 0.92"
    "Z (angularVelocity (res_ballB (calculateBallCollision headOnA headOnB))) = 0"
    using exchange_struck_ball(1) [OF headOn_exchanged fast] by (simp_all add: headOn_velocityB)
  show "Y (angularVelocity (res_ballB (calculateBallCollision headOnA headOnB))) = 0"
    by (simp add: exchange_result [OF headOn_exchanged] applyImpulses_spin headOn_throw)
       (simp add: example_defs)
qed

lemma headOn_energy_before: "totalEnergy headOnA + totalEnergy headOnB = 0.284"
  by (simp add: totalEnergy_def kineticEnergy_eq rotationalEnergy_eq example_defs mass_def)

lemma headOn_energy_after:
  "totalEnergy (res_ballA (calculateBallCollision headOnA headOnB))
   + totalEnergy (res_ballB (calculateBallCollision headOnA headOnB)) = 0.372614434304"
  by (simp add: totalEnergy_def kineticEnergy_eq rotationalEnergy_eq headOn_velocityA
        headOn_velocityB headOn_spinA headOn_spinB MOMENT_OF_INERTIA_def mass_def radius_def)

subsection \<open>A glancing rebound with side spin gains energy\<close>

lemma arctan_sqrt3: "arctan (sqrt 3) = pi / 3"
proof (rule arctan_unique)
  show "- (pi / 2) < pi / 3" using pi_gt_zero by linarith
  show "pi / 3 < pi / 2" using pi_gt_zero by linarith
  show "tan (pi / 3) = sqrt 3" by (rule tan_60)
qed

lemma steep_incidence:
  assumes "velNormal \<noteq> 0" and "2 * \<bar>velNormal\<bar> \<le> \<bar>velTangent\<bar>"
  shows "60 \<le> incidenceAngleDeg velTangent velNormal"
proof -
  have pos: "0 < \<bar>velNormal\<bar>" using assms(1) by simp
  have "sqrt 3 \<le> 2" by (rule real_le_lsqrt) simp_all
  also have "2 \<le> \<bar>velTangent\<bar> / \<bar>velNormal\<bar>"
    using assms(2) pos by (simp add: pos_le_divide_eq)
  finally have "arctan (sqrt 3) \<le> arctan (\<bar>velTangent\<bar> / \<bar>velNormal\<bar>)"
    by (rule arctan_monotone')
  then have "pi / 3 \<le> atan2 \<bar>velTangent\<bar> \<bar>velNormal\<bar>"
    using pos by (simp add: atan2_def arctan_sqrt3)
  then have "pi / 3 * (180 / pi) \<le> atan2 \<bar>velTangent\<bar> \<bar>velNormal\<bar> * (180 / pi)"
    by (rule mult_right_mono) simp
  then show ?thesis
    by (simp add: incidenceAngleDeg_def Let_def)
qed

lemma effectiveCoR_glancing:
  "60 \<le> a \<Longrightarrow>
     effectiveCoR a s = max 0.65 (min 0.96 (0.94 * (1 - 0.08 * min 1 (s / 6) * 0.3)))"
  by (simp add: effectiveCoR_def Let_def compression_factor_def restitution_glancing_def)

lemma glancing_angle:
  "60 \<le> incidenceAngleDeg (Z (velocity glancingBall)) (X (velocity glancingBall))"
  by (rule steep_incidence) (simp_all add: glancingBall_def BallState_new_def)

lemma glancing_rebound:
  "velocity (calculateCushionRebound glancingBall ''left'' 1)
     = \<lparr>X = 11703 / 32500, Y = 0, Z = 219 / 208\<rparr>"
  "angularVelocity (calculateCushionRebound glancingBall ''left'' 1) = \<lparr>X = 0, Y = 32, Z = 0\<rparr>"
proof -
  let ?a = "incidenceAngleDeg (Z (velocity glancingBall)) (X (velocity glancingBall))"
  have cor: "effectiveCoR ?a 1 = 11703 / 12500"
    by (simp add: effectiveCoR_glancing [OF glancing_angle])
  have ret: "tangentRetentionOf ?a = 0.97"
    using glancing_angle by (simp add: tangentRetentionOf_def)
  show "velocity (calculateCushionRebound glancingBall ''left'' 1)
     = \<lparr>X = 11703 / 32500, Y = 0, Z = 219 / 208\<rparr>"
    by (simp add: calculateCushionRebound_def cushionNormal_def Let_def cor ret)
       (simp add: glancingBall_def BallState_new_def radius_def height_ratio_def)
  show "angularVelocity (calculateCushionRebound glancingBall ''left'' 1)
          = \<lparr>X = 0, Y = 32, Z = 0\<rparr>"
    by (simp add: calculateCushionRebound_def cushionNormal_def Let_def)
       (simp add: glancingBall_def BallState_new_def)
qed

lemma glancing_energy:
  "totalEnergy glancingBall = 102311 / 1000000"
  "totalEnergy (calculateCushionRebound glancingBall ''left'' 1)
     = 1824414932799 / 16900000000000"
  by (simp_all add: totalEnergy_def kineticEnergy_eq rotationalEnergy_eq glancing_rebound
        MOMENT_OF_INERTIA_def mass_def radius_def)
     (simp_all add: glancingBall_def BallState_new_def)

subsection \<open>Side spin and restitution values that add kinetic energy\<close>

lemma striker_at_origin:
  assumes "position a = \<lparr>X = 0, Y = 0, Z = 0\<rparr>"
  shows "contactNormal a headOnB = (0, 1)"
    and "closingVelocity a headOnB = Z (velocity a)"
    and "tangentialVelocity a headOnB = - X (velocity a)"
    and "inGatingRange a headOnB"
proof -
  have x: "X (position headOnB) = X (position a)"
    by (simp add: assms headOnB_def BallState_new_def)
  have z: "Z (position a) < Z (position headOnB)"
    by (simp add: assms headOnB_def BallState_new_def radius_def)
  have vB: "velocity headOnB = \<lparr>X = 0, Y = 0, Z = 0\<rparr>"
    by (simp add: headOnB_def BallState_new_def)
  show "contactNormal a headOnB = (0, 1)"
    using x z by (rule contactNormal_axis)
  show "closingVelocity a headOnB = Z (velocity a)"
    by (simp add: closingVelocity_axis [OF x z] vB)
  show "tangentialVelocity a headOnB = - X (velocity a)"
    by (simp add: tangential_axis [OF x z] vB)
  have "centerDistance a headOnB = \<bar>Z (position headOnB) - Z (position a)\<bar>"
    using x by (rule centerDistance_axis)
  then have "centerDistance a headOnB = 2 * radius"
    by (simp add: assms headOnB_def BallState_new_def radius_def)
  then show "inGatingRange a headOnB"
    by (simp add: inGatingRange_def radius_def)
qed

lemma cutShot_position: "position cutShotA = \<lparr>X = 0, Y = 0, Z = 0\<rparr>"
  by (simp add: cutShotA_def BallState_new_def)

lemma cutShot_exchanged: "impulseExchanged cutShotA headOnB"
  by (simp add: impulseExchanged_def striker_at_origin [OF cutShot_position])
     (simp add: cutShotA_def BallState_new_def)

lemma cutShot_closing: "closingVelocity cutShotA headOnB = 1"
  by (simp add: striker_at_origin [OF cutShot_position]) (simp add: cutShotA_def BallState_new_def)

lemma cutShot_tangential: "tangentialVelocity cutShotA headOnB = - 0.5"
  by (simp add: striker_at_origin [OF cutShot_position]) (simp add: cutShotA_def BallState_new_def)

lemma cutShot_total_tangential: "totalTangentVelocity cutShotA headOnB = 0.55"
  by (simp add: totalTangentVelocity_def cutShot_tangential)
     (simp add: cutShotA_def BallState_new_def radius_def)

lemma cutShot_throw:
  "throwImpulseWith restitution_ball_ball cutShotA headOnB = 0.04752 * mass"
  by (simp add: throwImpulseWith_def normalImpulseWith_def cutShot_total_tangential
        cutShot_closing frictionImpulseOf_def Let_def)
     (simp add: restitution_ball_ball_def friction_ball_ball_def friction_accumulation_def
        mass_def)

lemma cutShot_energy:
  "kineticEnergy cutShotA + kineticEnergy headOnB = 0.625 * mass"
  "kineticEnergy (res_ballA (calculateBallCollision cutShotA headOnB))
   + kineticEnergy (res_ballB (calculateBallCollision cutShotA headOnB)) = 0.6411181504 * mass"
proof -
  show before: "kineticEnergy cutShotA + kineticEnergy headOnB = 0.625 * mass"
    by (simp add: kineticEnergy_eq cutShotA_def headOnB_def BallState_new_def)
  show "kineticEnergy (res_ballA (calculateBallCollision cutShotA headOnB))
   + kineticEnergy (res_ballB (calculateBallCollision cutShotA headOnB)) = 0.6411181504 * mass"
    unfolding calculateBallCollision_With collision_energy_balance [OF cutShot_exchanged]
      before cutShot_closing cutShot_tangential cutShot_throw
    by (simp add: restitution_ball_ball_def mass_def)
qed

lemma spinningHeadOn_position: "position spinningHeadOnA = \<lparr>X = 0, Y = 0, Z = 0\<rparr>"
  by (simp add: spinningHeadOnA_def BallState_new_def)

lemma spinningHeadOn_exchanged: "impulseExchanged spinningHeadOnA headOnB"
  by (simp add: impulseExchanged_def striker_at_origin [OF spinningHeadOn_position])
     (simp add: spinningHeadOnA_def BallState_new_def)

lemma spinningHeadOn_closing: "closingVelocity spinningHeadOnA headOnB = 2"
  by (simp add: striker_at_origin [OF spinningHeadOn_position])
     (simp add: spinningHeadOnA_def BallState_new_def)

lemma spinningHeadOn_tangential: "tangentialVelocity spinningHeadOnA headOnB = 0"
  by (simp add: striker_at_origin [OF spinningHeadOn_position])
     (simp add: spinningHeadOnA_def BallState_new_def)

lemma spinningHeadOn_total_tangential: "totalTangentVelocity spinningHeadOnA headOnB = 1.05"
  by (simp add: totalTangentVelocity_def spinningHeadOn_tangential)
     (simp add: spinningHeadOnA_def BallState_new_def radius_def)

lemma spinningHeadOn_throw: "throwImpulseWith 1 spinningHeadOnA headOnB = 0.09024 * mass"
  by (simp add: throwImpulseWith_def normalImpulseWith_def spinningHeadOn_total_tangential
        spinningHeadOn_closing frictionImpulseOf_def Let_def)
     (simp add: friction_ball_ball_def friction_accumulation_def mass_def)

lemma spinningHeadOn_energy:
  "kineticEnergy spinningHeadOnA + kineticEnergy headOnB = 2 * mass"
  "kineticEnergy (res_ballA (calculateBallCollisionWith 1 spinningHeadOnA headOnB))
   + kineticEnergy (res_ballB (calculateBallCollisionWith 1 spinningHeadOnA headOnB))
     = 2.0081432576 * mass"
proof -
  show before: "kineticEnergy spinningHeadOnA + kineticEnergy headOnB = 2 * mass"
    by (simp add: kineticEnergy_eq spinningHeadOnA_def headOnB_def BallState_new_def)
  show "kineticEnergy (res_ballA (calculateBallCollisionWith 1 spinningHeadOnA headOnB))
   + kineticEnergy (res_ballB (calculateBallCollisionWith 1 spinningHeadOnA headOnB))
     = 2.0081432576 * mass"
    unfolding collision_energy_balance [OF spinningHeadOn_exchanged]
      before spinningHeadOn_closing spinningHeadOn_tangential spinningHeadOn_throw
    by (simp add: mass_def)
qed

lemma headOn_tangential_With: "totalTangentVelocity headOnA headOnB = 0"
  by (simp add: totalTangentVelocity_def headOn_tangential) (simp add: example_defs)

lemma headOn_throw_With: "throwImpulseWith e headOnA headOnB = 0"
  by (simp add: throwImpulseWith_def headOn_tangential_With frictionImpulseOf_def)

lemma headOn_energy_With:
  "kineticEnergy headOnA + kineticEnergy headOnB = 2 * mass"
  "kineticEnergy (res_ballA (calculateBallCollisionWith e headOnA headOnB))
   + kineticEnergy (res_ballB (calculateBallCollisionWith e headOnA headOnB))
     = (1 + e * e) * mass"
proof -
  show before: "kineticEnergy headOnA + kineticEnergy headOnB = 2 * mass"
    by (simp add: kineticEnergy_eq example_defs)
  show "kineticEnergy (res_ballA (calculateBallCollisionWith e headOnA headOnB))
   + kineticEnergy (res_ballB (calculateBallCollisionWith e headOnA headOnB))
     = (1 + e * e) * mass"
    unfolding collision_energy_balance [OF headOn_exchanged]
      before headOn_closing headOn_tangential headOn_throw_With
    by (simp add: field_simps)
qed

text \<open>
  Claim C2, as stated, fails for both events, and for the kinetic energy alone as well.

  \<^item> At the shipped restitution, the head-on collision at 2 m/s of two balls without any
    spin raises the energy of the pair from 0.284 J to 0.3726 J: the struck ball is given
    92% of the rolling spin of its new velocity, whatever spin there was.
  \<^item> At the shipped restitution, a striking ball whose side spin opposes and exceeds the
    tangential relative velocity (\<open>cutShotA\<close>) gains kinetic energy from the friction
    impulse: the kinetic energy of the pair rises from \<open>0.625 m\<close> to \<open>0.6411 m\<close>.
  \<^item> At restitution 1 the normal impulse loses nothing, and the friction impulse of a
    head-on hit with side spin (\<open>spinningHeadOnA\<close>) raises the kinetic energy of the pair
    from \<open>2 m\<close> to \<open>2.0081 m\<close>.
  \<^item> At restitution \<open>-2\<close>, which is below 1 as well, the head-on collision without spin
    raises the kinetic energy of the pair from \<open>2 m\<close> to \<open>5 m\<close>.
  \<^item> At the left cushion a ball of speed 1 m/s with side spin 40 rad/s, arriving at a
    glancing angle, leaves with more energy than it came with (0.10795 J after, 0.10231 J
    before): the side spin adds \<open>0.15 \<omega>\<^sub>y R\<close> to the tangential velocity.
\<close>

theorem energy_can_increase:
  "impulseExchanged headOnA headOnB
   \<and> totalEnergy headOnA + totalEnergy headOnB
     < totalEnergy (res_ballA (calculateBallCollision headOnA headOnB))
       + totalEnergy (res_ballB (calculateBallCollision headOnA headOnB))
   \<and> impulseExchanged cutShotA headOnB
   \<and> kineticEnergy cutShotA + kineticEnergy headOnB
     < kineticEnergy (res_ballA (calculateBallCollision cutShotA headOnB))
       + kineticEnergy (res_ballB (calculateBallCollision cutShotA headOnB))
   \<and> impulseExchanged spinningHeadOnA headOnB
   \<and> kineticEnergy spinningHeadOnA + kineticEnergy headOnB
     < kineticEnergy (res_ballA (calculateBallCollisionWith 1 spinningHeadOnA headOnB))
       + kineticEnergy (res_ballB (calculateBallCollisionWith 1 spinningHeadOnA headOnB))
   \<and> kineticEnergy headOnA + kineticEnergy headOnB
     < kineticEnergy (res_ballA (calculateBallCollisionWith (- 2) headOnA headOnB))
       + kineticEnergy (res_ballB (calculateBallCollisionWith (- 2) headOnA headOnB))
   \<and> totalEnergy glancingBall < totalEnergy (calculateCushionRebound glancingBall ''left'' 1)"
proof -
  have m: "0 < mass" by (simp add: mass_def)
  have "totalEnergy headOnA + totalEnergy headOnB
     < totalEnergy (res_ballA (calculateBallCollision headOnA headOnB))
       + totalEnergy (res_ballB (calculateBallCollision headOnA headOnB))"
    by (simp add: headOn_energy_before headOn_energy_after)
  moreover have "kineticEnergy cutShotA + kineticEnergy headOnB
     < kineticEnergy (res_ballA (calculateBallCollision cutShotA headOnB))
       + kineticEnergy (res_ballB (calculateBallCollision cutShotA headOnB))"
    using m by (simp add: cutShot_energy)
  moreover have "kineticEnergy spinningHeadOnA + kineticEnergy headOnB
     < kineticEnergy (res_ballA (calculateBallCollisionWith 1 spinningHeadOnA headOnB))
       + kineticEnergy (res_ballB (calculateBallCollisionWith 1 spinningHeadOnA headOnB))"
    using m by (simp add: spinningHeadOn_energy)
  moreover have "kineticEnergy headOnA + kineticEnergy headOnB
     < kineticEnergy (res_ballA (calculateBallCollisionWith (- 2) headOnA headOnB))
       + kineticEnergy (res_ballB (calculateBallCollisionWith (- 2) headOnA headOnB))"
    using m by (simp add: headOn_energy_With)
  moreover have "totalEnergy glancingBall
     < totalEnergy (calculateCushionRebound glancingBall ''left'' 1)"
    by (simp add: glancing_energy)
  ultimately show ?thesis
    using headOn_exchanged cutShot_exchanged spinningHeadOn_exchanged by simp
qed

subsection \<open>What does not increase: collisions\<close>

text \<open>
  When the friction impulse is not zero it has the sign of the total tangential velocity
  \<open>T\<close>, and its size is at most \<^verbatim>\<open>maxFrictionImpulse\<close> and at most \<open>m |T| / 2\<close>.
\<close>

lemma friction_impulse_cases:
  assumes "0 < dvn" and "0 \<le> maxF"
  obtains "frictionImpulseOf T maxF dvn = 0"
  | c where "T \<noteq> 0" and "frictionImpulseOf T maxF dvn = sgn T * c"
      and "0 \<le> c" and "c \<le> maxF" and "c \<le> \<bar>mass * T * 0.5\<bar>"
proof (cases "\<bar>T\<bar> > 0.01")
  case False
  then have "frictionImpulseOf T maxF dvn = 0" by (simp add: frictionImpulseOf_def)
  then show ?thesis by (rule that(1))
next
  case True
  define sf where "sf = min 1.0 (2.0 / (dvn + 0.5))"
  define f where "f = 1.0 + (sf - 1.0) * (0.3::real)"
  define c where "c = min maxF \<bar>mass * T * 0.5\<bar> * f"
  have Jt: "frictionImpulseOf T maxF dvn = sgn T * c"
    using True by (simp add: frictionImpulseOf_def Let_def c_def f_def sf_def)
  have "0 < 2.0 / (dvn + 0.5)" using assms(1) by simp
  then have "0 < sf" and "sf \<le> 1"
    unfolding sf_def by simp_all
  then have f0: "0 \<le> f" and f1: "f \<le> 1"
    by (simp_all add: f_def field_simps)
  have m0: "0 \<le> min maxF \<bar>mass * T * 0.5\<bar>" using assms(2) by simp
  have c0: "0 \<le> c" unfolding c_def using m0 f0 by (rule mult_nonneg_nonneg)
  have "c \<le> min maxF \<bar>mass * T * 0.5\<bar> * 1"
    unfolding c_def using f1 m0 by (rule mult_left_mono)
  then have c1: "c \<le> maxF" and c2: "c \<le> \<bar>mass * T * 0.5\<bar>" by simp_all
  have T0: "T \<noteq> 0" using True by auto
  show ?thesis using T0 Jt c0 c1 c2 by (rule that(2))
qed

lemma sgn_along:
  fixes T dvt :: real
  assumes "T \<noteq> 0" and "0 \<le> T * dvt"
  shows "sgn T * dvt = \<bar>dvt\<bar>"
proof (cases "0 < T")
  case True
  with assms(2) have "0 \<le> dvt" by (simp add: zero_le_mult_iff)
  with True show ?thesis by simp
next
  case False
  with assms(1) have neg: "T < 0" by simp
  with assms(2) have "dvt \<le> 0" by (simp add: zero_le_mult_iff)
  with neg show ?thesis by simp
qed

lemma friction_work_form:
  fixes T dvt c :: real
  assumes "T \<noteq> 0" and "0 \<le> T * dvt"
  shows "sgn T * c * (sgn T * c - mass * dvt) = c * c - c * mass * \<bar>dvt\<bar>"
proof -
  have "sgn T * sgn T = 1"
    using assms(1) by (simp add: sgn_real_def)
  moreover have "sgn T * c * (sgn T * c - mass * dvt)
                   = (sgn T * sgn T) * (c * c) - c * mass * (sgn T * dvt)"
    by (simp add: algebra_simps)
  ultimately show ?thesis
    by (simp only: sgn_along [OF assms] mult_1)
qed

text \<open>
  When the total tangential velocity does not oppose the tangential relative velocity, the
  friction impulse does not act against that velocity either, and its work is at most
  \<open>maxFrictionImpulse\<^sup>2 / m\<close>.
\<close>

lemma friction_work_bounded:
  assumes "0 < dvn" and "0 \<le> maxF" and "0 \<le> T * dvt"
  shows "frictionImpulseOf T maxF dvn * (frictionImpulseOf T maxF dvn - mass * dvt)
           \<le> maxF * maxF"
proof (rule friction_impulse_cases [OF assms(1,2), of T])
  assume "frictionImpulseOf T maxF dvn = 0"
  then show ?thesis by simp
next
  fix c
  assume T0: "T \<noteq> 0" and Jt: "frictionImpulseOf T maxF dvn = sgn T * c"
    and c0: "0 \<le> c" and c1: "c \<le> maxF"
  have "0 \<le> c * mass * \<bar>dvt\<bar>"
    using c0 by (simp add: mass_def)
  then have "c * c - c * mass * \<bar>dvt\<bar> \<le> c * c" by simp
  also have "c * c \<le> maxF * maxF"
    using c0 c1 by (intro mult_mono) simp_all
  finally show ?thesis
    by (simp only: Jt friction_work_form [OF T0 assms(3)])
qed

text \<open>
  When the surface speed of the side spin does not exceed the tangential relative speed,
  the friction impulse takes energy out.
\<close>

lemma friction_work_nonpos:
  assumes "0 < dvn" and "0 \<le> maxF" and "\<bar>S\<bar> \<le> \<bar>dvt\<bar>"
  shows "frictionImpulseOf (dvt + S) maxF dvn
           * (frictionImpulseOf (dvt + S) maxF dvn - mass * dvt) \<le> 0"
proof (rule friction_impulse_cases [OF assms(1,2), of "dvt + S"])
  assume "frictionImpulseOf (dvt + S) maxF dvn = 0"
  then show ?thesis by simp
next
  fix c
  assume T0: "dvt + S \<noteq> 0" and Jt: "frictionImpulseOf (dvt + S) maxF dvn = sgn (dvt + S) * c"
    and c0: "0 \<le> c" and c2: "c \<le> \<bar>mass * (dvt + S) * 0.5\<bar>"
  have along: "0 \<le> (dvt + S) * dvt"
  proof (cases "0 \<le> dvt")
    case True
    with assms(3) have "0 \<le> dvt + S" by simp
    with True show ?thesis by simp
  next
    case False
    with assms(3) have "dvt + S \<le> 0" by simp
    with False show ?thesis by (simp add: mult_nonpos_nonpos)
  qed
  have m: "0 < mass" by (simp add: mass_def)
  have "\<bar>dvt + S\<bar> \<le> 2 * \<bar>dvt\<bar>" using assms(3) by simp
  then have "\<bar>dvt + S\<bar> * 0.5 \<le> \<bar>dvt\<bar>" by simp
  then have "mass * (\<bar>dvt + S\<bar> * 0.5) \<le> mass * \<bar>dvt\<bar>"
    using m by (intro mult_left_mono) simp_all
  moreover have "\<bar>mass * (dvt + S) * 0.5\<bar> = mass * (\<bar>dvt + S\<bar> * 0.5)"
    using m by (simp add: abs_mult)
  ultimately have "c \<le> mass * \<bar>dvt\<bar>" using c2 by simp
  then have "c * c \<le> c * (mass * \<bar>dvt\<bar>)"
    using c0 by (rule mult_left_mono)
  then have "c * c - c * mass * \<bar>dvt\<bar> \<le> 0" by (simp add: mult.assoc)
  then show ?thesis
    by (simp only: Jt friction_work_form [OF T0 along])
qed

lemma normalImpulse_nonneg:
  assumes "impulseExchanged ballA ballB" and "- 1 \<le> e"
  shows "0 \<le> friction_ball_ball * normalImpulseWith e ballA ballB * friction_accumulation"
proof -
  have d0: "0 \<le> closingVelocity ballA ballB"
    using assms(1) by (simp add: impulseExchanged_def)
  have e0: "0 \<le> 1 + e" using assms(2) by simp
  have m0: "0 \<le> mass" by (simp add: mass_def)
  have "0 \<le> (1 + e) * mass * closingVelocity ballA ballB"
    by (intro mult_nonneg_nonneg e0 m0 d0)
  then have n0: "0 \<le> normalImpulseWith e ballA ballB"
    by (simp add: normalImpulseWith_def)
  have f0: "0 \<le> friction_ball_ball" by (simp add: friction_ball_ball_def)
  have a0: "0 \<le> friction_accumulation" by (simp add: friction_accumulation_def)
  show ?thesis
    by (intro mult_nonneg_nonneg f0 n0 a0)
qed

lemma unchanged_without_exchange:
  assumes "\<not> impulseExchanged ballA ballB"
  shows "kineticEnergy (res_ballA (calculateBallCollisionWith e ballA ballB))
       + kineticEnergy (res_ballB (calculateBallCollisionWith e ballA ballB))
       = kineticEnergy ballA + kineticEnergy ballB"
  by (simp add: kineticEnergy_eq no_exchange_velocity_With [OF assms])

lemma energy_drop:
  fixes K N F :: real
  shows "0 \<le> N \<Longrightarrow> F \<le> 0 \<Longrightarrow> K - N + F \<le> K"
    and "F \<le> N \<Longrightarrow> K - N + F \<le> K"
  by simp_all

lemma collision_small_spin:
  assumes lo: "- 1 \<le> e" and hi: "e \<le> 1"
    and spin: "\<bar>Y (angularVelocity ballA) * radius\<bar> \<le> \<bar>tangentialVelocity ballA ballB\<bar>"
  shows "kineticEnergy (res_ballA (calculateBallCollisionWith e ballA ballB))
       + kineticEnergy (res_ballB (calculateBallCollisionWith e ballA ballB))
       \<le> kineticEnergy ballA + kineticEnergy ballB"
proof (cases "impulseExchanged ballA ballB")
  case False
  then show ?thesis by (simp add: unchanged_without_exchange)
next
  case ex: True
  let ?dvn = "closingVelocity ballA ballB" and ?dvt = "tangentialVelocity ballA ballB"
  let ?Jt = "throwImpulseWith e ballA ballB"
  have m: "0 < mass" by (simp add: mass_def)
  have dvn: "0 < ?dvn" using ex by (simp add: impulseExchanged_def)
  have "?Jt * (?Jt - mass * ?dvt) \<le> 0"
    unfolding throwImpulseWith_def totalTangentVelocity_def
    by (rule friction_work_nonpos [OF dvn normalImpulse_nonneg [OF ex lo] spin])
  then have "(?Jt * (?Jt - mass * ?dvt)) / mass \<le> 0"
    using m by (simp add: divide_nonpos_pos)
  moreover have "?Jt * (?Jt / mass - ?dvt) = (?Jt * (?Jt - mass * ?dvt)) / mass"
    using m by (simp add: field_simps)
  ultimately have friction: "?Jt * (?Jt / mass - ?dvt) \<le> 0" by simp
  have "\<bar>e\<bar> * \<bar>e\<bar> \<le> 1 * 1"
    using lo hi by (intro mult_mono) simp_all
  then have "0 \<le> (1 - e * e) / 4" by simp
  then have "0 \<le> mass * ((1 - e * e) / 4)"
    using m by simp
  then have normal: "0 \<le> mass * ((1 - e * e) / 4) * (?dvn * ?dvn)"
    by (rule mult_nonneg_nonneg) simp
  show ?thesis
    unfolding collision_energy_balance [OF ex] using normal friction by (rule energy_drop(1))
qed

lemma restitution_budget:
  fixes e :: real
  assumes "- 1 \<le> e" and "0.002304 * (1 + e) \<le> 1 - e"
  shows "0.000576 * ((1 + e) * (1 + e)) \<le> (1 - e * e) / 4"
proof -
  have "0.002304 * (1 + e) * (1 + e) \<le> (1 - e) * (1 + e)"
    using assms by (intro mult_right_mono) simp_all
  moreover have "(1 - e) * (1 + e) = 1 - e * e" by algebra
  ultimately have "0.002304 * ((1 + e) * (1 + e)) \<le> 1 - e * e"
    by (simp only: mult.assoc)
  then show ?thesis by simp
qed

lemma collision_budget:
  assumes lo: "- 1 \<le> e" and budget: "0.002304 * (1 + e) \<le> 1 - e"
    and along: "0 \<le> totalTangentVelocity ballA ballB * tangentialVelocity ballA ballB"
  shows "kineticEnergy (res_ballA (calculateBallCollisionWith e ballA ballB))
       + kineticEnergy (res_ballB (calculateBallCollisionWith e ballA ballB))
       \<le> kineticEnergy ballA + kineticEnergy ballB"
proof (cases "impulseExchanged ballA ballB")
  case False
  then show ?thesis by (simp add: unchanged_without_exchange)
next
  case ex: True
  let ?dvn = "closingVelocity ballA ballB" and ?dvt = "tangentialVelocity ballA ballB"
  let ?Jt = "throwImpulseWith e ballA ballB"
  let ?maxF = "friction_ball_ball * normalImpulseWith e ballA ballB * friction_accumulation"
  have m: "0 < mass" by (simp add: mass_def)
  have dvn: "0 < ?dvn" using ex by (simp add: impulseExchanged_def)
  have maxF_eq: "?maxF = 0.024 * (1 + e) * mass * ?dvn"
    by (simp add: normalImpulseWith_def friction_ball_ball_def friction_accumulation_def)
  have "?Jt * (?Jt - mass * ?dvt) \<le> ?maxF * ?maxF"
    unfolding throwImpulseWith_def
    by (rule friction_work_bounded [OF dvn normalImpulse_nonneg [OF ex lo] along])
  then have "(?Jt * (?Jt - mass * ?dvt)) / mass \<le> (?maxF * ?maxF) / mass"
    using m by (intro divide_right_mono) simp_all
  moreover have "?Jt * (?Jt / mass - ?dvt) = (?Jt * (?Jt - mass * ?dvt)) / mass"
    using m by (simp add: field_simps)
  moreover have "(?maxF * ?maxF) / mass
                   = mass * (0.000576 * ((1 + e) * (1 + e))) * (?dvn * ?dvn)"
    unfolding maxF_eq using m by (simp add: field_simps)
  ultimately have friction:
      "?Jt * (?Jt / mass - ?dvt) \<le> mass * (0.000576 * ((1 + e) * (1 + e))) * (?dvn * ?dvn)"
    by simp
  have "mass * (0.000576 * ((1 + e) * (1 + e))) \<le> mass * ((1 - e * e) / 4)"
    using m restitution_budget [OF lo budget] by (intro mult_left_mono) simp_all
  then have "mass * (0.000576 * ((1 + e) * (1 + e))) * (?dvn * ?dvn)
               \<le> mass * ((1 - e * e) / 4) * (?dvn * ?dvn)"
    by (rule mult_right_mono) simp
  with friction have "?Jt * (?Jt / mass - ?dvt) \<le> mass * ((1 - e * e) / 4) * (?dvn * ?dvn)"
    by (rule order_trans)
  then show ?thesis
    unfolding collision_energy_balance [OF ex] by (rule energy_drop(2))
qed

subsection \<open>What does not increase: rebounds\<close>

lemma effectiveCoRWith_range:
  "0.65 \<le> effectiveCoRWith p g a s" "effectiveCoRWith p g a s \<le> 0.96"
proof -
  show "0.65 \<le> effectiveCoRWith p g a s"
    unfolding effectiveCoRWith_def Let_def by (rule max.cobounded1)
  show "effectiveCoRWith p g a s \<le> 0.96"
    unfolding effectiveCoRWith_def Let_def
  proof (rule max.boundedI)
    show "(0.65::real) \<le> 0.96" by simp
  qed (rule min.cobounded1)
qed

lemma incidence_nonneg: "0 \<le> incidenceAngleDeg velTangent velNormal"
proof -
  have "0 \<le> atan2 \<bar>velTangent\<bar> \<bar>velNormal\<bar>"
  proof (cases "0 < \<bar>velNormal\<bar>")
    case True
    then have "0 \<le> \<bar>velTangent\<bar> / \<bar>velNormal\<bar>" by simp
    then have "arctan 0 \<le> arctan (\<bar>velTangent\<bar> / \<bar>velNormal\<bar>)"
      by (rule arctan_monotone')
    with True show ?thesis by (simp add: atan2_def)
  next
    case False
    then show ?thesis by (simp add: atan2_def)
  qed
  then show ?thesis by (simp add: incidenceAngleDeg_def Let_def)
qed

lemma tangentRetention_range:
  "0 \<le> a \<Longrightarrow> 0 \<le> tangentRetentionOf a" "tangentRetentionOf a \<le> 0.97"
  by (simp_all add: tangentRetentionOf_def)

lemma cushionNormal_unit_or_zero:
  "fst (cushionNormal c) * fst (cushionNormal c) + snd (cushionNormal c) * snd (cushionNormal c) = 1
   \<or> cushionNormal c = (0, 0)"
  by (simp add: cushionNormal_def)

lemma cushionNormal_unit:
  "c \<in> {''left'', ''right'', ''top'', ''bottom''}
     \<Longrightarrow> fst (cushionNormal c) * fst (cushionNormal c)
         + snd (cushionNormal c) * snd (cushionNormal c) = 1"
  by (auto simp add: cushionNormal_def)

lemma square_shrinks:
  fixes v k :: real
  assumes "- 1 \<le> k" and "k \<le> 1"
  shows "(v * k) * (v * k) \<le> v * v"
proof -
  have "\<bar>k\<bar> * \<bar>k\<bar> \<le> 1 * 1" using assms by (intro mult_mono) simp_all
  then have "k * k \<le> 1" by simp
  then have "(v * v) * (k * k) \<le> (v * v) * 1"
    by (intro mult_left_mono) simp_all
  then show ?thesis by (simp add: mult_ac)
qed

lemma rebound_velocity_With:
  "X (velocity (calculateCushionReboundWith p g ball cushion impactSpeed))
     = - (velNormalOf ball cushion
          * effectiveCoRWith p g
              (incidenceAngleDeg (velTangentOf ball cushion) (velNormalOf ball cushion))
              impactSpeed) * fst (cushionNormal cushion)
       + newVelTangentOf ball cushion * (- snd (cushionNormal cushion))"
  "Z (velocity (calculateCushionReboundWith p g ball cushion impactSpeed))
     = - (velNormalOf ball cushion
          * effectiveCoRWith p g
              (incidenceAngleDeg (velTangentOf ball cushion) (velNormalOf ball cushion))
              impactSpeed) * snd (cushionNormal cushion)
       + newVelTangentOf ball cushion * fst (cushionNormal cushion)"
  by (simp_all add: calculateCushionReboundWith_def velNormalOf_def velTangentOf_def
        newVelTangentOf_def gripFactorOf_def Let_def split_beta)

lemma rebound_spin_With:
  "angularVelocity (calculateCushionReboundWith p g ball cushion impactSpeed)
     = \<lparr>X = X (angularVelocity ball) * 0.95, Y = Y (angularVelocity ball) * 0.80,
        Z = Z (angularVelocity ball) * 0.95\<rparr>"
  by (simp add: calculateCushionReboundWith_def Let_def split_beta)

lemma plane_components:
  fixes wn wt nx nz :: real
  shows "(wn * nx + wt * (- nz)) * (wn * nx + wt * (- nz))
       + (wn * nz + wt * nx) * (wn * nz + wt * nx)
       = (wn * wn + wt * wt) * (nx * nx + nz * nz)"
  by algebra

lemma rebound_kinetic_after:
  assumes unit: "fst (cushionNormal cushion) * fst (cushionNormal cushion)
               + snd (cushionNormal cushion) * snd (cushionNormal cushion) = 1"
  shows "kineticEnergy (calculateCushionReboundWith p g ball cushion impactSpeed)
       = 0.5 * mass
         * ((velNormalOf ball cushion
              * effectiveCoRWith p g
                  (incidenceAngleDeg (velTangentOf ball cushion) (velNormalOf ball cushion))
                  impactSpeed)
            * (velNormalOf ball cushion
              * effectiveCoRWith p g
                  (incidenceAngleDeg (velTangentOf ball cushion) (velNormalOf ball cushion))
                  impactSpeed)
            + newVelTangentOf ball cushion * newVelTangentOf ball cushion)"
proof -
  let ?nx = "fst (cushionNormal cushion)" and ?nz = "snd (cushionNormal cushion)"
  let ?vn = "velNormalOf ball cushion" and ?vt = "velTangentOf ball cushion"
  let ?cor = "effectiveCoRWith p g (incidenceAngleDeg ?vt ?vn) impactSpeed"
  let ?wn = "- (?vn * ?cor)" and ?wt = "newVelTangentOf ball cushion"
  have "(?wn * ?nx + ?wt * (- ?nz)) * (?wn * ?nx + ?wt * (- ?nz))
      + (?wn * ?nz + ?wt * ?nx) * (?wn * ?nz + ?wt * ?nx)
      = ?wn * ?wn + ?wt * ?wt"
    by (simp only: plane_components unit mult_1_right)
  also have "\<dots> = (?vn * ?cor) * (?vn * ?cor) + ?wt * ?wt" by simp
  finally show ?thesis
    unfolding kineticEnergy_eq rebound_velocity_With by (simp only:)
qed

lemma rebound_kinetic_before:
  assumes unit: "fst (cushionNormal cushion) * fst (cushionNormal cushion)
               + snd (cushionNormal cushion) * snd (cushionNormal cushion) = 1"
  shows "kineticEnergy ball
       = 0.5 * mass * (velNormalOf ball cushion * velNormalOf ball cushion
                     + velTangentOf ball cushion * velTangentOf ball cushion)"
proof -
  let ?nx = "fst (cushionNormal cushion)" and ?nz = "snd (cushionNormal cushion)"
  let ?vx = "X (velocity ball)" and ?vz = "Z (velocity ball)"
  let ?vn = "velNormalOf ball cushion" and ?vt = "velTangentOf ball cushion"
  have vn: "?vn = ?vx * ?nx + ?vz * ?nz" and vt: "?vt = ?vx * (- ?nz) + ?vz * ?nx"
    by (simp_all add: velNormalOf_def velTangentOf_def split_beta)
  have "?vn * ?vn + ?vt * ?vt = (?vx * ?vx + ?vz * ?vz) * (?nx * ?nx + ?nz * ?nz)"
    unfolding vn vt by algebra
  then have "?vn * ?vn + ?vt * ?vt = ?vx * ?vx + ?vz * ?vz"
    by (simp only: unit mult_1_right)
  then show ?thesis
    unfolding kineticEnergy_eq by (simp only:)
qed

lemma spin_loss:
  fixes h x y z :: real
  shows "h * (x * 0.95 * (x * 0.95) + y * 0.80 * (y * 0.80) + z * 0.95 * (z * 0.95))
       = h * (x * x + y * y + z * z) - h * (0.0975 * (x * x + z * z) + 0.36 * (y * y))"
  by (simp add: field_simps)

lemma rebound_rotational_balance:
  "rotationalEnergy (calculateCushionReboundWith p g ball cushion impactSpeed)
     = rotationalEnergy ball
       - 0.5 * MOMENT_OF_INERTIA
         * (0.0975 * (X (angularVelocity ball) * X (angularVelocity ball)
                    + Z (angularVelocity ball) * Z (angularVelocity ball))
          + 0.36 * (Y (angularVelocity ball) * Y (angularVelocity ball)))"
  unfolding rotationalEnergy_eq rebound_spin_With
  by (simp only: vec3.simps spin_loss)

lemma energy_rearrange:
  fixes h vn vt wt c rot r :: real
  shows "h * (vn * c * (vn * c) + wt * wt) + (rot - r)
       = h * (vn * vn + vt * vt) + rot
         - h * ((1 - c * c) * (vn * vn) + (vt * vt - wt * wt)) - r"
  by algebra

lemma rebound_energy_balance:
  assumes "cushion \<in> {''left'', ''right'', ''top'', ''bottom''}"
  shows "totalEnergy (calculateCushionReboundWith p g ball cushion impactSpeed)
       = totalEnergy ball
         - 0.5 * mass
           * ((1 - effectiveCoRWith p g
                     (incidenceAngleDeg (velTangentOf ball cushion) (velNormalOf ball cushion))
                     impactSpeed
                   * effectiveCoRWith p g
                     (incidenceAngleDeg (velTangentOf ball cushion) (velNormalOf ball cushion))
                     impactSpeed)
               * (velNormalOf ball cushion * velNormalOf ball cushion)
            + (velTangentOf ball cushion * velTangentOf ball cushion
               - newVelTangentOf ball cushion * newVelTangentOf ball cushion))
         - 0.5 * MOMENT_OF_INERTIA
           * (0.0975 * (X (angularVelocity ball) * X (angularVelocity ball)
                      + Z (angularVelocity ball) * Z (angularVelocity ball))
            + 0.36 * (Y (angularVelocity ball) * Y (angularVelocity ball)))"
proof -
  note unit = cushionNormal_unit [OF assms]
  have before: "totalEnergy ball
      = 0.5 * mass * (velNormalOf ball cushion * velNormalOf ball cushion
                     + velTangentOf ball cushion * velTangentOf ball cushion)
        + rotationalEnergy ball"
    unfolding totalEnergy_def by (simp only: rebound_kinetic_before [OF unit, of ball])
  show ?thesis
    unfolding before
    unfolding totalEnergy_def rebound_rotational_balance rebound_kinetic_after [OF unit]
    by (rule energy_rearrange)
qed

lemma rebound_rotational_energy:
  "rotationalEnergy (calculateCushionReboundWith p g ball cushion impactSpeed)
     \<le> rotationalEnergy ball"
proof -
  have "0 \<le> MOMENT_OF_INERTIA"
    by (simp add: MOMENT_OF_INERTIA_def mass_def radius_def)
  then have half: "0 \<le> 0.5 * MOMENT_OF_INERTIA" by simp
  have "0 \<le> X (angularVelocity ball) * X (angularVelocity ball)
          + Z (angularVelocity ball) * Z (angularVelocity ball)"
    by simp
  then have "0 \<le> 0.0975 * (X (angularVelocity ball) * X (angularVelocity ball)
                          + Z (angularVelocity ball) * Z (angularVelocity ball))"
    by simp
  moreover have "0 \<le> 0.36 * (Y (angularVelocity ball) * Y (angularVelocity ball))"
    by simp
  ultimately have "0 \<le> 0.0975 * (X (angularVelocity ball) * X (angularVelocity ball)
                          + Z (angularVelocity ball) * Z (angularVelocity ball))
          + 0.36 * (Y (angularVelocity ball) * Y (angularVelocity ball))"
    by (rule add_nonneg_nonneg)
  with half have "0 \<le> 0.5 * MOMENT_OF_INERTIA
         * (0.0975 * (X (angularVelocity ball) * X (angularVelocity ball)
                    + Z (angularVelocity ball) * Z (angularVelocity ball))
          + 0.36 * (Y (angularVelocity ball) * Y (angularVelocity ball)))"
    by (rule mult_nonneg_nonneg)
  then show ?thesis
    unfolding rebound_rotational_balance by simp
qed

lemma rebound_kinetic_energy:
  assumes slower: "\<bar>newVelTangentOf ball cushion\<bar> \<le> \<bar>velTangentOf ball cushion\<bar>"
  shows "kineticEnergy (calculateCushionReboundWith p g ball cushion impactSpeed)
           \<le> kineticEnergy ball"
proof (rule disjE [OF cushionNormal_unit_or_zero [of cushion]])
  let ?vn = "velNormalOf ball cushion" and ?vt = "velTangentOf ball cushion"
  let ?cor = "effectiveCoRWith p g (incidenceAngleDeg ?vt ?vn) impactSpeed"
  let ?wt = "newVelTangentOf ball cushion"
  assume unit: "fst (cushionNormal cushion) * fst (cushionNormal cushion)
               + snd (cushionNormal cushion) * snd (cushionNormal cushion) = 1"
  have n: "(?vn * ?cor) * (?vn * ?cor) \<le> ?vn * ?vn"
    using effectiveCoRWith_range [of p g "incidenceAngleDeg ?vt ?vn" impactSpeed]
    by (intro square_shrinks) simp_all
  have "\<bar>?wt\<bar> * \<bar>?wt\<bar> \<le> \<bar>?vt\<bar> * \<bar>?vt\<bar>"
    using slower by (intro mult_mono) simp_all
  then have t: "?wt * ?wt \<le> ?vt * ?vt" by simp
  have "(?vn * ?cor) * (?vn * ?cor) + ?wt * ?wt \<le> ?vn * ?vn + ?vt * ?vt"
    using n t by (rule add_mono)
  then have "0.5 * mass * ((?vn * ?cor) * (?vn * ?cor) + ?wt * ?wt)
               \<le> 0.5 * mass * (?vn * ?vn + ?vt * ?vt)"
    by (intro mult_left_mono) (simp_all add: mass_def)
  then show ?thesis
    by (simp only: rebound_kinetic_after [OF unit] rebound_kinetic_before [OF unit, of ball])
next
  assume "cushionNormal cushion = (0, 0)"
  then show ?thesis
    unfolding kineticEnergy_eq rebound_velocity_With by (simp add: mass_def)
qed

lemma rebound_total_energy:
  assumes "\<bar>newVelTangentOf ball cushion\<bar> \<le> \<bar>velTangentOf ball cushion\<bar>"
  shows "totalEnergy (calculateCushionReboundWith p g ball cushion impactSpeed)
           \<le> totalEnergy ball"
  unfolding totalEnergy_def
  using rebound_kinetic_energy [OF assms] rebound_rotational_energy by (rule add_mono)

text \<open>
  Without side spin the new tangential velocity is the old one times the tangent
  retention, which is at most 0.97, times the grip factor.
\<close>

lemma grip_keeps_tangential_speed:
  assumes side: "Y (angularVelocity ball) = 0"
    and grip: "\<bar>gripFactorOf ball cushion\<bar> \<le> 100 / 97"
  shows "\<bar>newVelTangentOf ball cushion\<bar> \<le> \<bar>velTangentOf ball cushion\<bar>"
proof -
  let ?vn = "velNormalOf ball cushion" and ?vt = "velTangentOf ball cushion"
  let ?ret = "tangentRetentionOf (incidenceAngleDeg ?vt ?vn)"
  let ?g = "gripFactorOf ball cushion"
  have wt: "newVelTangentOf ball cushion = ?vt * (?ret * ?g)"
    by (simp add: newVelTangentOf_def Let_def side)
  have ret: "0 \<le> ?ret" "?ret \<le> 0.97"
    using tangentRetention_range [of "incidenceAngleDeg ?vt ?vn"] incidence_nonneg [of ?vt ?vn]
    by simp_all
  have "\<bar>?ret * ?g\<bar> = ?ret * \<bar>?g\<bar>" using ret(1) by (simp add: abs_mult)
  also have "\<dots> \<le> 0.97 * (100 / 97)"
    using ret grip by (intro mult_mono) simp_all
  finally have "\<bar>?ret * ?g\<bar> \<le> 1" by simp
  then have "\<bar>?vt\<bar> * \<bar>?ret * ?g\<bar> \<le> \<bar>?vt\<bar> * 1"
    by (intro mult_left_mono) simp_all
  then show ?thesis
    unfolding wt by (simp add: abs_mult)
qed

subsection \<open>The roller at the left cushion\<close>

lemma roller_components:
  "velNormalOf rollerBall ''left'' = - 1"
  "velTangentOf rollerBall ''left'' = - 1"
  "gripFactorOf rollerBall ''left'' = 1.0084"
  "Y (angularVelocity rollerBall) = 0"
  by (simp_all add: velNormalOf_def velTangentOf_def gripFactorOf_def cushionNormal_def
        rollerBall_def BallState_new_def radius_def height_ratio_def)

lemma roller_angle: "incidenceAngleDeg (- 1) (- 1) = 45"
  by (simp add: incidenceAngleDeg_def atan2_def arctan_one)

lemma roller_new_tangential: "newVelTangentOf rollerBall ''left'' = - 0.978148"
  by (simp add: newVelTangentOf_def Let_def roller_components roller_angle tangentRetentionOf_def)

text \<open>
  Claim C2, amended.  Let \<open>calculateBallCollisionWith e\<close> be \<^verbatim>\<open>calculateBallCollision\<close> with
  restitution \<open>e\<close>, and \<open>calculateCushionReboundWith p g\<close> be \<^verbatim>\<open>calculateCushionRebound\<close>
  with the restitution anchors \<open>p\<close> and \<open>g\<close>; the shipped functions are the case
  \<open>e = 0.98\<close>, \<open>p = 0.80\<close>, \<open>g = 0.94\<close>.  Write \<open>dvn\<close> for the closing velocity, \<open>dvt\<close> for
  the tangential relative velocity, \<open>\<omega>\<^sub>y R\<close> for the surface speed of the striking ball's
  side spin, \<open>T = dvt + \<omega>\<^sub>y R\<close> for the total tangential velocity and \<open>J\<^sub>t\<close> for the friction
  impulse.

  \<^item> In every collision that exchanges an impulse, with any restitution \<open>e\<close>, the kinetic
    energy of the pair in the table plane after the event is that before, less
    \<open>m (1 - e\<^sup>2) dvn\<^sup>2 / 4\<close>, plus \<open>J\<^sub>t (J\<^sub>t / m - dvt)\<close>.
  \<^item> For every pair of balls and every restitution \<open>-1 \<le> e \<le> 1\<close>: if
    \<open>|\<omega>\<^sub>y R| \<le> |dvt|\<close> (in particular without side spin), the kinetic energy of the pair
    after the call is at most that before.
  \<^item> For every pair of balls and every restitution \<open>e \<ge> -1\<close> with
    \<open>0.002304 (1 + e) \<le> 1 - e\<close> (that is \<open>e \<le> 0.9954\<close>, which the shipped 0.98 satisfies;
    \<open>0.002304 = (0.04 \<times> 1.2)\<^sup>2\<close> comes from the ball friction and the friction
    accumulation): if \<open>T dvt \<ge> 0\<close>, the kinetic energy of the pair after the call is at
    most that before.
  \<^item> In every rebound from one of the four cushions, with any restitution anchors and any
    impact speed, kinetic plus rotational energy after the event is that before, less
    \<open>m ((1 - cor\<^sup>2) v\<^sub>n\<^sup>2 + v\<^sub>t\<^sup>2 - v\<^sub>t'\<^sup>2) / 2\<close> and less
    \<open>I (0.0975 (\<omega>\<^sub>x\<^sup>2 + \<omega>\<^sub>z\<^sup>2) + 0.36 \<omega>\<^sub>y\<^sup>2) / 2\<close>, where \<open>cor\<close> is the effective
    restitution, \<open>v\<^sub>n\<close> and \<open>v\<^sub>t\<close> the velocity components along the rail normal and
    along the rail, and \<open>v\<^sub>t'\<close> the new component along the rail.
  \<^item> For every ball, cushion name, restitution anchors and impact speed: if the rebound
    does not raise the speed along the rail (\<open>|v\<^sub>t'| \<le> |v\<^sub>t|\<close>), kinetic plus rotational
    energy after the event is at most that before; this is so in particular for a ball
    without side spin whose grip factor is at most \<open>100/97\<close> in size.
\<close>

theorem energy_not_increased:
  "calculateBallCollision ballA ballB
     = calculateBallCollisionWith restitution_ball_ball ballA ballB
   \<and> calculateCushionRebound ball cushion impactSpeed
     = calculateCushionReboundWith restitution_perpendicular restitution_glancing
         ball cushion impactSpeed
   \<and> (impulseExchanged ballA ballB \<longrightarrow>
        kineticEnergy (res_ballA (calculateBallCollisionWith e ballA ballB))
      + kineticEnergy (res_ballB (calculateBallCollisionWith e ballA ballB))
      = kineticEnergy ballA + kineticEnergy ballB
        - mass * ((1 - e * e) / 4) * (closingVelocity ballA ballB * closingVelocity ballA ballB)
        + throwImpulseWith e ballA ballB
            * (throwImpulseWith e ballA ballB / mass - tangentialVelocity ballA ballB))
   \<and> (- 1 \<le> e \<and> e \<le> 1
        \<and> \<bar>Y (angularVelocity ballA) * radius\<bar> \<le> \<bar>tangentialVelocity ballA ballB\<bar> \<longrightarrow>
        kineticEnergy (res_ballA (calculateBallCollisionWith e ballA ballB))
      + kineticEnergy (res_ballB (calculateBallCollisionWith e ballA ballB))
      \<le> kineticEnergy ballA + kineticEnergy ballB)
   \<and> (- 1 \<le> e \<and> 0.002304 * (1 + e) \<le> 1 - e
        \<and> 0 \<le> totalTangentVelocity ballA ballB * tangentialVelocity ballA ballB \<longrightarrow>
        kineticEnergy (res_ballA (calculateBallCollisionWith e ballA ballB))
      + kineticEnergy (res_ballB (calculateBallCollisionWith e ballA ballB))
      \<le> kineticEnergy ballA + kineticEnergy ballB)
   \<and> (cushion \<in> {''left'', ''right'', ''top'', ''bottom''} \<longrightarrow>
        totalEnergy (calculateCushionReboundWith p g ball cushion impactSpeed)
        = totalEnergy ball
          - 0.5 * mass
            * ((1 - effectiveCoRWith p g
                      (incidenceAngleDeg (velTangentOf ball cushion) (velNormalOf ball cushion))
                      impactSpeed
                    * effectiveCoRWith p g
                      (incidenceAngleDeg (velTangentOf ball cushion) (velNormalOf ball cushion))
                      impactSpeed)
                * (velNormalOf ball cushion * velNormalOf ball cushion)
             + (velTangentOf ball cushion * velTangentOf ball cushion
                - newVelTangentOf ball cushion * newVelTangentOf ball cushion))
          - 0.5 * MOMENT_OF_INERTIA
            * (0.0975 * (X (angularVelocity ball) * X (angularVelocity ball)
                       + Z (angularVelocity ball) * Z (angularVelocity ball))
             + 0.36 * (Y (angularVelocity ball) * Y (angularVelocity ball))))
   \<and> (\<bar>newVelTangentOf ball cushion\<bar> \<le> \<bar>velTangentOf ball cushion\<bar> \<longrightarrow>
        totalEnergy (calculateCushionReboundWith p g ball cushion impactSpeed)
          \<le> totalEnergy ball)
   \<and> (Y (angularVelocity ball) = 0 \<and> \<bar>gripFactorOf ball cushion\<bar> \<le> 100 / 97 \<longrightarrow>
        totalEnergy (calculateCushionReboundWith p g ball cushion impactSpeed)
          \<le> totalEnergy ball)"
proof (intro conjI impI)
  show "calculateBallCollision ballA ballB
     = calculateBallCollisionWith restitution_ball_ball ballA ballB"
    by (rule calculateBallCollision_With)
  show "calculateCushionRebound ball cushion impactSpeed
     = calculateCushionReboundWith restitution_perpendicular restitution_glancing
         ball cushion impactSpeed"
    by (rule calculateCushionRebound_With)
next
  assume "impulseExchanged ballA ballB"
  then show "kineticEnergy (res_ballA (calculateBallCollisionWith e ballA ballB))
      + kineticEnergy (res_ballB (calculateBallCollisionWith e ballA ballB))
      = kineticEnergy ballA + kineticEnergy ballB
        - mass * ((1 - e * e) / 4) * (closingVelocity ballA ballB * closingVelocity ballA ballB)
        + throwImpulseWith e ballA ballB
            * (throwImpulseWith e ballA ballB / mass - tangentialVelocity ballA ballB)"
    by (rule collision_energy_balance)
next
  assume "- 1 \<le> e \<and> e \<le> 1
        \<and> \<bar>Y (angularVelocity ballA) * radius\<bar> \<le> \<bar>tangentialVelocity ballA ballB\<bar>"
  then show "kineticEnergy (res_ballA (calculateBallCollisionWith e ballA ballB))
      + kineticEnergy (res_ballB (calculateBallCollisionWith e ballA ballB))
      \<le> kineticEnergy ballA + kineticEnergy ballB"
    by (simp add: collision_small_spin)
next
  assume "- 1 \<le> e \<and> 0.002304 * (1 + e) \<le> 1 - e
        \<and> 0 \<le> totalTangentVelocity ballA ballB * tangentialVelocity ballA ballB"
  then show "kineticEnergy (res_ballA (calculateBallCollisionWith e ballA ballB))
      + kineticEnergy (res_ballB (calculateBallCollisionWith e ballA ballB))
      \<le> kineticEnergy ballA + kineticEnergy ballB"
    by (intro collision_budget) simp_all
next
  assume "cushion \<in> {''left'', ''right'', ''top'', ''bottom''}"
  then show "totalEnergy (calculateCushionReboundWith p g ball cushion impactSpeed)
        = totalEnergy ball
          - 0.5 * mass
            * ((1 - effectiveCoRWith p g
                      (incidenceAngleDeg (velTangentOf ball cushion) (velNormalOf ball cushion))
                      impactSpeed
                    * effectiveCoRWith p g
                      (incidenceAngleDeg (velTangentOf ball cushion) (velNormalOf ball cushion))
                      impactSpeed)
                * (velNormalOf ball cushion * velNormalOf ball cushion)
             + (velTangentOf ball cushion * velTangentOf ball cushion
                - newVelTangentOf ball cushion * newVelTangentOf ball cushion))
          - 0.5 * MOMENT_OF_INERTIA
            * (0.0975 * (X (angularVelocity ball) * X (angularVelocity ball)
                       + Z (angularVelocity ball) * Z (angularVelocity ball))
             + 0.36 * (Y (angularVelocity ball) * Y (angularVelocity ball)))"
    by (rule rebound_energy_balance)
next
  assume "\<bar>newVelTangentOf ball cushion\<bar> \<le> \<bar>velTangentOf ball cushion\<bar>"
  then show "totalEnergy (calculateCushionReboundWith p g ball cushion impactSpeed)
          \<le> totalEnergy ball"
    by (rule rebound_total_energy)
next
  assume "Y (angularVelocity ball) = 0 \<and> \<bar>gripFactorOf ball cushion\<bar> \<le> 100 / 97"
  then have "\<bar>newVelTangentOf ball cushion\<bar> \<le> \<bar>velTangentOf ball cushion\<bar>"
    by (simp add: grip_keeps_tangential_speed)
  then show "totalEnergy (calculateCushionReboundWith p g ball cushion impactSpeed)
          \<le> totalEnergy ball"
    by (rule rebound_total_energy)
qed

theorem energy_not_increased_witness:
  "impulseExchanged headOnA headOnB
   \<and> kineticEnergy (res_ballA (calculateBallCollisionWith 1 headOnA headOnB))
     + kineticEnergy (res_ballB (calculateBallCollisionWith 1 headOnA headOnB))
     = kineticEnergy headOnA + kineticEnergy headOnB
   \<and> \<bar>Y (angularVelocity headOnA) * radius\<bar> \<le> \<bar>tangentialVelocity headOnA headOnB\<bar>
   \<and> kineticEnergy (res_ballA (calculateBallCollisionWith 0 headOnA headOnB))
     + kineticEnergy (res_ballB (calculateBallCollisionWith 0 headOnA headOnB))
     \<le> kineticEnergy headOnA + kineticEnergy headOnB
   \<and> 0 \<le> totalTangentVelocity spinningHeadOnA headOnB
           * tangentialVelocity spinningHeadOnA headOnB
   \<and> kineticEnergy (res_ballA (calculateBallCollision spinningHeadOnA headOnB))
     + kineticEnergy (res_ballB (calculateBallCollision spinningHeadOnA headOnB))
     \<le> kineticEnergy spinningHeadOnA + kineticEnergy headOnB
   \<and> ''left'' \<in> {''left'', ''right'', ''top'', ''bottom''}
   \<and> totalEnergy rollerBall = 497 / 2500
   \<and> totalEnergy (calculateCushionRebound rollerBall ''left'' 1)
     = 11094912445299 / 62500000000000
   \<and> \<bar>newVelTangentOf rollerBall ''left''\<bar> \<le> \<bar>velTangentOf rollerBall ''left''\<bar>
   \<and> Y (angularVelocity rollerBall) = 0
   \<and> \<bar>gripFactorOf rollerBall ''left''\<bar> \<le> 100 / 97
   \<and> totalEnergy (calculateCushionRebound rollerBall ''left'' 1) \<le> totalEnergy rollerBall"
proof -
  note elastic = energy_not_increased
    [where ballA = headOnA and ballB = headOnB and e = 1 and ball = rollerBall
       and cushion = "''left''" and impactSpeed = 1
       and p = restitution_perpendicular and g = restitution_glancing]
  note plastic = energy_not_increased
    [where ballA = headOnA and ballB = headOnB and e = 0 and ball = rollerBall
       and cushion = "''left''" and impactSpeed = 1
       and p = restitution_perpendicular and g = restitution_glancing]
  note shipped = energy_not_increased
    [where ballA = spinningHeadOnA and ballB = headOnB and e = restitution_ball_ball
       and ball = rollerBall and cushion = "''left''" and impactSpeed = 1
       and p = restitution_perpendicular and g = restitution_glancing]
  have spin: "\<bar>Y (angularVelocity headOnA) * radius\<bar> \<le> \<bar>tangentialVelocity headOnA headOnB\<bar>"
    by (simp add: headOn_tangential) (simp add: example_defs)
  have along: "0 \<le> totalTangentVelocity spinningHeadOnA headOnB
                    * tangentialVelocity spinningHeadOnA headOnB"
    by (simp add: spinningHeadOn_tangential)
  have slower: "\<bar>newVelTangentOf rollerBall ''left''\<bar> \<le> \<bar>velTangentOf rollerBall ''left''\<bar>"
    by (simp add: roller_new_tangential roller_components)
  have grip: "\<bar>gripFactorOf rollerBall ''left''\<bar> \<le> 100 / 97"
    by (simp add: roller_components)
  have cor: "effectiveCoRWith restitution_perpendicular restitution_glancing 45 1
               = 22659 / 25000"
    by (simp add: effectiveCoRWith_def Let_def compression_factor_def restitution_glancing_def)
  have before: "totalEnergy rollerBall = 497 / 2500"
    by (simp add: totalEnergy_def kineticEnergy_eq rotationalEnergy_eq rollerBall_def
          BallState_new_def MOMENT_OF_INERTIA_def mass_def radius_def)
  have spins: "X (angularVelocity rollerBall) = 1 / radius"
    "Z (angularVelocity rollerBall) = - 1 / radius"
    by (simp_all add: rollerBall_def BallState_new_def)
  have a: "kineticEnergy (res_ballA (calculateBallCollisionWith 1 headOnA headOnB))
     + kineticEnergy (res_ballB (calculateBallCollisionWith 1 headOnA headOnB))
     = kineticEnergy headOnA + kineticEnergy headOnB"
    using elastic [THEN conjunct2, THEN conjunct2, THEN conjunct1] headOn_exchanged
    by (simp add: headOn_throw_With)
  have b: "kineticEnergy (res_ballA (calculateBallCollisionWith 0 headOnA headOnB))
     + kineticEnergy (res_ballB (calculateBallCollisionWith 0 headOnA headOnB))
     \<le> kineticEnergy headOnA + kineticEnergy headOnB"
    using plastic [THEN conjunct2, THEN conjunct2, THEN conjunct2, THEN conjunct1] spin
    by simp
  have c: "kineticEnergy (res_ballA (calculateBallCollision spinningHeadOnA headOnB))
     + kineticEnergy (res_ballB (calculateBallCollision spinningHeadOnA headOnB))
     \<le> kineticEnergy spinningHeadOnA + kineticEnergy headOnB"
    unfolding shipped [THEN conjunct1]
    using shipped [THEN conjunct2, THEN conjunct2, THEN conjunct2, THEN conjunct2,
                   THEN conjunct1] along
    by (simp add: restitution_ball_ball_def)
  have d: "totalEnergy (calculateCushionRebound rollerBall ''left'' 1)
     = 11094912445299 / 62500000000000"
    unfolding shipped [THEN conjunct2, THEN conjunct1]
    using shipped [THEN conjunct2, THEN conjunct2, THEN conjunct2, THEN conjunct2,
                   THEN conjunct2, THEN conjunct1]
    by (simp add: before roller_components roller_angle roller_new_tangential cor spins
          MOMENT_OF_INERTIA_def mass_def radius_def)
  have f: "totalEnergy (calculateCushionRebound rollerBall ''left'' 1) \<le> totalEnergy rollerBall"
    unfolding shipped [THEN conjunct2, THEN conjunct1]
    using shipped [THEN conjunct2, THEN conjunct2, THEN conjunct2, THEN conjunct2,
                   THEN conjunct2, THEN conjunct2, THEN conjunct2] grip
    by (simp add: roller_components)
  have h: "totalEnergy (calculateCushionRebound rollerBall ''left'' 1) \<le> totalEnergy rollerBall"
    unfolding shipped [THEN conjunct2, THEN conjunct1]
    using shipped [THEN conjunct2, THEN conjunct2, THEN conjunct2, THEN conjunct2,
                   THEN conjunct2, THEN conjunct2, THEN conjunct1] slower
    by simp
  show ?thesis
    using headOn_exchanged a spin b along c before d slower grip f h
    by (simp add: roller_components)
qed

end
